theory Spec2Isabelle
  imports Complex_Main "HOL-Library.Word"
begin

section \<open>Set-operation planning and append-relation translation (prepunion.c)\<close>

text \<open>
  A shallow embedding of \<^verbatim>\<open>src/backend/optimizer/prep/prepunion.c\<close>. Every function of
  that file that is embedded keeps its name. C conventions followed throughout:
  \<^item> \<^verbatim>\<open>ereport(ERROR, ...)\<close> and \<^verbatim>\<open>elog(ERROR, ...)\<close> do not return; a function that can
    reach one returns \<open>error + 'a\<close> with \<open>Inl\<close> for the error;
  \<^item> a dereference of a NULL list cell (\<^verbatim>\<open>lfirst(NULL)\<close>) is the value \<open>Inl Crash\<close>;
  \<^item> \<^verbatim>\<open>Assert\<close> is the production build's: it expands to nothing;
  \<^item> a \<^verbatim>\<open>List *\<close> is a HOL list, \<^verbatim>\<open>NIL\<close> is \<open>[]\<close>; a pointer that may be NULL is an
    \<open>option\<close>.
\<close>

subsection \<open>Errors\<close>

datatype error =
    FeatureNotSupported string string
  | DatatypeMismatch string
  | InternalError string
  | StatementTooComplex string
  | Crash

text \<open>
  \<open>FeatureNotSupported msg detail\<close> is an \<^verbatim>\<open>ereport\<close> with
  \<^verbatim>\<open>ERRCODE_FEATURE_NOT_SUPPORTED\<close>; \<open>DatatypeMismatch context\<close> is the error that
  \<^verbatim>\<open>coerce_to_common_type\<close> raises when no coercion exists, \<open>context\<close> being the construct it
  was given; \<open>InternalError msg\<close> is an \<^verbatim>\<open>elog(ERROR, msg)\<close>, the message with its format
  placeholders left as written in the source; \<open>StatementTooComplex msg\<close> is an
  \<^verbatim>\<open>ereport\<close> with \<^verbatim>\<open>ERRCODE_STATEMENT_TOO_COMPLEX\<close>; \<open>Crash\<close> is a read through NULL or
  outside an array.
\<close>

subsection \<open>Nodes\<close>

type_synonym Oid = nat
type_synonym Index = nat

definition InvalidOid :: Oid where
  "InvalidOid = 0"

definition OidIsValid :: "Oid \<Rightarrow> bool" where
  "OidIsValid objectId = (objectId \<noteq> InvalidOid)"

definition InvalidAttrNumber :: int where
  "InvalidAttrNumber = 0"

record Var =
  varno :: Index
  varattno :: int
  vartype :: Oid
  vartypmod :: int
  varcollid :: Oid
  varlevelsup :: Index
  varnoold :: Index

text \<open>
  \<^verbatim>\<open>makeVar\<close> (nodes/makefuncs.c) is the constructor of a \<^verbatim>\<open>Var\<close>: its six arguments are
  stored in the fields of the same names and \<^verbatim>\<open>varnoold\<close> starts as a copy of \<^verbatim>\<open>varno\<close>.
\<close>

definition makeVar :: "Index \<Rightarrow> int \<Rightarrow> Oid \<Rightarrow> int \<Rightarrow> Oid \<Rightarrow> Index \<Rightarrow> Var" where
  "makeVar vno vattno vtype vtypmod vcollid vlevelsup =
     \<lparr> varno = vno, varattno = vattno, vartype = vtype, vartypmod = vtypmod,
       varcollid = vcollid, varlevelsup = vlevelsup, varnoold = vno \<rparr>"

subsection \<open>Bitmapsets\<close>

text \<open>
  A \<^verbatim>\<open>Bitmapset\<close> (nodes/bitmapset.c) is a set of non-negative integers, NULL being the
  empty set. \<^verbatim>\<open>bms_is_member\<close> and \<^verbatim>\<open>bms_add_member\<close> reject a negative member with
  \<^verbatim>\<open>elog(ERROR, "negative bitmapset member not allowed")\<close>.
\<close>

type_synonym Bitmapset = "int set"

definition bms_is_member :: "int \<Rightarrow> Bitmapset \<Rightarrow> error + bool" where
  "bms_is_member x a =
     (if x < 0 then Inl (InternalError ''negative bitmapset member not allowed'')
      else Inr (x \<in> a))"

definition bms_add_member :: "Bitmapset \<Rightarrow> int \<Rightarrow> error + Bitmapset" where
  "bms_add_member a x =
     (if x < 0 then Inl (InternalError ''negative bitmapset member not allowed'')
      else Inr (insert x a))"

subsection \<open>translate_col_privs\<close>

text \<open>
  The first loop of \<^verbatim>\<open>translate_col_privs\<close>, over the system attribute numbers
  \<^verbatim>\<open>FirstLowInvalidHeapAttributeNumber + 1 .. -1\<close>. The constant
  \<^verbatim>\<open>FirstLowInvalidHeapAttributeNumber\<close> (access/sysattr.h) is the parameter \<open>flihan\<close>.
\<close>

fun translate_sys_attrs :: "int \<Rightarrow> Bitmapset \<Rightarrow> int list \<Rightarrow> Bitmapset \<Rightarrow> error + Bitmapset" where
  "translate_sys_attrs flihan parent_privs [] child_privs = Inr child_privs"
| "translate_sys_attrs flihan parent_privs (attno # rest) child_privs =
     (case bms_is_member (attno - flihan) parent_privs of
        Inl e \<Rightarrow> Inl e
      | Inr m \<Rightarrow>
          if m then
            (case bms_add_member child_privs (attno - flihan) of
               Inl e \<Rightarrow> Inl e
             | Inr c \<Rightarrow> translate_sys_attrs flihan parent_privs rest c)
          else translate_sys_attrs flihan parent_privs rest child_privs)"

text \<open>
  The second loop, over \<^verbatim>\<open>translated_vars\<close>; \<open>attno\<close> is the counter's value before the
  \<^verbatim>\<open>attno++\<close> of the iteration. A NULL entry (a dropped column) is \<open>None\<close>.
\<close>

fun translate_user_attrs ::
  "int \<Rightarrow> Bitmapset \<Rightarrow> bool \<Rightarrow> int \<Rightarrow> Var option list \<Rightarrow> Bitmapset \<Rightarrow> error + Bitmapset" where
  "translate_user_attrs flihan parent_privs whole_row attno [] child_privs = Inr child_privs"
| "translate_user_attrs flihan parent_privs whole_row attno (None # rest) child_privs =
     translate_user_attrs flihan parent_privs whole_row (attno + 1) rest child_privs"
| "translate_user_attrs flihan parent_privs whole_row attno (Some var # rest) child_privs =
     (case (if whole_row then Inr True
            else bms_is_member (attno + 1 - flihan) parent_privs) of
        Inl e \<Rightarrow> Inl e
      | Inr m \<Rightarrow>
          if m then
            (case bms_add_member child_privs (varattno var - flihan) of
               Inl e \<Rightarrow> Inl e
             | Inr c \<Rightarrow> translate_user_attrs flihan parent_privs whole_row (attno + 1) rest c)
          else translate_user_attrs flihan parent_privs whole_row (attno + 1) rest child_privs)"

definition translate_col_privs :: "int \<Rightarrow> Bitmapset \<Rightarrow> Var option list \<Rightarrow> error + Bitmapset" where
  "translate_col_privs flihan parent_privs translated_vars =
     (case translate_sys_attrs flihan parent_privs [flihan + 1 .. -1] {} of
        Inl e \<Rightarrow> Inl e
      | Inr child_privs \<Rightarrow>
          (case bms_is_member (InvalidAttrNumber - flihan) parent_privs of
             Inl e \<Rightarrow> Inl e
           | Inr whole_row \<Rightarrow>
               translate_user_attrs flihan parent_privs whole_row InvalidAttrNumber
                 translated_vars child_privs))"

text \<open>The privilege bits the specification of \<^verbatim>\<open>translate_col_privs\<close> describes.\<close>

definition sys_priv_bits :: "int \<Rightarrow> Bitmapset \<Rightarrow> Bitmapset" where
  "sys_priv_bits flihan parent_privs = {b \<in> parent_privs. 0 < b \<and> b < - flihan}"

definition user_priv_bits :: "int \<Rightarrow> Bitmapset \<Rightarrow> Var option list \<Rightarrow> Bitmapset" where
  "user_priv_bits flihan parent_privs translated_vars =
     {b. \<exists>i var. i < length translated_vars \<and> translated_vars ! i = Some var \<and>
           b = varattno var - flihan \<and>
           (- flihan \<in> parent_privs \<or> int i + 1 - flihan \<in> parent_privs)}"

definition live_attnos_positive :: "Var option list \<Rightarrow> bool" where
  "live_attnos_positive translated_vars =
     list_all (\<lambda>slot. case slot of None \<Rightarrow> True | Some var \<Rightarrow> 0 < varattno var) translated_vars"

subsection \<open>Expression nodes\<close>

datatype CoercionForm = COERCE_EXPLICIT_CALL | COERCE_EXPLICIT_CAST | COERCE_IMPLICIT_CAST

text \<open>
  The node kinds this file builds or inspects, each with the fields it sets or reads, in the
  order of their declaration in nodes/primnodes.h:
  \<^item> \<open>T_Const consttype consttypmod constcollid constlen constvalue constisnull constbyval\<close>;
  \<^item> \<open>T_RelabelType arg resulttype resulttypmod resultcollid relabelformat\<close>;
  \<^item> \<open>T_ConvertRowtypeExpr arg resulttype convertformat location\<close>;
  \<^item> \<open>T_RowExpr args row_typeid row_format colnames location\<close>, a NULL argument being \<open>None\<close>;
  \<^item> \<open>T_CurrentOfExpr cvarno cursor_name cursor_param\<close>;
  \<^item> \<open>T_RangeTblRef rtindex\<close>;
  \<^item> \<open>T_Expr tag args\<close>: any other expression node, \<open>tag\<close> standing for its node tag and
    scalar fields and \<open>args\<close> for the sub-expressions \<^verbatim>\<open>expression_tree_mutator\<close> visits.
\<close>

datatype Node =
    T_Var Var
  | T_Const Oid int Oid int int bool bool
  | T_RelabelType Node Oid int Oid CoercionForm
  | T_ConvertRowtypeExpr Node Oid CoercionForm int
  | T_RowExpr "Node option list" Oid CoercionForm "string list" int
  | T_CurrentOfExpr Index string int
  | T_RangeTblRef int
  | T_Expr string "Node list"

subsection \<open>Range table entries and append-relation maps\<close>

datatype RTEKind = RTE_RELATION | RTE_SUBQUERY | RTE_JOIN | RTE_FUNCTION | RTE_VALUES | RTE_CTE

record RangeTblEntry =
  rtekind :: RTEKind
  relid :: Oid
  relkind :: char
  inh :: bool
  requiredPerms :: nat
  selectedCols :: Bitmapset
  insertedCols :: Bitmapset
  updatedCols :: Bitmapset
  securityQuals :: "Node list"
  eref_colnames :: "string list"

record AppendRelInfo =
  parent_relid :: Index
  child_relid :: Index
  parent_reltype :: Oid
  child_reltype :: Oid
  translated_vars :: "Node option list"
  parent_reloid :: Oid

text \<open>
  \<^verbatim>\<open>rt_fetch(rangetable_index, rangetable)\<close> (parser/parsetree.h) is
  \<^verbatim>\<open>list_nth(rangetable, rangetable_index - 1)\<close>. An index outside \<open>1 .. length rangetable\<close>
  is outside \<^verbatim>\<open>list_nth\<close>'s contract; the model makes it a crash.
\<close>

definition rt_fetch :: "Index \<Rightarrow> RangeTblEntry list \<Rightarrow> error + RangeTblEntry" where
  "rt_fetch rangetable_index rangetable =
     (if 1 \<le> rangetable_index \<and> rangetable_index \<le> length rangetable
      then Inr (rangetable ! (rangetable_index - 1)) else Inl Crash)"

subsection \<open>adjust_appendrel_attrs\<close>

record adjust_appendrel_attrs_context =
  root_rtable :: "RangeTblEntry list"
  appinfos :: "AppendRelInfo list"

text \<open>
  The search loop shared by the branches of \<^verbatim>\<open>adjust_appendrel_attrs_mutator\<close>: the first
  \<^verbatim>\<open>appinfos[cnt]\<close> whose \<^verbatim>\<open>parent_relid\<close> is the given relation id, or NULL.
\<close>

fun find_appinfo :: "Index \<Rightarrow> AppendRelInfo list \<Rightarrow> AppendRelInfo option" where
  "find_appinfo rti [] = None"
| "find_appinfo rti (a # as) = (if rti = parent_relid a then Some a else find_appinfo rti as)"

definition attribute_does_not_exist :: error where
  "attribute_does_not_exist = InternalError ''attribute %d of relation \"%s\" does not exist''"

text \<open>
  The \<^verbatim>\<open>IsA(node, Var)\<close> branch of \<^verbatim>\<open>adjust_appendrel_attrs_mutator\<close>. \<^verbatim>\<open>copyObject\<close> gives a
  node equal to its argument.
\<close>

definition adjust_appendrel_attrs_var :: "adjust_appendrel_attrs_context \<Rightarrow> Var \<Rightarrow> error + Node" where
  "adjust_appendrel_attrs_var context var0 =
     (case find_appinfo (varno var0) (appinfos context) of
        None \<Rightarrow> Inr (T_Var var0)
      | Some appinfo \<Rightarrow>
          if varlevelsup var0 = 0 then
            (let var = var0 \<lparr> varno := child_relid appinfo, varnoold := child_relid appinfo \<rparr> in
             if varattno var > 0 then
               (if varattno var > int (length (translated_vars appinfo))
                then Inl attribute_does_not_exist
                else
                  (case translated_vars appinfo ! nat (varattno var - 1) of
                     None \<Rightarrow> Inl attribute_does_not_exist
                   | Some newnode \<Rightarrow> Inr newnode))
             else if varattno var = 0 then
               (if OidIsValid (child_reltype appinfo) then
                  (if parent_reltype appinfo \<noteq> child_reltype appinfo
                   then Inr (T_ConvertRowtypeExpr
                               (T_Var (var \<lparr> vartype := child_reltype appinfo \<rparr>))
                               (parent_reltype appinfo) COERCE_IMPLICIT_CAST (-1))
                   else Inr (T_Var var))
                else
                  (case rt_fetch (parent_relid appinfo) (root_rtable context) of
                     Inl e \<Rightarrow> Inl e
                   | Inr rte \<Rightarrow>
                       Inr (T_RowExpr (translated_vars appinfo) (vartype var)
                              COERCE_IMPLICIT_CAST (eref_colnames rte) (-1))))
             else Inr (T_Var var))
          else Inr (T_Var var0))"

text \<open>
  \<^verbatim>\<open>adjust_appendrel_attrs_mutator\<close> on the node kinds above. A node that is none of the
  special cases goes to \<^verbatim>\<open>expression_tree_mutator\<close> (nodes/nodeFuncs.c), which copies the
  node and applies the mutator to each sub-expression. The branches for \<^verbatim>\<open>JoinExpr\<close>,
  \<^verbatim>\<open>PlaceHolderVar\<close> and \<^verbatim>\<open>RestrictInfo\<close> are not embedded: those node kinds are not in
  \<open>Node\<close>.

  The \<^verbatim>\<open>rtindex\<close> of a \<^verbatim>\<open>RangeTblRef\<close> is an \<^verbatim>\<open>int\<close> and \<^verbatim>\<open>parent_relid\<close> an
  \<^verbatim>\<open>unsigned int\<close>: the comparison \<^verbatim>\<open>rtr->rtindex == appinfo->parent_relid\<close> converts
  \<^verbatim>\<open>rtindex\<close> to \<^verbatim>\<open>unsigned int\<close> (its value modulo \<open>2 ^ 32\<close>), and the assignment
  \<^verbatim>\<open>rtr->rtindex = appinfo->child_relid\<close> converts back (the low 32 bits, read as signed).
\<close>

fun adjust_appendrel_attrs_mutator :: "adjust_appendrel_attrs_context \<Rightarrow> Node \<Rightarrow> error + Node"
  and mutate_list :: "adjust_appendrel_attrs_context \<Rightarrow> Node list \<Rightarrow> error + Node list"
  and mutate_opt_list ::
    "adjust_appendrel_attrs_context \<Rightarrow> Node option list \<Rightarrow> error + Node option list" where
  "adjust_appendrel_attrs_mutator context (T_Var var) = adjust_appendrel_attrs_var context var"
| "adjust_appendrel_attrs_mutator context (T_CurrentOfExpr cvarno cursor_name cursor_param) =
     (case find_appinfo cvarno (appinfos context) of
        None \<Rightarrow> Inr (T_CurrentOfExpr cvarno cursor_name cursor_param)
      | Some appinfo \<Rightarrow> Inr (T_CurrentOfExpr (child_relid appinfo) cursor_name cursor_param))"
| "adjust_appendrel_attrs_mutator context (T_RangeTblRef rtindex) =
     (case find_appinfo (nat (take_bit 32 rtindex)) (appinfos context) of
        None \<Rightarrow> Inr (T_RangeTblRef rtindex)
      | Some appinfo \<Rightarrow>
          Inr (T_RangeTblRef (signed_take_bit 31 (int (child_relid appinfo)))))"
| "adjust_appendrel_attrs_mutator context (T_Const ty tm coll len v isnull byval) =
     Inr (T_Const ty tm coll len v isnull byval)"
| "adjust_appendrel_attrs_mutator context (T_RelabelType arg ty tm coll fmt) =
     (case adjust_appendrel_attrs_mutator context arg of
        Inl e \<Rightarrow> Inl e
      | Inr arg' \<Rightarrow> Inr (T_RelabelType arg' ty tm coll fmt))"
| "adjust_appendrel_attrs_mutator context (T_ConvertRowtypeExpr arg ty fmt loc) =
     (case adjust_appendrel_attrs_mutator context arg of
        Inl e \<Rightarrow> Inl e
      | Inr arg' \<Rightarrow> Inr (T_ConvertRowtypeExpr arg' ty fmt loc))"
| "adjust_appendrel_attrs_mutator context (T_RowExpr args ty fmt names loc) =
     (case mutate_opt_list context args of
        Inl e \<Rightarrow> Inl e
      | Inr args' \<Rightarrow> Inr (T_RowExpr args' ty fmt names loc))"
| "adjust_appendrel_attrs_mutator context (T_Expr tag args) =
     (case mutate_list context args of
        Inl e \<Rightarrow> Inl e
      | Inr args' \<Rightarrow> Inr (T_Expr tag args'))"
| "mutate_list context [] = Inr []"
| "mutate_list context (n # ns) =
     (case adjust_appendrel_attrs_mutator context n of
        Inl e \<Rightarrow> Inl e
      | Inr n' \<Rightarrow>
          (case mutate_list context ns of Inl e \<Rightarrow> Inl e | Inr ns' \<Rightarrow> Inr (n' # ns')))"
| "mutate_opt_list context [] = Inr []"
| "mutate_opt_list context (None # ns) =
     (case mutate_opt_list context ns of Inl e \<Rightarrow> Inl e | Inr ns' \<Rightarrow> Inr (None # ns'))"
| "mutate_opt_list context (Some n # ns) =
     (case adjust_appendrel_attrs_mutator context n of
        Inl e \<Rightarrow> Inl e
      | Inr n' \<Rightarrow>
          (case mutate_opt_list context ns of Inl e \<Rightarrow> Inl e | Inr ns' \<Rightarrow> Inr (Some n' # ns')))"

text \<open>
  \<^verbatim>\<open>adjust_appendrel_attrs\<close> on a bare expression tree (the \<^verbatim>\<open>Query\<close> case is not embedded);
  a NULL node stays NULL.
\<close>

definition adjust_appendrel_attrs ::
  "RangeTblEntry list \<Rightarrow> Node option \<Rightarrow> AppendRelInfo list \<Rightarrow> error + Node option" where
  "adjust_appendrel_attrs rtable node infos =
     (case node of
        None \<Rightarrow> Inr None
      | Some n \<Rightarrow>
          (case adjust_appendrel_attrs_mutator \<lparr> root_rtable = rtable, appinfos = infos \<rparr> n of
             Inl e \<Rightarrow> Inl e
           | Inr n' \<Rightarrow> Inr (Some n')))"

subsection \<open>Target lists\<close>

text \<open>
  \<^verbatim>\<open>AttrNumber\<close> is \<^verbatim>\<open>int16\<close> and \<^verbatim>\<open>Index\<close> is \<^verbatim>\<open>unsigned int\<close>. The source counts result
  numbers in an \<^verbatim>\<open>int\<close> and converts: \<^verbatim>\<open>(AttrNumber) resno++\<close> keeps the low 16 bits, read as
  signed, and \<^verbatim>\<open>tle->ressortgroupref = tle->resno\<close> converts the \<^verbatim>\<open>int16\<close> to \<^verbatim>\<open>unsigned int\<close>.
\<close>

definition AttrNumber_of_int :: "int \<Rightarrow> int" where
  "AttrNumber_of_int n = signed_take_bit 15 n"

definition Index_of_int :: "int \<Rightarrow> Index" where
  "Index_of_int n = nat (take_bit 32 n)"

record TargetEntry =
  expr :: "Node option"
  resno :: int
  resname :: string
  ressortgroupref :: Index
  resjunk :: bool

text \<open>
  \<^verbatim>\<open>makeTargetEntry\<close> (nodes/makefuncs.c) stores its four arguments and sets
  \<^verbatim>\<open>ressortgroupref\<close> to zero.
\<close>

definition makeTargetEntry :: "Node \<Rightarrow> int \<Rightarrow> string \<Rightarrow> bool \<Rightarrow> TargetEntry" where
  "makeTargetEntry e n name junk =
     \<lparr> expr = Some e, resno = n, resname = name, ressortgroupref = 0, resjunk = junk \<rparr>"

definition INT4OID :: Oid where
  "INT4OID = 23"

text \<open>
  The functions of nodes/nodeFuncs.c and parser/parse_coerce.c that the target-list builders
  call are parameters: the exposed type, typmod and collation of an expression (NULL
  included), and \<^verbatim>\<open>coerce_to_common_type\<close>, which returns the coerced expression, or raises
  its type-mismatch error when there is no coercion (\<open>None\<close>).
\<close>

record NodeFuncs =
  exprType :: "Node option \<Rightarrow> Oid"
  exprTypmod :: "Node option \<Rightarrow> int"
  exprCollation :: "Node option \<Rightarrow> Oid"
  coerce_to_common_type :: "Node \<Rightarrow> Oid \<Rightarrow> string \<Rightarrow> Node option"

definition is_Const :: "Node option \<Rightarrow> bool" where
  "is_Const e = (case e of Some (T_Const ty tm coll len v isnull byval) \<Rightarrow> True | _ \<Rightarrow> False)"

subsection \<open>generate_setop_tlist\<close>

text \<open>
  The expression of one output column of \<^verbatim>\<open>generate_setop_tlist\<close>: the input's constant
  copied up or a Var referencing the input column, then the coercion to the column type,
  then the relabelling to the column collation.
\<close>

definition setop_column_expr ::
  "NodeFuncs \<Rightarrow> Index \<Rightarrow> bool \<Rightarrow> Oid \<Rightarrow> Oid \<Rightarrow> TargetEntry \<Rightarrow> error + Node" where
  "setop_column_expr nf vno hack_constants colType colColl inputtle =
     (let e1 = (case expr inputtle of
                  Some c \<Rightarrow>
                    if hack_constants \<and> is_Const (Some c) then c
                    else T_Var (makeVar vno (resno inputtle) (exprType nf (expr inputtle))
                                  (exprTypmod nf (expr inputtle))
                                  (exprCollation nf (expr inputtle)) 0)
                | None \<Rightarrow>
                    T_Var (makeVar vno (resno inputtle) (exprType nf (expr inputtle))
                             (exprTypmod nf (expr inputtle))
                             (exprCollation nf (expr inputtle)) 0))
      in case (if exprType nf (Some e1) \<noteq> colType
               then (case coerce_to_common_type nf e1 colType ''UNION/INTERSECT/EXCEPT'' of
                       None \<Rightarrow> Inl (DatatypeMismatch ''UNION/INTERSECT/EXCEPT'')
                     | Some e \<Rightarrow> Inr e)
               else Inr e1) of
           Inl err \<Rightarrow> Inl err
         | Inr e2 \<Rightarrow>
             Inr (if exprCollation nf (Some e2) \<noteq> colColl
                  then T_RelabelType e2 (exprType nf (Some e2)) (exprTypmod nf (Some e2)) colColl
                         COERCE_IMPLICIT_CAST
                  else e2))"

text \<open>
  The \<^verbatim>\<open>forthree\<close> loop of \<^verbatim>\<open>generate_setop_tlist\<close>: it runs while \<^verbatim>\<open>colTypes\<close>,
  \<^verbatim>\<open>colCollations\<close> and \<^verbatim>\<open>input_tlist\<close> all have a cell left; \<^verbatim>\<open>refnames_tlist\<close> is chased by
  hand, and reading its cell when it has run out is a NULL dereference. The result is the
  list of entries appended and the value of \<^verbatim>\<open>resno\<close> after the loop.
\<close>

fun setop_tlist_loop ::
  "NodeFuncs \<Rightarrow> Index \<Rightarrow> bool \<Rightarrow> int \<Rightarrow> Oid list \<Rightarrow> Oid list \<Rightarrow> TargetEntry list \<Rightarrow>
     TargetEntry list \<Rightarrow> error + (TargetEntry list \<times> int)" where
  "setop_tlist_loop nf vno hack n (colType # ctl) (colColl # ccl) (inputtle # itl) rtl =
     (case rtl of
        [] \<Rightarrow> Inl Crash
      | reftle # rtl' \<Rightarrow>
          (case setop_column_expr nf vno hack colType colColl inputtle of
             Inl err \<Rightarrow> Inl err
           | Inr e \<Rightarrow>
               (let tle0 = makeTargetEntry e (AttrNumber_of_int n) (resname reftle) False;
                    tle = tle0 \<lparr> ressortgroupref := Index_of_int (resno tle0) \<rparr>
                in case setop_tlist_loop nf vno hack (n + 1) ctl ccl itl rtl' of
                     Inl err \<Rightarrow> Inl err
                   | Inr (tles, n') \<Rightarrow> Inr (tle # tles, n'))))"
| "setop_tlist_loop nf vno hack n ctl ccl itl rtl = Inr ([], n)"

definition generate_setop_tlist ::
  "NodeFuncs \<Rightarrow> Oid list \<Rightarrow> Oid list \<Rightarrow> int \<Rightarrow> Index \<Rightarrow> bool \<Rightarrow> TargetEntry list \<Rightarrow>
     TargetEntry list \<Rightarrow> error + TargetEntry list" where
  "generate_setop_tlist nf colTypes colCollations flag vno hack_constants input_tlist
       refnames_tlist =
     (case setop_tlist_loop nf vno hack_constants 1 colTypes colCollations input_tlist
             refnames_tlist of
        Inl err \<Rightarrow> Inl err
      | Inr (tlist, n) \<Rightarrow>
          if flag \<ge> 0 then
            Inr (tlist @ [makeTargetEntry (T_Const INT4OID (-1) InvalidOid 4 flag False True)
                            (AttrNumber_of_int n) ''flag'' True])
          else Inr tlist)"

subsection \<open>generate_append_tlist\<close>

text \<open>
  The typmod pass over one sub-plan's target list. \<open>first\<close> says whether the list is the head
  of \<^verbatim>\<open>input_tlists\<close>, \<open>ctl\<close> is what is left of \<^verbatim>\<open>colTypes\<close> from \<^verbatim>\<open>curColType\<close> on and \<open>ci\<close> is
  \<^verbatim>\<open>colindex\<close>. Reading \<^verbatim>\<open>lfirst_oid(curColType)\<close> when \<^verbatim>\<open>curColType\<close> has run out is a NULL
  dereference.
\<close>

fun append_typmods_sub ::
  "NodeFuncs \<Rightarrow> bool \<Rightarrow> Oid list \<Rightarrow> nat \<Rightarrow> TargetEntry list \<Rightarrow> int list \<Rightarrow> error + int list" where
  "append_typmods_sub nf first ctl ci [] tms = Inr tms"
| "append_typmods_sub nf first ctl ci (subtle # rest) tms =
     (if resjunk subtle then append_typmods_sub nf first ctl ci rest tms
      else
        (case ctl of
           [] \<Rightarrow> Inl Crash
         | curColType # ctl' \<Rightarrow>
             (let tms' =
                (if exprType nf (expr subtle) = curColType then
                   (let subtypmod = exprTypmod nf (expr subtle) in
                    if first then tms[ci := subtypmod]
                    else if subtypmod \<noteq> tms ! ci then tms[ci := -1]
                    else tms)
                 else tms[ci := -1])
              in append_typmods_sub nf first ctl' (ci + 1) rest tms')))"

fun append_typmods ::
  "NodeFuncs \<Rightarrow> bool \<Rightarrow> Oid list \<Rightarrow> TargetEntry list list \<Rightarrow> int list \<Rightarrow> error + int list" where
  "append_typmods nf first colTypes [] tms = Inr tms"
| "append_typmods nf first colTypes (subtlist # rest) tms =
     (case append_typmods_sub nf first colTypes 0 subtlist tms of
        Inl err \<Rightarrow> Inl err
      | Inr tms' \<Rightarrow> append_typmods nf False colTypes rest tms')"

text \<open>
  The \<^verbatim>\<open>forthree\<close> loop that builds the Append's target list; \<open>tms\<close> is what is left of
  \<^verbatim>\<open>colTypmods\<close> from \<^verbatim>\<open>colindex\<close> on (the array has one slot per element of \<^verbatim>\<open>colTypes\<close>).
\<close>

fun append_tlist_loop ::
  "int \<Rightarrow> Oid list \<Rightarrow> int list \<Rightarrow> Oid list \<Rightarrow> TargetEntry list \<Rightarrow> TargetEntry list \<times> int" where
  "append_tlist_loop n (colType # ctl) (colTypmod # tms) (colColl # ccl) (reftle # rtl) =
     (let e = T_Var (makeVar 0 (AttrNumber_of_int n) colType colTypmod colColl 0);
          tle0 = makeTargetEntry e (AttrNumber_of_int n) (resname reftle) False;
          tle = tle0 \<lparr> ressortgroupref := Index_of_int (resno tle0) \<rparr>;
          r = append_tlist_loop (n + 1) ctl tms ccl rtl
      in (tle # fst r, snd r))"
| "append_tlist_loop n ctl tms ccl rtl = ([], n)"

text \<open>
  \<^verbatim>\<open>generate_append_tlist\<close>. \<^verbatim>\<open>palloc\<close> does not initialise \<^verbatim>\<open>colTypmods\<close>: \<open>fresh i\<close> is what
  slot \<open>i\<close> of the new array holds.
\<close>

definition generate_append_tlist ::
  "NodeFuncs \<Rightarrow> (nat \<Rightarrow> int) \<Rightarrow> Oid list \<Rightarrow> Oid list \<Rightarrow> bool \<Rightarrow> TargetEntry list list \<Rightarrow>
     TargetEntry list \<Rightarrow> error + TargetEntry list" where
  "generate_append_tlist nf fresh colTypes colCollations flag input_tlists refnames_tlist =
     (case append_typmods nf True colTypes input_tlists (map fresh [0 ..< length colTypes]) of
        Inl err \<Rightarrow> Inl err
      | Inr colTypmods \<Rightarrow>
          (let r = append_tlist_loop 1 colTypes colTypmods colCollations refnames_tlist;
               tlist = fst r; n = snd r
           in if flag then
                Inr (tlist @ [makeTargetEntry
                                (T_Var (makeVar 0 (AttrNumber_of_int n) INT4OID (-1) InvalidOid 0))
                                (AttrNumber_of_int n) ''flag'' True])
              else Inr tlist))"

text \<open>
  The convention of the set-operation target lists: result numbers count from 1 without a
  gap; every entry but the flag column is not junk and carries its own result number as
  its sort/group reference; the flag column, when there is one, is the last entry, is junk
  and has sort/group reference zero.
\<close>

definition setop_tlist_convention :: "bool \<Rightarrow> TargetEntry list \<Rightarrow> bool" where
  "setop_tlist_convention has_flag tlist =
     (map resno tlist = map (\<lambda>i. int i + 1) [0 ..< length tlist] \<and>
      list_all (\<lambda>tle. \<not> resjunk tle \<and> int (ressortgroupref tle) = resno tle)
        (if has_flag then butlast tlist else tlist) \<and>
      (if has_flag
       then tlist \<noteq> [] \<and> resjunk (last tlist) \<and> ressortgroupref (last tlist) = 0
       else True))"

text \<open>
  The specification's rule for the typmod of an Append column, over the entries the
  sub-plans have at that column: the common typmod when every entry has the declared
  type and the typmod of the first, otherwise \<open>-1\<close>.
\<close>

definition agreed_typmod :: "NodeFuncs \<Rightarrow> Oid \<Rightarrow> TargetEntry list \<Rightarrow> int" where
  "agreed_typmod nf colType entries =
     (if list_all (\<lambda>tle. exprType nf (expr tle) = colType \<and>
                         exprTypmod nf (expr tle) = exprTypmod nf (expr (hd entries))) entries
      then exprTypmod nf (expr (hd entries)) else -1)"

definition nonjunk :: "TargetEntry list \<Rightarrow> TargetEntry list" where
  "nonjunk tlist = filter (\<lambda>tle. \<not> resjunk tle) tlist"

text \<open>
  What one iteration of the typmod pass leaves in the slot of its column, and what the
  passes over the entries of one column leave there, in the order of \<^verbatim>\<open>input_tlists\<close>.
\<close>

definition typmod_step :: "NodeFuncs \<Rightarrow> bool \<Rightarrow> Oid \<Rightarrow> int \<Rightarrow> TargetEntry \<Rightarrow> int" where
  "typmod_step nf first colType cur subtle =
     (if exprType nf (expr subtle) = colType then
        (if first then exprTypmod nf (expr subtle)
         else if exprTypmod nf (expr subtle) \<noteq> cur then -1 else cur)
      else -1)"

fun typmod_steps :: "NodeFuncs \<Rightarrow> bool \<Rightarrow> Oid \<Rightarrow> int \<Rightarrow> TargetEntry list \<Rightarrow> int" where
  "typmod_steps nf first colType cur [] = cur"
| "typmod_steps nf first colType cur (subtle # rest) =
     typmod_steps nf False colType (typmod_step nf first colType cur subtle) rest"

subsection \<open>Example collaborators\<close>

text \<open>
  A concrete \<open>NodeFuncs\<close> for the examples: the exposed type, typmod and collation of Vars,
  constants and relabelled expressions are read from the node (as nodes/nodeFuncs.c does for
  these kinds), and no coercion path exists between two different types.
\<close>

definition example_nf :: NodeFuncs where
  "example_nf =
     \<lparr> exprType = (\<lambda>e. case e of
                       Some (T_Var v) \<Rightarrow> vartype v
                     | Some (T_Const ty tm coll len v isnull byval) \<Rightarrow> ty
                     | Some (T_RelabelType a ty tm coll fmt) \<Rightarrow> ty
                     | _ \<Rightarrow> InvalidOid),
       exprTypmod = (\<lambda>e. case e of
                       Some (T_Var v) \<Rightarrow> vartypmod v
                     | Some (T_Const ty tm coll len v isnull byval) \<Rightarrow> tm
                     | Some (T_RelabelType a ty tm coll fmt) \<Rightarrow> tm
                     | _ \<Rightarrow> -1),
       exprCollation = (\<lambda>e. case e of
                       Some (T_Var v) \<Rightarrow> varcollid v
                     | Some (T_Const ty tm coll len v isnull byval) \<Rightarrow> coll
                     | Some (T_RelabelType a ty tm coll fmt) \<Rightarrow> coll
                     | _ \<Rightarrow> InvalidOid),
       coerce_to_common_type = (\<lambda>e ty ctx. None) \<rparr>"

definition example_tle :: "int \<Rightarrow> string \<Rightarrow> Oid \<Rightarrow> int \<Rightarrow> Oid \<Rightarrow> TargetEntry" where
  "example_tle n name ty tm coll =
     \<lparr> expr = Some (T_Var (makeVar 1 n ty tm coll 0)), resno = n, resname = name,
       ressortgroupref = 0, resjunk = False \<rparr>"

subsection \<open>Set-operation trees, paths and the planner's collaborators\<close>

datatype SetOperation = SETOP_NONE | SETOP_UNION | SETOP_INTERSECT | SETOP_EXCEPT

datatype SetOpCmd =
  SETOPCMD_INTERSECT | SETOPCMD_INTERSECT_ALL | SETOPCMD_EXCEPT | SETOPCMD_EXCEPT_ALL

datatype SetOpStrategy = SETOP_SORTED | SETOP_HASHED

record SortGroupClause =
  tleSortGroupRef :: Index
  eqop :: Oid
  sortop :: Oid
  nulls_first :: bool
  hashable :: bool

text \<open>
  A set-operation tree: a leaf \<open>RangeTblRef rtindex\<close>, a
  \<open>SetOperationStmt op all larg rarg colTypes colCollations groupClauses\<close>, or a node of
  another kind (\<open>UnrecognizedNode tag\<close>).
\<close>

datatype SetOpNode =
    RangeTblRef int
  | SetOp SetOperationStmt
  | UnrecognizedNode int
and SetOperationStmt =
    SetOperationStmt SetOperation bool SetOpNode SetOpNode "Oid list" "Oid list"
      "SortGroupClause list"

text \<open>
  A path records how it was built. The constructors stand for the path nodes this file
  makes through optimizer/util/pathnode.c, with the arguments it passes:
  \<^item> \<open>SubPlanPath rtindex fraction\<close>: what \<^verbatim>\<open>get_cheapest_fractional_path\<close> picks for the
    planned leaf subquery;
  \<^item> \<open>RemoteSubPath subpath\<close>: \<^verbatim>\<open>create_remotesubplan_path\<close>;
  \<^item> \<open>SubqueryScanPath rtindex subpath\<close>: \<^verbatim>\<open>create_subqueryscan_path\<close>;
  \<^item> \<open>ProjectionPath subpath tlist\<close>: a separate projection step;
  \<^item> \<open>AppendPath subpaths tlist\<close>: \<^verbatim>\<open>create_append_path\<close>, with the target list then stored
    into its \<^verbatim>\<open>pathtarget\<close>;
  \<^item> \<open>SortPath subpath pathkeys target\<close>: \<^verbatim>\<open>create_sort_path\<close>; \<open>target\<close> is \<open>Some tlist\<close> when
    the source stores a target list into the sort path afterwards;
  \<^item> \<open>AggPath subpath tlist groupClause numGroups\<close>: \<^verbatim>\<open>create_agg_path\<close> with \<^verbatim>\<open>AGG_HASHED\<close>;
  \<^item> \<open>UpperUniquePath subpath numCols numGroups\<close>: \<^verbatim>\<open>create_upper_unique_path\<close>;
  \<^item> \<open>SetOpPath subpath cmd strategy distinctList flagColIdx firstFlag numGroups outputRows\<close>:
    \<^verbatim>\<open>create_setop_path\<close>;
  \<^item> \<open>RecursiveUnionPath leftpath rightpath tlist distinctList wtParam numGroups\<close>:
    \<^verbatim>\<open>create_recursiveunion_path\<close>.
  The type \<open>'d\<close> is C's \<^verbatim>\<open>double\<close>.
\<close>

datatype 'd Path =
    SubPlanPath int 'd
  | RemoteSubPath "'d Path"
  | SubqueryScanPath int "'d Path"
  | ProjectionPath "'d Path" "TargetEntry list"
  | AppendPath "'d Path list" "TargetEntry list"
  | SortPath "'d Path" "nat list" "TargetEntry list option"
  | AggPath "'d Path" "TargetEntry list" "SortGroupClause list" 'd
  | UpperUniquePath "'d Path" nat 'd
  | SetOpPath "'d Path" SetOpCmd SetOpStrategy "SortGroupClause list" int int 'd 'd
  | RecursiveUnionPath "'d Path" "'d Path" "TargetEntry list" "SortGroupClause list" int 'd

text \<open>The fields of \<^verbatim>\<open>PlannerInfo\<close> that the set-operation planner reads or writes.\<close>

record 'd PlannerInfo =
  tuple_fraction :: 'd
  recursiveOk :: bool
  non_recursive_path :: "'d Path option"
  wt_param_id :: int

text \<open>
  What the planner reads after \<^verbatim>\<open>subquery_planner\<close> has planned a leaf subquery:
  \<^verbatim>\<open>subroot->processed_tlist\<close>, \<^verbatim>\<open>subroot->recursiveOk\<close>, whether \<^verbatim>\<open>root->plan_params\<close> is
  not empty, whether the chosen path has a distribution, and whether the subquery groups,
  aggregates or removes duplicates.
\<close>

record SubPlan =
  processed_tlist :: "TargetEntry list"
  sub_recursiveOk :: bool
  leaves_plan_params :: bool
  sub_distributed :: bool
  sub_grouped :: bool

text \<open>
  The collaborators outside this file are parameters:
  \<^item> the arithmetic of \<^verbatim>\<open>double\<close>: the conversion of an integer, \<open>+\<close>, \<open>*\<close>, \<open>/\<close>, \<open><\<close> and \<open><=\<close>
    (\<open>a > b\<close> is \<open>b < a\<close>, \<open>a >= b\<close> is \<open>b <= a\<close>);
  \<^item> what uninitialised memory holds: a fresh \<^verbatim>\<open>palloc\<close> array, a local \<^verbatim>\<open>double\<close>;
  \<^item> \<^verbatim>\<open>subquery_planner\<close> for the leaf with a given range-table index, under the current
    \<^verbatim>\<open>tuple_fraction\<close> and \<^verbatim>\<open>non_recursive_path\<close>, and \<^verbatim>\<open>estimate_num_groups\<close> for that leaf;
  \<^item> \<^verbatim>\<open>apply_projection_to_path\<close>, \<^verbatim>\<open>tlist_same_datatypes\<close>, \<^verbatim>\<open>tlist_same_collations\<close>,
    \<^verbatim>\<open>grouping_is_sortable\<close>, \<^verbatim>\<open>grouping_is_hashable\<close>, \<^verbatim>\<open>make_pathkeys_for_sortclauses\<close>
    (a path key being a number);
  \<^item> the settings \<^verbatim>\<open>enable_hashagg\<close> and \<^verbatim>\<open>work_mem\<close>, the macro \<^verbatim>\<open>MAXALIGN\<close> and the constant
    \<^verbatim>\<open>SizeofMinimalTupleHeader\<close>;
  \<^item> the estimates a path carries (\<^verbatim>\<open>rows\<close>, \<^verbatim>\<open>pathtarget->width\<close>, \<^verbatim>\<open>startup_cost\<close>,
    \<^verbatim>\<open>total_cost\<close>), the cost functions \<^verbatim>\<open>cost_agg\<close> (hashed, no aggregates), \<^verbatim>\<open>cost_sort\<close>
    (comparison cost 0, \<^verbatim>\<open>work_mem\<close>, no limit) and \<^verbatim>\<open>cost_group\<close>, each giving the pair of
    startup and total cost, and \<^verbatim>\<open>compare_fractional_path_costs\<close>.
\<close>

record 'd planner_env =
  nodefuncs :: NodeFuncs
  d_of_int :: "int \<Rightarrow> 'd"
  d_add :: "'d \<Rightarrow> 'd \<Rightarrow> 'd"
  d_mul :: "'d \<Rightarrow> 'd \<Rightarrow> 'd"
  d_div :: "'d \<Rightarrow> 'd \<Rightarrow> 'd"
  d_lt :: "'d \<Rightarrow> 'd \<Rightarrow> bool"
  d_le :: "'d \<Rightarrow> 'd \<Rightarrow> bool"
  palloc_junk :: "nat \<Rightarrow> int"
  uninit_double :: 'd
  subquery_planner :: "int \<Rightarrow> 'd \<Rightarrow> 'd Path option \<Rightarrow> SubPlan"
  estimate_num_groups :: "int \<Rightarrow> 'd \<Rightarrow> 'd"
  apply_projection_to_path :: "'d Path \<Rightarrow> TargetEntry list \<Rightarrow> 'd Path"
  tlist_same_datatypes :: "TargetEntry list \<Rightarrow> Oid list \<Rightarrow> bool \<Rightarrow> bool"
  tlist_same_collations :: "TargetEntry list \<Rightarrow> Oid list \<Rightarrow> bool \<Rightarrow> bool"
  grouping_is_sortable :: "SortGroupClause list \<Rightarrow> bool"
  grouping_is_hashable :: "SortGroupClause list \<Rightarrow> bool"
  make_pathkeys_for_sortclauses :: "SortGroupClause list \<Rightarrow> TargetEntry list \<Rightarrow> nat list"
  enable_hashagg :: bool
  work_mem :: int
  MAXALIGN :: "int \<Rightarrow> nat"
  SizeofMinimalTupleHeader :: int
  path_rows :: "'d Path \<Rightarrow> 'd"
  path_width :: "'d Path \<Rightarrow> int"
  path_startup_cost :: "'d Path \<Rightarrow> 'd"
  path_total_cost :: "'d Path \<Rightarrow> 'd"
  cost_agg :: "nat \<Rightarrow> 'd \<Rightarrow> 'd \<Rightarrow> 'd \<Rightarrow> 'd \<Rightarrow> 'd \<times> 'd"
  cost_sort :: "'d \<Rightarrow> 'd \<Rightarrow> int \<Rightarrow> 'd \<times> 'd"
  cost_group :: "nat \<Rightarrow> 'd \<Rightarrow> 'd \<Rightarrow> 'd \<Rightarrow> 'd \<Rightarrow> 'd \<times> 'd"
  compare_fractional_path_costs :: "'d \<times> 'd \<Rightarrow> 'd \<times> 'd \<Rightarrow> 'd \<Rightarrow> int"

text \<open>The macro \<^verbatim>\<open>Min(x, y)\<close> of c.h, \<^verbatim>\<open>((x) < (y) ? (x) : (y))\<close>, on doubles.\<close>

definition Min_double :: "'d planner_env \<Rightarrow> 'd \<Rightarrow> 'd \<Rightarrow> 'd" where
  "Min_double env x y = (if d_lt env x y then x else y)"

subsection \<open>choose_hashed_setop\<close>

definition could_not_implement :: "string \<Rightarrow> error" where
  "could_not_implement construct_name =
     FeatureNotSupported (''could not implement '' @ construct_name)
       ''Some of the datatypes only support hashing, while others only support sorting.''"

text \<open>
  \<^verbatim>\<open>hashentrysize\<close> is a \<^verbatim>\<open>Size\<close> (64 bits, unsigned) and \<^verbatim>\<open>work_mem * 1024L\<close> a \<^verbatim>\<open>long\<close>
  (64 bits, signed); both are converted to \<^verbatim>\<open>double\<close> for the comparison.
\<close>

definition choose_hashed_setop ::
  "'d planner_env \<Rightarrow> 'd PlannerInfo \<Rightarrow> SortGroupClause list \<Rightarrow> 'd Path \<Rightarrow> 'd \<Rightarrow> 'd \<Rightarrow> string \<Rightarrow>
     error + bool" where
  "choose_hashed_setop env proot groupClauses input_path dNumGroups dNumOutputRows construct_name =
     (let numGroupCols = length groupClauses;
          can_sort = grouping_is_sortable env groupClauses;
          can_hash = grouping_is_hashable env groupClauses
      in if \<not> (can_hash \<and> can_sort) then
           (if can_hash then Inr True
            else if can_sort then Inr False
            else Inl (could_not_implement construct_name))
         else if \<not> enable_hashagg env then Inr False
         else
           (let hashentrysize =
                  (MAXALIGN env (path_width env input_path) +
                   MAXALIGN env (SizeofMinimalTupleHeader env)) mod 2 ^ 64
            in if d_lt env (d_of_int env (signed_take_bit 63 (work_mem env * 1024)))
                    (d_mul env (d_of_int env (int hashentrysize)) dNumGroups)
               then Inr False
               else
                 (let hashed_p = cost_agg env numGroupCols dNumGroups
                                   (path_startup_cost env input_path)
                                   (path_total_cost env input_path) (path_rows env input_path);
                      sorted_p0 = cost_sort env (path_total_cost env input_path)
                                    (path_rows env input_path) (path_width env input_path);
                      sorted_p = cost_group env numGroupCols dNumGroups (fst sorted_p0)
                                   (snd sorted_p0) (path_rows env input_path);
                      fraction = (if d_le env (d_of_int env 1) (tuple_fraction proot)
                                  then d_div env (tuple_fraction proot) dNumOutputRows
                                  else tuple_fraction proot)
                  in if compare_fractional_path_costs env hashed_p sorted_p fraction < 0
                     then Inr True
                     else Inr False)))"

subsection \<open>generate_setop_grouplist\<close>

text \<open>
  The loop of \<^verbatim>\<open>generate_setop_grouplist\<close> over the target list; \<open>lg\<close> is what is left of the
  copied \<^verbatim>\<open>groupClauses\<close>. A non-junk column with no clause left reads \<^verbatim>\<open>lfirst(NULL)\<close>.
\<close>

fun setop_grouplist_loop ::
  "SortGroupClause list \<Rightarrow> TargetEntry list \<Rightarrow> error + SortGroupClause list" where
  "setop_grouplist_loop lg [] = Inr lg"
| "setop_grouplist_loop lg (tle # rest) =
     (if resjunk tle then setop_grouplist_loop lg rest
      else
        (case lg of
           [] \<Rightarrow> Inl Crash
         | sgc # lg' \<Rightarrow>
             (case setop_grouplist_loop lg' rest of
                Inl err \<Rightarrow> Inl err
              | Inr r \<Rightarrow> Inr (sgc \<lparr> tleSortGroupRef := ressortgroupref tle \<rparr> # r))))"

definition generate_setop_grouplist ::
  "SortGroupClause list \<Rightarrow> TargetEntry list \<Rightarrow> error + SortGroupClause list" where
  "generate_setop_grouplist groupClauses targetlist = setop_grouplist_loop groupClauses targetlist"

subsection \<open>The set-operation tree planner\<close>

text \<open>
  A planning function returns the updated \<^verbatim>\<open>PlannerInfo\<close>, the path, the target list stored
  through \<^verbatim>\<open>pTargetList\<close>, and what it stored through \<^verbatim>\<open>pNumGroups\<close>: \<open>None\<close> when it stored
  nothing there. The argument \<open>want\<close> says whether \<^verbatim>\<open>pNumGroups\<close> is not NULL.
\<close>

type_synonym 'd planned = "'d PlannerInfo \<times> 'd Path \<times> TargetEntry list \<times> 'd option"

definition make_union_unique ::
  "'d planner_env \<Rightarrow> 'd PlannerInfo \<Rightarrow> SortGroupClause list \<Rightarrow> 'd Path \<Rightarrow> TargetEntry list \<Rightarrow>
     error + 'd Path" where
  "make_union_unique env proot groupClauses path tlist =
     (case generate_setop_grouplist groupClauses tlist of
        Inl err \<Rightarrow> Inl err
      | Inr groupList \<Rightarrow>
          if groupList = [] then Inr path
          else
            (let dNumGroups = path_rows env path
             in case choose_hashed_setop env proot groupList path dNumGroups dNumGroups ''UNION'' of
                  Inl err \<Rightarrow> Inl err
                | Inr use_hash \<Rightarrow>
                    if use_hash then Inr (AggPath path tlist groupList dNumGroups)
                    else
                      (let pathkeys = make_pathkeys_for_sortclauses env groupList tlist
                       in Inr (UpperUniquePath (SortPath path pathkeys (Some tlist))
                                 (length pathkeys) dNumGroups))))"

text \<open>The \<^verbatim>\<open>IsA(setOp, RangeTblRef)\<close> branch of \<^verbatim>\<open>recurse_set_operations\<close>.\<close>

definition plan_leaf_subquery ::
  "'d planner_env \<Rightarrow> 'd PlannerInfo \<Rightarrow> int \<Rightarrow> Oid list \<Rightarrow> Oid list \<Rightarrow> int \<Rightarrow> TargetEntry list \<Rightarrow>
     bool \<Rightarrow> error + 'd planned" where
  "plan_leaf_subquery env proot rtindex colTypes colCollations flag refnames_tlist want =
     (let sub = subquery_planner env rtindex (tuple_fraction proot) (non_recursive_path proot);
          root1 = (if recursiveOk proot then proot \<lparr> recursiveOk := sub_recursiveOk sub \<rparr>
                   else proot)
      in if leaves_plan_params sub
         then Inl (InternalError ''unexpected outer reference in set operation subquery'')
         else
           (let subpath0 = SubPlanPath rtindex (tuple_fraction root1);
                subpath = (if sub_distributed sub then RemoteSubPath subpath0 else subpath0);
                path0 = SubqueryScanPath rtindex subpath
            in case generate_setop_tlist (nodefuncs env) colTypes colCollations flag
                      (Index_of_int rtindex) True (processed_tlist sub) refnames_tlist of
                 Inl err \<Rightarrow> Inl err
               | Inr tlist \<Rightarrow>
                   Inr (root1, apply_projection_to_path env path0 tlist, tlist,
                        if want then
                          Some (if sub_grouped sub then path_rows env subpath
                                else estimate_num_groups env rtindex (path_rows env subpath))
                        else None)))"

text \<open>
  The end of the \<^verbatim>\<open>IsA(setOp, SetOperationStmt)\<close> branch of \<^verbatim>\<open>recurse_set_operations\<close>: the
  projection added on top of what \<^verbatim>\<open>generate_union_path\<close> or \<^verbatim>\<open>generate_nonunion_path\<close>
  returned.
\<close>

definition project_setop_output ::
  "'d planner_env \<Rightarrow> Oid list \<Rightarrow> Oid list \<Rightarrow> bool \<Rightarrow> int \<Rightarrow> TargetEntry list \<Rightarrow> 'd planned \<Rightarrow>
     error + 'd planned" where
  "project_setop_output env colTypes colCollations junkOK flag refnames_tlist planned =
     (case planned of (root1, path, tlist, ngroups) \<Rightarrow>
        if flag \<ge> 0 \<or> \<not> tlist_same_datatypes env tlist colTypes junkOK \<or>
           \<not> tlist_same_collations env tlist colCollations junkOK
        then
          (case generate_setop_tlist (nodefuncs env) colTypes colCollations flag 0 False tlist
                  refnames_tlist of
             Inl err \<Rightarrow> Inl err
           | Inr tlist' \<Rightarrow>
               Inr (root1, apply_projection_to_path env path tlist', tlist', ngroups))
        else Inr (root1, path, tlist, ngroups))"

text \<open>
  \<^verbatim>\<open>generate_union_path\<close> from the point where the children's paths and target lists have
  been collected: \<open>root2\<close> is the \<^verbatim>\<open>PlannerInfo\<close> after planning the children.
\<close>

definition union_of_children ::
  "'d planner_env \<Rightarrow> 'd \<Rightarrow> bool \<Rightarrow> Oid list \<Rightarrow> Oid list \<Rightarrow> SortGroupClause list \<Rightarrow>
     TargetEntry list \<Rightarrow> bool \<Rightarrow> 'd PlannerInfo \<Rightarrow> 'd Path list \<Rightarrow> TargetEntry list list \<Rightarrow>
     error + 'd planned" where
  "union_of_children env save_fraction is_all colTypes colCollations groupClauses refnames_tlist
       want root2 pathlist tlist_list =
     (case generate_append_tlist (nodefuncs env) (palloc_junk env) colTypes colCollations False
             tlist_list refnames_tlist of
        Inl err \<Rightarrow> Inl err
      | Inr tlist \<Rightarrow>
          (case (if \<not> is_all
                 then make_union_unique env root2 groupClauses (AppendPath pathlist tlist) tlist
                 else Inr (AppendPath pathlist tlist)) of
             Inl err \<Rightarrow> Inl err
           | Inr path \<Rightarrow>
               Inr (root2 \<lparr> tuple_fraction := save_fraction \<rparr>, path, tlist,
                    if want then Some (path_rows env path) else None)))"

text \<open>
  \<^verbatim>\<open>generate_nonunion_path\<close> from the point where both children have been planned and
  \<^verbatim>\<open>tuple_fraction\<close> has been restored (\<open>root3\<close>); \<open>lgroups\<close> and \<open>rgroups\<close> are what the
  children stored into \<^verbatim>\<open>dLeftGroups\<close> and \<^verbatim>\<open>dRightGroups\<close>, locals that are not initialised.
\<close>

definition nonunion_of_children ::
  "'d planner_env \<Rightarrow> 'd PlannerInfo \<Rightarrow> SetOperation \<Rightarrow> bool \<Rightarrow> Oid list \<Rightarrow> Oid list \<Rightarrow>
     SortGroupClause list \<Rightarrow> TargetEntry list \<Rightarrow> bool \<Rightarrow>
     'd Path \<Rightarrow> TargetEntry list \<Rightarrow> 'd option \<Rightarrow> 'd Path \<Rightarrow> TargetEntry list \<Rightarrow> 'd option \<Rightarrow>
     error + 'd planned" where
  "nonunion_of_children env root3 sop is_all colTypes colCollations groupClauses refnames_tlist
       want lpath lpath_tlist lgroups rpath rpath_tlist rgroups =
     (let dLeftGroups = (case lgroups of Some g \<Rightarrow> g | None \<Rightarrow> uninit_double env);
          dRightGroups = (case rgroups of Some g \<Rightarrow> g | None \<Rightarrow> uninit_double env);
          left_first = (sop = SETOP_EXCEPT \<or> d_le env dLeftGroups dRightGroups);
          pathlist = (if left_first then [lpath, rpath] else [rpath, lpath]);
          tlist_list = (if left_first then [lpath_tlist, rpath_tlist]
                        else [rpath_tlist, lpath_tlist]);
          firstFlag = (if left_first then 0 else 1)
      in case generate_append_tlist (nodefuncs env) (palloc_junk env) colTypes colCollations True
                tlist_list refnames_tlist of
           Inl err \<Rightarrow> Inl err
         | Inr tlist \<Rightarrow>
             (case generate_setop_grouplist groupClauses tlist of
                Inl err \<Rightarrow> Inl err
              | Inr groupList \<Rightarrow>
                  if groupList = [] then Inr (root3, AppendPath pathlist tlist, tlist, None)
                  else
                    (let dNumGroups =
                           (if sop = SETOP_EXCEPT then dLeftGroups
                            else Min_double env dLeftGroups dRightGroups);
                         dNumOutputRows =
                           (if sop = SETOP_EXCEPT
                            then (if is_all then path_rows env lpath else dNumGroups)
                            else (if is_all
                                  then Min_double env (path_rows env lpath) (path_rows env rpath)
                                  else dNumGroups))
                     in case choose_hashed_setop env root3 groupList (AppendPath pathlist tlist)
                               dNumGroups dNumOutputRows
                               (if sop = SETOP_INTERSECT then ''INTERSECT'' else ''EXCEPT'') of
                          Inl err \<Rightarrow> Inl err
                        | Inr use_hash \<Rightarrow>
                            (case (case sop of
                                     SETOP_INTERSECT \<Rightarrow>
                                       Inr (if is_all then SETOPCMD_INTERSECT_ALL
                                            else SETOPCMD_INTERSECT)
                                   | SETOP_EXCEPT \<Rightarrow>
                                       Inr (if is_all then SETOPCMD_EXCEPT_ALL
                                            else SETOPCMD_EXCEPT)
                                   | _ \<Rightarrow> Inl (InternalError ''unrecognized set op: %d'')) of
                               Inl err \<Rightarrow> Inl err
                             | Inr cmd \<Rightarrow>
                                 Inr (root3,
                                      SetOpPath
                                        (if \<not> use_hash
                                         then SortPath (AppendPath pathlist tlist)
                                                (make_pathkeys_for_sortclauses env groupList tlist)
                                                None
                                         else AppendPath pathlist tlist)
                                        cmd
                                        (if use_hash then SETOP_HASHED else SETOP_SORTED)
                                        groupList (int (length colTypes) + 1)
                                        (if use_hash then firstFlag else -1)
                                        dNumGroups dNumOutputRows,
                                      tlist,
                                      if want then Some dNumGroups else None)))))"

text \<open>
  \<^verbatim>\<open>recurse_set_operations\<close>, \<^verbatim>\<open>generate_union_path\<close>, \<^verbatim>\<open>generate_nonunion_path\<close> and
  \<^verbatim>\<open>recurse_union_children\<close>; \<open>proot\<close> is the \<^verbatim>\<open>PlannerInfo *root\<close>. Of its argument \<^verbatim>\<open>top_union\<close>, \<^verbatim>\<open>recurse_union_children\<close> reads the
  operator, the ALL flag, the column types and the column collations, which are its
  arguments here. Where the source passes two calls as the arguments of \<^verbatim>\<open>list_concat\<close>, the
  model plans the left argument first.
\<close>

function (sequential) recurse_set_operations ::
    "'d planner_env \<Rightarrow> 'd PlannerInfo \<Rightarrow> SetOpNode \<Rightarrow> Oid list \<Rightarrow> Oid list \<Rightarrow> bool \<Rightarrow> int \<Rightarrow>
       TargetEntry list \<Rightarrow> bool \<Rightarrow> error + 'd planned"
  and generate_union_path ::
    "'d planner_env \<Rightarrow> 'd PlannerInfo \<Rightarrow> SetOperationStmt \<Rightarrow> TargetEntry list \<Rightarrow> bool \<Rightarrow>
       error + 'd planned"
  and generate_nonunion_path ::
    "'d planner_env \<Rightarrow> 'd PlannerInfo \<Rightarrow> SetOperationStmt \<Rightarrow> TargetEntry list \<Rightarrow> bool \<Rightarrow>
       error + 'd planned"
  and recurse_union_children ::
    "'d planner_env \<Rightarrow> 'd PlannerInfo \<Rightarrow> SetOpNode \<Rightarrow> SetOperation \<Rightarrow> bool \<Rightarrow> Oid list \<Rightarrow>
       Oid list \<Rightarrow> TargetEntry list \<Rightarrow>
       error + ('d PlannerInfo \<times> 'd Path list \<times> TargetEntry list list)" where
  "recurse_set_operations env proot (RangeTblRef rtindex) colTypes colCollations junkOK flag
       refnames_tlist want =
     plan_leaf_subquery env proot rtindex colTypes colCollations flag refnames_tlist want"
| "recurse_set_operations env proot (SetOp (SetOperationStmt sop is_all larg rarg ct cc gc))
       colTypes colCollations junkOK flag refnames_tlist want =
     (case (if sop = SETOP_UNION
            then generate_union_path env proot (SetOperationStmt sop is_all larg rarg ct cc gc)
                   refnames_tlist want
            else generate_nonunion_path env proot (SetOperationStmt sop is_all larg rarg ct cc gc)
                   refnames_tlist want) of
        Inl err \<Rightarrow> Inl err
      | Inr planned \<Rightarrow>
          project_setop_output env colTypes colCollations junkOK flag refnames_tlist planned)"
| "recurse_set_operations env proot (UnrecognizedNode tag) colTypes colCollations junkOK flag
       refnames_tlist want =
     Inl (InternalError ''unrecognized node type: %d'')"
| "generate_union_path env proot (SetOperationStmt sop is_all larg rarg colTypes colCollations
       groupClauses) refnames_tlist want =
     (case recurse_union_children env
             (if \<not> is_all then proot \<lparr> tuple_fraction := d_of_int env 0 \<rparr> else proot)
             larg sop is_all colTypes colCollations refnames_tlist of
        Inl err \<Rightarrow> Inl err
      | Inr r1 \<Rightarrow>
          (case recurse_union_children env (fst r1) rarg sop is_all colTypes colCollations
                  refnames_tlist of
             Inl err \<Rightarrow> Inl err
           | Inr r2 \<Rightarrow>
               union_of_children env (tuple_fraction proot) is_all colTypes colCollations
                 groupClauses refnames_tlist want (fst r2)
                 (fst (snd r1) @ fst (snd r2)) (snd (snd r1) @ snd (snd r2))))"
| "generate_nonunion_path env proot (SetOperationStmt sop is_all larg rarg colTypes colCollations
       groupClauses) refnames_tlist want =
     (case recurse_set_operations env (proot \<lparr> tuple_fraction := d_of_int env 0 \<rparr>) larg
             colTypes colCollations False 0 refnames_tlist True of
        Inl err \<Rightarrow> Inl err
      | Inr l \<Rightarrow>
          (case recurse_set_operations env (fst l) rarg colTypes colCollations False 1
                  refnames_tlist True of
             Inl err \<Rightarrow> Inl err
           | Inr r \<Rightarrow>
               nonunion_of_children env ((fst r) \<lparr> tuple_fraction := tuple_fraction proot \<rparr>)
                 sop is_all colTypes colCollations groupClauses refnames_tlist want
                 (fst (snd l)) (fst (snd (snd l))) (snd (snd (snd l)))
                 (fst (snd r)) (fst (snd (snd r))) (snd (snd (snd r)))))"
| "recurse_union_children env proot (SetOp (SetOperationStmt sop is_all larg rarg ct cc gc))
       top_op top_all top_colTypes top_colCollations refnames_tlist =
     (if sop = top_op \<and> (is_all = top_all \<or> is_all) \<and> ct = top_colTypes then
        (case recurse_union_children env proot larg top_op top_all top_colTypes
                top_colCollations refnames_tlist of
           Inl err \<Rightarrow> Inl err
         | Inr r1 \<Rightarrow>
             (case recurse_union_children env (fst r1) rarg top_op top_all top_colTypes
                     top_colCollations refnames_tlist of
                Inl err \<Rightarrow> Inl err
              | Inr r2 \<Rightarrow>
                  Inr (fst r2, fst (snd r1) @ fst (snd r2), snd (snd r1) @ snd (snd r2))))
      else
        (case recurse_set_operations env proot
                (SetOp (SetOperationStmt sop is_all larg rarg ct cc gc))
                top_colTypes top_colCollations False (-1) refnames_tlist False of
           Inl err \<Rightarrow> Inl err
         | Inr p \<Rightarrow> Inr (fst p, [fst (snd p)], [fst (snd (snd p))])))"
| "recurse_union_children env proot (RangeTblRef rtindex)
       top_op top_all top_colTypes top_colCollations refnames_tlist =
     (case recurse_set_operations env proot (RangeTblRef rtindex)
             top_colTypes top_colCollations False (-1) refnames_tlist False of
        Inl err \<Rightarrow> Inl err
      | Inr p \<Rightarrow> Inr (fst p, [fst (snd p)], [fst (snd (snd p))]))"
| "recurse_union_children env proot (UnrecognizedNode tag)
       top_op top_all top_colTypes top_colCollations refnames_tlist =
     (case recurse_set_operations env proot (UnrecognizedNode tag)
             top_colTypes top_colCollations False (-1) refnames_tlist False of
        Inl err \<Rightarrow> Inl err
      | Inr p \<Rightarrow> Inr (fst p, [fst (snd p)], [fst (snd (snd p))]))"
  by pat_completeness auto
termination
  by (relation "measure (\<lambda>x. case x of
         Inl (Inl (env, proot, n, rest)) \<Rightarrow> 3 * size n + 1
       | Inl (Inr (env, proot, s, rest)) \<Rightarrow> 3 * size s
       | Inr (Inl (env, proot, s, rest)) \<Rightarrow> 3 * size s
       | Inr (Inr (env, proot, n, rest)) \<Rightarrow> 3 * size n + 2)") auto

subsection \<open>generate_recursion_path\<close>



text \<open>
  Example planner collaborators, with the real numbers for \<^verbatim>\<open>double\<close>: every leaf subquery
  returns the two columns \<open>a\<close> (int4) and \<open>b\<close> (text) and 100 rows, a path's rows are the sum
  over its inputs, and the cost functions are simple linear ones.
\<close>

fun example_rows :: "real Path \<Rightarrow> real" where
  "example_rows (SubPlanPath rtindex fraction) = 100"
| "example_rows (RemoteSubPath p) = example_rows p"
| "example_rows (SubqueryScanPath rtindex p) = example_rows p"
| "example_rows (ProjectionPath p tlist) = example_rows p"
| "example_rows (AppendPath ps tlist) = sum_list (map example_rows ps)"
| "example_rows (SortPath p keys target) = example_rows p"
| "example_rows (AggPath p tlist gl n) = n"
| "example_rows (UpperUniquePath p k n) = n"
| "example_rows (SetOpPath p cmd strategy gl idx firstFlag n out) = out"
| "example_rows (RecursiveUnionPath l r tlist gl wt n) = 10 * example_rows l"

definition example_compare :: "real \<times> real \<Rightarrow> real \<times> real \<Rightarrow> real \<Rightarrow> int" where
  "example_compare p1 p2 fraction =
     (let c1 = (if fraction \<le> 0 \<or> 1 \<le> fraction then snd p1
                else fst p1 + fraction * (snd p1 - fst p1));
          c2 = (if fraction \<le> 0 \<or> 1 \<le> fraction then snd p2
                else fst p2 + fraction * (snd p2 - fst p2))
      in if c1 < c2 then -1 else if c2 < c1 then 1 else 0)"

definition example_env :: "real planner_env" where
  "example_env =
     \<lparr> nodefuncs = example_nf,
       d_of_int = of_int, d_add = (+), d_mul = (*), d_div = (/), d_lt = (<), d_le = (\<le>),
       palloc_junk = (\<lambda>i. 0),
       uninit_double = 0,
       subquery_planner = (\<lambda>rtindex fraction nrp.
          \<lparr> processed_tlist = [example_tle 1 ''a'' 23 (-1) 0, example_tle 2 ''b'' 25 (-1) 100],
            sub_recursiveOk = True, leaves_plan_params = False, sub_distributed = False,
            sub_grouped = False \<rparr>),
       estimate_num_groups = (\<lambda>rtindex rows. rows / of_int rtindex),
       apply_projection_to_path = (\<lambda>p tlist. p),
       tlist_same_datatypes = (\<lambda>tlist colTypes junkOK.
          map (\<lambda>tle. exprType example_nf (expr tle)) (nonjunk tlist) = colTypes \<and>
          (junkOK \<or> nonjunk tlist = tlist)),
       tlist_same_collations = (\<lambda>tlist colCollations junkOK.
          map (\<lambda>tle. exprCollation example_nf (expr tle)) (nonjunk tlist) = colCollations \<and>
          (junkOK \<or> nonjunk tlist = tlist)),
       grouping_is_sortable = list_all (\<lambda>c. OidIsValid (sortop c)),
       grouping_is_hashable = list_all hashable,
       make_pathkeys_for_sortclauses = (\<lambda>gl tlist. map tleSortGroupRef gl),
       enable_hashagg = True,
       work_mem = 4096,
       MAXALIGN = (\<lambda>n. nat (((n + 7) div 8) * 8)),
       SizeofMinimalTupleHeader = 15,
       path_rows = example_rows,
       path_width = (\<lambda>p. 12),
       path_startup_cost = (\<lambda>p. 0),
       path_total_cost = example_rows,
       cost_agg = (\<lambda>n groups startup total rows. (total + rows, total + rows + groups)),
       cost_sort = (\<lambda>input_cost tuples width. (input_cost + 2 * tuples, input_cost + 3 * tuples)),
       cost_group = (\<lambda>n groups startup total rows. (startup, total + rows)),
       compare_fractional_path_costs = example_compare \<rparr>"

definition example_clause :: "bool \<Rightarrow> bool \<Rightarrow> SortGroupClause" where
  "example_clause can_sort can_hash =
     \<lparr> tleSortGroupRef = 0, eqop = 96, sortop = (if can_sort then 97 else InvalidOid),
       nulls_first = False, hashable = can_hash \<rparr>"

definition example_root :: "real PlannerInfo" where
  "example_root =
     \<lparr> tuple_fraction = 0, recursiveOk = True, non_recursive_path = None, wt_param_id = 0 \<rparr>"

subsection \<open>The decision procedure of the hash-versus-sort chooser, as specified\<close>

definition hash_table_exceeds_work_mem :: "'d planner_env \<Rightarrow> 'd Path \<Rightarrow> 'd \<Rightarrow> bool" where
  "hash_table_exceeds_work_mem env input_path dNumGroups =
     d_lt env (d_of_int env (signed_take_bit 63 (work_mem env * 1024)))
       (d_mul env
          (d_of_int env
             (int ((MAXALIGN env (path_width env input_path) +
                    MAXALIGN env (SizeofMinimalTupleHeader env)) mod 2 ^ 64)))
          dNumGroups)"

definition hashed_dummy_cost ::
  "'d planner_env \<Rightarrow> SortGroupClause list \<Rightarrow> 'd Path \<Rightarrow> 'd \<Rightarrow> 'd \<times> 'd" where
  "hashed_dummy_cost env groupClauses input_path dNumGroups =
     cost_agg env (length groupClauses) dNumGroups (path_startup_cost env input_path)
       (path_total_cost env input_path) (path_rows env input_path)"

definition sorted_dummy_cost ::
  "'d planner_env \<Rightarrow> SortGroupClause list \<Rightarrow> 'd Path \<Rightarrow> 'd \<Rightarrow> 'd \<times> 'd" where
  "sorted_dummy_cost env groupClauses input_path dNumGroups =
     cost_group env (length groupClauses) dNumGroups
       (fst (cost_sort env (path_total_cost env input_path) (path_rows env input_path)
               (path_width env input_path)))
       (snd (cost_sort env (path_total_cost env input_path) (path_rows env input_path)
               (path_width env input_path)))
       (path_rows env input_path)"

definition limit_fraction :: "'d planner_env \<Rightarrow> 'd PlannerInfo \<Rightarrow> 'd \<Rightarrow> 'd" where
  "limit_fraction env proot dNumOutputRows =
     (if d_le env (d_of_int env 1) (tuple_fraction proot)
      then d_div env (tuple_fraction proot) dNumOutputRows
      else tuple_fraction proot)"

subsection \<open>Reading a set-operation path\<close>

text \<open>
  The sub-paths of the Append at the bottom of the path \<^verbatim>\<open>generate_nonunion_path\<close> builds
  (below the SetOp step and the sort stage, when they are there).
\<close>

fun append_inputs :: "'d Path \<Rightarrow> 'd Path list option" where
  "append_inputs (AppendPath subpaths tlist) = Some subpaths"
| "append_inputs (SortPath subpath pathkeys target) = append_inputs subpath"
| "append_inputs (SetOpPath subpath cmd strategy gl idx firstFlag n out) = append_inputs subpath"
| "append_inputs path = None"

definition local_double :: "'d planner_env \<Rightarrow> 'd option \<Rightarrow> 'd" where
  "local_double env stored = (case stored of Some g \<Rightarrow> g | None \<Rightarrow> uninit_double env)"

definition SetOpCmd_of :: "SetOperation \<Rightarrow> bool \<Rightarrow> SetOpCmd" where
  "SetOpCmd_of sop is_all =
     (if sop = SETOP_INTERSECT
      then (if is_all then SETOPCMD_INTERSECT_ALL else SETOPCMD_INTERSECT)
      else (if is_all then SETOPCMD_EXCEPT_ALL else SETOPCMD_EXCEPT))"

text \<open>
  An example set operation over the leaf subqueries 1 and 2: two columns, int4 and text,
  both sortable and hashable.
\<close>

definition example_colTypes :: "Oid list" where
  "example_colTypes = [23, 25]"

definition example_colCollations :: "Oid list" where
  "example_colCollations = [0, 100]"

definition example_refnames :: "TargetEntry list" where
  "example_refnames = [example_tle 1 ''a'' 23 (-1) 0, example_tle 2 ''b'' 25 (-1) 100]"

definition example_groupClauses :: "SortGroupClause list" where
  "example_groupClauses = [example_clause True True, example_clause True True]"

definition example_leaf_path :: "int \<Rightarrow> real Path" where
  "example_leaf_path rtindex = SubqueryScanPath rtindex (SubPlanPath rtindex 0)"

definition example_columns :: "Index \<Rightarrow> TargetEntry list" where
  "example_columns vno =
     [\<lparr> expr = Some (T_Var (makeVar vno 1 23 (-1) 0 0)), resno = 1, resname = ''a'',
         ressortgroupref = 1, resjunk = False \<rparr>,
      \<lparr> expr = Some (T_Var (makeVar vno 2 25 (-1) 100 0)), resno = 2, resname = ''b'',
         ressortgroupref = 2, resjunk = False \<rparr>]"

definition example_leaf_tlist :: "Index \<Rightarrow> int \<Rightarrow> TargetEntry list" where
  "example_leaf_tlist vno flag =
     example_columns vno @
     [\<lparr> expr = Some (T_Const INT4OID (-1) InvalidOid 4 flag False True), resno = 3,
         resname = ''flag'', ressortgroupref = 0, resjunk = True \<rparr>]"

definition example_append_tlist :: "TargetEntry list" where
  "example_append_tlist =
     example_columns 0 @
     [\<lparr> expr = Some (T_Var (makeVar 0 3 INT4OID (-1) InvalidOid 0)), resno = 3,
         resname = ''flag'', ressortgroupref = 0, resjunk = True \<rparr>]"

definition example_groupList :: "SortGroupClause list" where
  "example_groupList =
     [(example_clause True True) \<lparr> tleSortGroupRef := 1 \<rparr>,
      (example_clause True True) \<lparr> tleSortGroupRef := 2 \<rparr>]"

text \<open>The output-row estimate \<^verbatim>\<open>generate_nonunion_path\<close> hands on with the group estimate.\<close>

definition nonunion_output_rows ::
  "'d planner_env \<Rightarrow> SetOperation \<Rightarrow> bool \<Rightarrow> 'd Path \<Rightarrow> 'd Path \<Rightarrow> 'd \<Rightarrow> 'd" where
  "nonunion_output_rows env sop is_all lpath rpath dNumGroups =
     (if sop = SETOP_EXCEPT then (if is_all then path_rows env lpath else dNumGroups)
      else (if is_all
            then (if d_lt env (path_rows env lpath) (path_rows env rpath)
                  then path_rows env lpath else path_rows env rpath)
            else dNumGroups))"

subsection \<open>UNION ALL trees\<close>

text \<open>The leaves of a set-operation tree, left to right.\<close>

fun setop_leaves :: "SetOpNode \<Rightarrow> int list" where
  "setop_leaves (RangeTblRef rtindex) = [rtindex]"
| "setop_leaves (SetOp (SetOperationStmt sop is_all larg rarg ct cc gc)) =
     setop_leaves larg @ setop_leaves rarg"
| "setop_leaves (UnrecognizedNode tag) = []"

text \<open>
  A tree built purely of UNION ALL nodes whose column type lists are all \<open>colTypes\<close>, over
  leaf subqueries.
\<close>

fun pure_union_all :: "Oid list \<Rightarrow> SetOpNode \<Rightarrow> bool" where
  "pure_union_all colTypes (RangeTblRef rtindex) = True"
| "pure_union_all colTypes (SetOp (SetOperationStmt sop is_all larg rarg ct cc gc)) =
     (sop = SETOP_UNION \<and> is_all \<and> ct = colTypes \<and>
      pure_union_all colTypes larg \<and> pure_union_all colTypes rarg)"
| "pure_union_all colTypes (UnrecognizedNode tag) = False"

text \<open>
  The path and target list that planning one leaf subquery gives when it is planned as a
  child of a UNION (no flag column, no group estimate), \<open>None\<close> when planning it fails.
\<close>

definition leaf_scan ::
  "'d planner_env \<Rightarrow> 'd PlannerInfo \<Rightarrow> Oid list \<Rightarrow> Oid list \<Rightarrow> TargetEntry list \<Rightarrow> int \<Rightarrow>
     ('d Path \<times> TargetEntry list) option" where
  "leaf_scan env proot colTypes colCollations refnames_tlist rtindex =
     (case recurse_set_operations env proot (RangeTblRef rtindex) colTypes colCollations False
             (-1) refnames_tlist False of
        Inl err \<Rightarrow> None
      | Inr (root1, path, tlist, ngroups) \<Rightarrow> Some (path, tlist))"


text \<open>
  An example UNION ALL tree of depth three over the leaves 1 to 4:
  \<open>((1 UNION ALL 2) UNION ALL 3) UNION ALL 4\<close>.
\<close>

definition example_union_left :: SetOpNode where
  "example_union_left =
     SetOp (SetOperationStmt SETOP_UNION True
              (SetOp (SetOperationStmt SETOP_UNION True (RangeTblRef 1) (RangeTblRef 2)
                        example_colTypes example_colCollations []))
              (RangeTblRef 3) example_colTypes example_colCollations [])"

definition example_union_all :: SetOperationStmt where
  "example_union_all =
     SetOperationStmt SETOP_UNION True example_union_left (RangeTblRef 4)
       example_colTypes example_colCollations []"

subsection \<open>Inheritance expansion: the catalog\<close>

unbundle bit_operations_syntax

text \<open>
  \<^verbatim>\<open>expand_inherited_rtentry\<close> and its helpers read the system catalogs through functions of
  other files. They are parameters of the model.

  A \<^verbatim>\<open>Form_pg_attribute\<close> is the record \<open>Attribute\<close>, with the fields that
  \<^verbatim>\<open>make_inh_translation_list\<close> reads. An open \<^verbatim>\<open>Relation\<close> is the record \<open>Relation\<close>:
  \<^item> \<open>rd_id\<close> is \<^verbatim>\<open>RelationGetRelid\<close>, \<open>rd_relname\<close> is \<^verbatim>\<open>RelationGetRelationName\<close>;
  \<^item> \<open>rd_relkind\<close> and \<open>rd_reltype\<close> are \<^verbatim>\<open>rd_rel->relkind\<close> and \<^verbatim>\<open>rd_rel->reltype\<close>;
  \<^item> \<open>rd_other_temp\<close> is the value of the macro \<^verbatim>\<open>RELATION_IS_OTHER_TEMP\<close> (utils/rel.h):
    the relation is a temporary table of another session;
  \<^item> \<open>rd_att\<close> is the attribute array of \<^verbatim>\<open>RelationGetDescr\<close>, its length being \<^verbatim>\<open>natts\<close>;
  \<^item> \<open>rd_partdesc\<close> is \<^verbatim>\<open>RelationGetPartitionDesc\<close>: NULL (\<open>None\<close>) or the array
    \<^verbatim>\<open>oids[0 .. nparts - 1]\<close> of the partitions.
\<close>

record Attribute =
  attname :: string
  atttypid :: Oid
  atttypmod :: int
  attcollation :: Oid
  attisdropped :: bool

record Relation =
  rd_id :: Oid
  rd_relname :: string
  rd_relkind :: char
  rd_reltype :: Oid
  rd_other_temp :: bool
  rd_att :: "Attribute list"
  rd_partdesc :: "Oid list option"

definition RELKIND_PARTITIONED_TABLE :: char where
  "RELKIND_PARTITIONED_TABLE = CHR ''p''"

datatype LOCKMODE = NoLock | AccessShareLock | RowShareLock | RowExclusiveLock

text \<open>
  A \<^verbatim>\<open>PlanRowMark\<close> (nodes/plannodes.h). \<^verbatim>\<open>RowMarkType\<close>, \<^verbatim>\<open>LockClauseStrength\<close> and
  \<^verbatim>\<open>LockWaitPolicy\<close> are enumerations; the model keeps their integer values.
\<close>

record PlanRowMark =
  rti :: Index
  prti :: Index
  rowmarkId :: Index
  markType :: nat
  allMarkTypes :: int
  strength :: nat
  waitPolicy :: nat
  isParent :: bool

text \<open>
  The collaborators:
  \<^item> \<open>has_subclass\<close> (catalog/pg_inherits.c): the relation's \<^verbatim>\<open>relhassubclass\<close> flag;
  \<^item> \<open>find_all_inheritors\<close> (catalog/pg_inherits.c): the OIDs of the inheritance set, locked in
    the given mode;
  \<^item> \<open>relcache\<close>: what the relation cache holds for an OID;
  \<^item> \<open>SearchSysCacheAttName\<close>: the \<^verbatim>\<open>attnum\<close> of the named, undropped column of a relation, or
    NULL;
  \<^item> \<open>has_partition_attrs\<close> (catalog/partition.c), \<open>select_rowmark_type\<close> (plan/planner.c),
    \<open>get_plan_rowmark\<close> (prep/preptlist.c), which returns a pointer into the list it is given,
    here the position of that row mark, and the macro \<open>RowMarkRequiresRowShareLock\<close>;
  \<^item> \<open>FirstLowInvalidHeapAttributeNumber\<close> (access/sysattr.h).
\<close>

record catalog =
  has_subclass :: "Oid \<Rightarrow> bool"
  find_all_inheritors :: "Oid \<Rightarrow> LOCKMODE \<Rightarrow> Oid list"
  relcache :: "Oid \<Rightarrow> Relation"
  SearchSysCacheAttName :: "Oid \<Rightarrow> string \<Rightarrow> int option"
  has_partition_attrs :: "Relation \<Rightarrow> Bitmapset \<Rightarrow> bool"
  select_rowmark_type :: "RangeTblEntry \<Rightarrow> nat \<Rightarrow> nat"
  get_plan_rowmark :: "PlanRowMark list \<Rightarrow> Index \<Rightarrow> nat option"
  RowMarkRequiresRowShareLock :: "nat \<Rightarrow> bool"
  FirstLowInvalidHeapAttributeNumber :: int

text \<open>
  \<^verbatim>\<open>heap_open(relationId, NoLock)\<close>: the relation cache entry of the OID, whose
  \<^verbatim>\<open>RelationGetRelid\<close> is that OID. Two \<^verbatim>\<open>Relation\<close> pointers are equal when they were opened
  for the same OID.
\<close>

definition heap_open :: "catalog \<Rightarrow> Oid \<Rightarrow> Relation" where
  "heap_open cat relationId = (relcache cat relationId) \<lparr> rd_id := relationId \<rparr>"

subsection \<open>make_inh_translation_list\<close>

definition could_not_find_inherited_attribute :: error where
  "could_not_find_inherited_attribute =
     InternalError ''could not find inherited attribute \"%s\" of relation \"%s\"''"

definition does_not_match_parents_type :: error where
  "does_not_match_parents_type =
     InternalError ''attribute \"%s\" of relation \"%s\" does not match parent's type''"

definition does_not_match_parents_collation :: error where
  "does_not_match_parents_collation =
     InternalError ''attribute \"%s\" of relation \"%s\" does not match parent's collation''"

text \<open>
  The column of \<^verbatim>\<open>newrelation\<close> that matches the parent's column \<open>att\<close>: the one at
  \<open>new_attno\<close> if it is there, undropped and of the same name, otherwise the one the syscache
  finds. The result is the value of \<^verbatim>\<open>new_attno\<close> and of \<^verbatim>\<open>att\<close> after the search. An
  \<^verbatim>\<open>attnum\<close> from the syscache that is outside the child's tuple descriptor makes
  \<^verbatim>\<open>TupleDescAttr\<close> read outside the array: a crash.
\<close>

definition find_child_attribute ::
  "catalog \<Rightarrow> Relation \<Rightarrow> Attribute \<Rightarrow> int \<Rightarrow> error + (int \<times> Attribute)" where
  "find_child_attribute cat newrelation att new_attno =
     (let new_tupdesc = rd_att newrelation;
          newnatts = int (length new_tupdesc)
      in if new_attno \<ge> newnatts \<or> new_attno < 0
            \<or> attisdropped (new_tupdesc ! nat new_attno)
            \<or> attname att \<noteq> attname (new_tupdesc ! nat new_attno)
         then
           (case SearchSysCacheAttName cat (rd_id newrelation) (attname att) of
              None \<Rightarrow> Inl could_not_find_inherited_attribute
            | Some attnum \<Rightarrow>
                if 0 \<le> attnum - 1 \<and> attnum - 1 < newnatts
                then Inr (attnum - 1, new_tupdesc ! nat (attnum - 1))
                else Inl Crash)
         else Inr (new_attno, new_tupdesc ! nat new_attno))"

text \<open>
  The loop of \<^verbatim>\<open>make_inh_translation_list\<close> over the parent's columns; \<open>old_attno\<close> and
  \<open>new_attno\<close> are the two counters and \<open>old_atts\<close> the parent's columns from \<open>old_attno\<close> on.
\<close>

fun inh_translation_loop ::
  "catalog \<Rightarrow> Relation \<Rightarrow> Relation \<Rightarrow> Index \<Rightarrow> int \<Rightarrow> int \<Rightarrow> Attribute list
     \<Rightarrow> error + Var option list" where
  "inh_translation_loop cat oldrelation newrelation newvarno old_attno new_attno [] = Inr []"
| "inh_translation_loop cat oldrelation newrelation newvarno old_attno new_attno (att # old_atts) =
     (if attisdropped att then
        (case inh_translation_loop cat oldrelation newrelation newvarno
                (old_attno + 1) new_attno old_atts of
           Inl e \<Rightarrow> Inl e
         | Inr vars \<Rightarrow> Inr (None # vars))
      else if rd_id oldrelation = rd_id newrelation then
        (case inh_translation_loop cat oldrelation newrelation newvarno
                (old_attno + 1) new_attno old_atts of
           Inl e \<Rightarrow> Inl e
         | Inr vars \<Rightarrow>
             Inr (Some (makeVar newvarno (AttrNumber_of_int (old_attno + 1))
                          (atttypid att) (atttypmod att) (attcollation att) 0) # vars))
      else
        (case find_child_attribute cat newrelation att new_attno of
           Inl e \<Rightarrow> Inl e
         | Inr (found_attno, new_att) \<Rightarrow>
             if atttypid att \<noteq> atttypid new_att \<or> atttypmod att \<noteq> atttypmod new_att
             then Inl does_not_match_parents_type
             else if attcollation att \<noteq> attcollation new_att
             then Inl does_not_match_parents_collation
             else
               (case inh_translation_loop cat oldrelation newrelation newvarno
                       (old_attno + 1) (found_attno + 1) old_atts of
                  Inl e \<Rightarrow> Inl e
                | Inr vars \<Rightarrow>
                    Inr (Some (makeVar newvarno (AttrNumber_of_int (found_attno + 1))
                                 (atttypid att) (atttypmod att) (attcollation att) 0) # vars))))"

definition make_inh_translation_list ::
  "catalog \<Rightarrow> Relation \<Rightarrow> Relation \<Rightarrow> Index \<Rightarrow> error + Var option list" where
  "make_inh_translation_list cat oldrelation newrelation newvarno =
     inh_translation_loop cat oldrelation newrelation newvarno 0 0 (rd_att oldrelation)"

subsection \<open>expand_single_inheritance_child\<close>

text \<open>
  The fields of \<^verbatim>\<open>PlannerInfo\<close> and of its \<^verbatim>\<open>parse\<close> tree that the expansion reads or writes:
  \<open>rtable\<close> is \<^verbatim>\<open>root->parse->rtable\<close> and \<open>resultRelation\<close> is
  \<^verbatim>\<open>root->parse->resultRelation\<close>.

  A \<^verbatim>\<open>RangeTblEntry *\<close> of the source points into the range table, and the expansion writes
  through it; the model names a range table entry by its index, \<^verbatim>\<open>parentrte\<close> being
  \<open>rt_fetch parentRTindex (rtable proot)\<close>, as at every call in the source. In the same way
  \<^verbatim>\<open>top_parentrc\<close> is the position of the row mark in \<open>rowMarks\<close>.
\<close>

record ExpansionInfo =
  rtable :: "RangeTblEntry list"
  resultRelation :: int
  rowMarks :: "PlanRowMark list"
  append_rel_list :: "AppendRelInfo list"
  partColsUpdated :: bool

text \<open>The child's range table entry, as it is when it is appended to the range table.\<close>

definition make_childrte :: "RangeTblEntry \<Rightarrow> Relation \<Rightarrow> Relation \<Rightarrow> RangeTblEntry" where
  "make_childrte parentrte parentrel childrel =
     parentrte \<lparr> relid := rd_id childrel,
                 relkind := rd_relkind childrel,
                 inh := (rd_id childrel \<noteq> rd_id parentrel
                         \<and> rd_relkind childrel = RELKIND_PARTITIONED_TABLE),
                 requiredPerms := 0,
                 securityQuals := [] \<rparr>"

text \<open>The three column-privilege sets of the child, translated from the parent's.\<close>

definition translate_child_privs ::
  "catalog \<Rightarrow> RangeTblEntry \<Rightarrow> Var option list \<Rightarrow> RangeTblEntry \<Rightarrow> error + RangeTblEntry" where
  "translate_child_privs cat parentrte vars childrte =
     (case translate_col_privs (FirstLowInvalidHeapAttributeNumber cat)
             (selectedCols parentrte) vars of
        Inl e \<Rightarrow> Inl e
      | Inr sel \<Rightarrow>
          (case translate_col_privs (FirstLowInvalidHeapAttributeNumber cat)
                  (insertedCols parentrte) vars of
             Inl e \<Rightarrow> Inl e
           | Inr insd \<Rightarrow>
               (case translate_col_privs (FirstLowInvalidHeapAttributeNumber cat)
                       (updatedCols parentrte) vars of
                  Inl e \<Rightarrow> Inl e
                | Inr upd \<Rightarrow>
                    Inr (childrte \<lparr> selectedCols := sel, insertedCols := insd,
                                    updatedCols := upd \<rparr>))))"

text \<open>
  The \<^verbatim>\<open>AppendRelInfo\<close> part: the child's entry after it and the list \<^verbatim>\<open>*appinfos\<close>, here
  \<open>infos\<close>, after it.
\<close>

definition build_child_appinfo ::
  "catalog \<Rightarrow> RangeTblEntry \<Rightarrow> Index \<Rightarrow> Relation \<Rightarrow> Relation \<Rightarrow> RangeTblEntry \<Rightarrow> Index
     \<Rightarrow> AppendRelInfo list \<Rightarrow> error + (RangeTblEntry \<times> AppendRelInfo list)" where
  "build_child_appinfo cat parentrte parentRTindex parentrel childrel childrte childRTindex infos =
     (if relkind childrte \<noteq> RELKIND_PARTITIONED_TABLE \<or> inh childrte then
        (case make_inh_translation_list cat parentrel childrel childRTindex of
           Inl e \<Rightarrow> Inl e
         | Inr vars \<Rightarrow>
             (let appinfo = \<lparr> parent_relid = parentRTindex,
                              child_relid = childRTindex,
                              parent_reltype = rd_reltype parentrel,
                              child_reltype = rd_reltype childrel,
                              translated_vars = map (map_option T_Var) vars,
                              parent_reloid = rd_id parentrel \<rparr>
              in if rd_id childrel \<noteq> rd_id parentrel then
                   (case translate_child_privs cat parentrte vars childrte of
                      Inl e \<Rightarrow> Inl e
                    | Inr childrte' \<Rightarrow> Inr (childrte', infos @ [appinfo]))
                 else Inr (childrte, infos @ [appinfo])))
      else Inr (childrte, infos))"

text \<open>
  The \<^verbatim>\<open>PlanRowMark\<close> part: the row marks after it. A position \<open>k\<close> outside the list is a
  dangling \<^verbatim>\<open>top_parentrc\<close> pointer.
\<close>

definition build_child_rowmark ::
  "catalog \<Rightarrow> nat option \<Rightarrow> RangeTblEntry \<Rightarrow> Index \<Rightarrow> PlanRowMark list
     \<Rightarrow> error + PlanRowMark list" where
  "build_child_rowmark cat top_parentrc childrte childRTindex marks =
     (case top_parentrc of
        None \<Rightarrow> Inr marks
      | Some k \<Rightarrow>
          if k < length marks then
            (let toprc = marks ! k;
                 mt = select_rowmark_type cat childrte (strength toprc);
                 childrc = \<lparr> rti = childRTindex,
                              prti = rti toprc,
                              rowmarkId = rowmarkId toprc,
                              markType = mt,
                              allMarkTypes = push_bit mt 1,
                              strength = strength toprc,
                              waitPolicy = waitPolicy toprc,
                              isParent = (relkind childrte = RELKIND_PARTITIONED_TABLE) \<rparr>
             in Inr (marks [k := toprc \<lparr> allMarkTypes := allMarkTypes toprc OR allMarkTypes childrc \<rparr>]
                       @ [childrc]))
          else Inl Crash)"

text \<open>
  \<^verbatim>\<open>expand_single_inheritance_child\<close>. The result is the planner state, the list
  \<^verbatim>\<open>*appinfos\<close> and \<^verbatim>\<open>*childRTindex_p\<close>; \<^verbatim>\<open>*childrte_p\<close> is the entry of the range table at
  that index.
\<close>

definition expand_single_inheritance_child ::
  "catalog \<Rightarrow> ExpansionInfo \<Rightarrow> Index \<Rightarrow> Relation \<Rightarrow> nat option \<Rightarrow> Relation \<Rightarrow> AppendRelInfo list
     \<Rightarrow> error + (ExpansionInfo \<times> AppendRelInfo list \<times> Index)" where
  "expand_single_inheritance_child cat proot parentRTindex parentrel top_parentrc childrel infos =
     (case rt_fetch parentRTindex (rtable proot) of
        Inl e \<Rightarrow> Inl e
      | Inr parentrte \<Rightarrow>
          (let childrte = make_childrte parentrte parentrel childrel;
               childRTindex = length (rtable proot @ [childrte])
           in case build_child_appinfo cat parentrte parentRTindex parentrel childrel
                     childrte childRTindex infos of
                Inl e \<Rightarrow> Inl e
              | Inr (childrte', infos') \<Rightarrow>
                  (case build_child_rowmark cat top_parentrc childrte' childRTindex
                          (rowMarks proot) of
                     Inl e \<Rightarrow> Inl e
                   | Inr marks \<Rightarrow>
                       Inr (proot \<lparr> rtable := rtable proot @ [childrte'], rowMarks := marks \<rparr>,
                            infos', childRTindex))))"

subsection \<open>expand_partitioned_rtentry\<close>

text \<open>\<^verbatim>\<open>rte->inh = false\<close> for the entry at index \<open>rtindex\<close> of the range table.\<close>

definition clear_inh :: "ExpansionInfo \<Rightarrow> Index \<Rightarrow> ExpansionInfo" where
  "clear_inh proot rtindex =
     proot \<lparr> rtable := (rtable proot) [rtindex - 1 := (rtable proot ! (rtindex - 1)) \<lparr> inh := False \<rparr>] \<rparr>"

definition stack_depth_limit_exceeded :: error where
  "stack_depth_limit_exceeded = StatementTooComplex ''stack depth limit exceeded''"

text \<open>
  \<^verbatim>\<open>expand_partitioned_rtentry\<close> and its loop over the partitions, \<open>expand_partitions\<close>, whose
  last arguments are the partitions still to visit and \<^verbatim>\<open>has_child\<close>. The list \<^verbatim>\<open>*appinfos\<close>
  is \<^verbatim>\<open>root->append_rel_list\<close> at the only call from outside, and so at every call.

  \<^verbatim>\<open>check_stack_depth\<close> raises an error when the stack is too deep. The first argument
  \<open>depth\<close> is the number of nested calls the stack still has room for.

  A relation without a partition descriptor makes \<^verbatim>\<open>partdesc->nparts\<close> read through NULL.
\<close>

function (sequential) expand_partitioned_rtentry ::
  "catalog \<Rightarrow> nat \<Rightarrow> ExpansionInfo \<Rightarrow> Index \<Rightarrow> Relation \<Rightarrow> nat option \<Rightarrow> LOCKMODE
     \<Rightarrow> error + ExpansionInfo"
and expand_partitions ::
  "catalog \<Rightarrow> nat \<Rightarrow> ExpansionInfo \<Rightarrow> Index \<Rightarrow> Relation \<Rightarrow> nat option \<Rightarrow> LOCKMODE
     \<Rightarrow> Oid list \<Rightarrow> bool \<Rightarrow> error + (ExpansionInfo \<times> bool)" where
  "expand_partitioned_rtentry cat 0 proot parentRTindex parentrel top_parentrc lockmode =
     Inl stack_depth_limit_exceeded"
| "expand_partitioned_rtentry cat (Suc depth) proot parentRTindex parentrel top_parentrc lockmode =
     (case rd_partdesc parentrel of
        None \<Rightarrow> Inl Crash
      | Some oids \<Rightarrow>
          (case rt_fetch parentRTindex (rtable proot) of
             Inl e \<Rightarrow> Inl e
           | Inr parentrte \<Rightarrow>
               (let proot1 =
                      (if \<not> partColsUpdated proot
                       then proot \<lparr> partColsUpdated :=
                                      has_partition_attrs cat parentrel (updatedCols parentrte) \<rparr>
                       else proot)
                in case expand_single_inheritance_child cat proot1 parentRTindex parentrel
                          top_parentrc parentrel (append_rel_list proot1) of
                     Inl e \<Rightarrow> Inl e
                   | Inr (proot2, infos, childRTindex) \<Rightarrow>
                       (case expand_partitions cat depth (proot2 \<lparr> append_rel_list := infos \<rparr>)
                               parentRTindex parentrel top_parentrc lockmode oids False of
                          Inl e \<Rightarrow> Inl e
                        | Inr (proot3, has_child) \<Rightarrow>
                            if \<not> has_child then Inr (clear_inh proot3 parentRTindex)
                            else Inr proot3))))"
| "expand_partitions cat depth proot parentRTindex parentrel top_parentrc lockmode [] has_child =
     Inr (proot, has_child)"
| "expand_partitions cat depth proot parentRTindex parentrel top_parentrc lockmode
     (childOID # oids) has_child =
     (let childrel = heap_open cat childOID
      in if rd_other_temp childrel then
           expand_partitions cat depth proot parentRTindex parentrel top_parentrc lockmode
             oids has_child
         else
           (case expand_single_inheritance_child cat proot parentRTindex parentrel
                   top_parentrc childrel (append_rel_list proot) of
              Inl e \<Rightarrow> Inl e
            | Inr (proot1, infos, childRTindex) \<Rightarrow>
                (case (if rd_relkind childrel = RELKIND_PARTITIONED_TABLE
                       then expand_partitioned_rtentry cat depth
                              (proot1 \<lparr> append_rel_list := infos \<rparr>)
                              childRTindex childrel top_parentrc lockmode
                       else Inr (proot1 \<lparr> append_rel_list := infos \<rparr>)) of
                   Inl e \<Rightarrow> Inl e
                 | Inr proot2 \<Rightarrow>
                     expand_partitions cat depth proot2 parentRTindex parentrel top_parentrc
                       lockmode oids True)))"
  by pat_completeness auto
termination
  by (relation "measures
        [\<lambda>x. case x of
           Inl (cat, depth, rest) \<Rightarrow> 2 * depth
         | Inr (cat, depth, rest) \<Rightarrow> 2 * depth + 1,
         \<lambda>x. case x of
           Inl (cat, depth, rest) \<Rightarrow> 0
         | Inr (cat, depth, proot, idx, r, rc, lockmode, oids, has_child) \<Rightarrow> length oids]")
     auto

subsection \<open>expand_inherited_rtentry\<close>

text \<open>
  The loop of the plain-inheritance branch over \<^verbatim>\<open>inhOIDs\<close>; \<open>infos\<close> is the local list
  \<^verbatim>\<open>appinfos\<close>.
\<close>

fun expand_inheritance_children ::
  "catalog \<Rightarrow> ExpansionInfo \<Rightarrow> Index \<Rightarrow> Relation \<Rightarrow> nat option \<Rightarrow> Oid list \<Rightarrow> AppendRelInfo list
     \<Rightarrow> error + (ExpansionInfo \<times> AppendRelInfo list)" where
  "expand_inheritance_children cat proot rtindex oldrelation oldrc [] infos = Inr (proot, infos)"
| "expand_inheritance_children cat proot rtindex oldrelation oldrc (childOID # inhOIDs) infos =
     (let parentOID = rd_id oldrelation;
          newrelation = (if childOID \<noteq> parentOID then heap_open cat childOID else oldrelation)
      in if childOID \<noteq> parentOID \<and> rd_other_temp newrelation then
           expand_inheritance_children cat proot rtindex oldrelation oldrc inhOIDs infos
         else
           (case expand_single_inheritance_child cat proot rtindex oldrelation oldrc
                   newrelation infos of
              Inl e \<Rightarrow> Inl e
            | Inr (proot1, infos1, childRTindex) \<Rightarrow>
                expand_inheritance_children cat proot1 rtindex oldrelation oldrc inhOIDs infos1))"

text \<open>The lock mode for the children of the entry at \<open>rtindex\<close>, whose row mark is \<open>oldrc\<close>.\<close>

definition inheritance_lockmode :: "catalog \<Rightarrow> ExpansionInfo \<Rightarrow> Index \<Rightarrow> nat option \<Rightarrow> LOCKMODE" where
  "inheritance_lockmode cat proot rtindex oldrc =
     (if int rtindex = resultRelation proot then RowExclusiveLock
      else if (case oldrc of
                 None \<Rightarrow> False
               | Some k \<Rightarrow> RowMarkRequiresRowShareLock cat (markType (rowMarks proot ! k)))
      then RowShareLock
      else AccessShareLock)"

text \<open>
  \<^verbatim>\<open>expand_inherited_rtentry(root, rte, rti)\<close>, \<^verbatim>\<open>rte\<close> being the entry at index \<open>rtindex\<close> of
  the range table, as at its call in \<^verbatim>\<open>expand_inherited_tables\<close>. The argument \<open>depth\<close> is the
  room on the stack. A row mark position from \<^verbatim>\<open>get_plan_rowmark\<close> outside the list is a
  dangling pointer: a crash.
\<close>

definition expand_inherited_rtentry ::
  "catalog \<Rightarrow> nat \<Rightarrow> ExpansionInfo \<Rightarrow> Index \<Rightarrow> error + ExpansionInfo" where
  "expand_inherited_rtentry cat depth proot rtindex =
     (case rt_fetch rtindex (rtable proot) of
        Inl e \<Rightarrow> Inl e
      | Inr rte \<Rightarrow>
          if \<not> inh rte then Inr proot
          else if rtekind rte \<noteq> RTE_RELATION then Inr proot
          else if \<not> has_subclass cat (relid rte) then Inr (clear_inh proot rtindex)
          else
            (let parentOID = relid rte;
                 oldrc = get_plan_rowmark cat (rowMarks proot) rtindex
             in if (case oldrc of None \<Rightarrow> False | Some k \<Rightarrow> \<not> k < length (rowMarks proot))
                then Inl Crash
                else
                  (let lockmode = inheritance_lockmode cat proot rtindex oldrc;
                       inhOIDs = find_all_inheritors cat parentOID lockmode
                   in if length inhOIDs < 2 then Inr (clear_inh proot rtindex)
                      else
                        (let proot1 =
                               (case oldrc of
                                  None \<Rightarrow> proot
                                | Some k \<Rightarrow>
                                    proot \<lparr> rowMarks := (rowMarks proot)
                                              [k := (rowMarks proot ! k) \<lparr> isParent := True \<rparr>] \<rparr>);
                             oldrelation = heap_open cat parentOID
                         in case rd_partdesc oldrelation of
                              Some oids \<Rightarrow>
                                expand_partitioned_rtentry cat depth proot1 rtindex oldrelation
                                  oldrc lockmode
                            | None \<Rightarrow>
                                (case expand_inheritance_children cat proot1 rtindex oldrelation
                                        oldrc inhOIDs [] of
                                   Inl e \<Rightarrow> Inl e
                                 | Inr (proot2, infos) \<Rightarrow>
                                     if length infos < 2 then Inr (clear_inh proot2 rtindex)
                                     else Inr (proot2 \<lparr> append_rel_list :=
                                                 append_rel_list proot2 @ infos \<rparr>))))))"

text \<open>
  \<^verbatim>\<open>expand_inherited_tables\<close>: the entries \<open>1 .. nrtes\<close> of the range table as it was at the
  start, in order.
\<close>

fun expand_inherited_loop ::
  "catalog \<Rightarrow> nat \<Rightarrow> ExpansionInfo \<Rightarrow> Index list \<Rightarrow> error + ExpansionInfo" where
  "expand_inherited_loop cat depth proot [] = Inr proot"
| "expand_inherited_loop cat depth proot (rtindex # rest) =
     (case expand_inherited_rtentry cat depth proot rtindex of
        Inl e \<Rightarrow> Inl e
      | Inr proot1 \<Rightarrow> expand_inherited_loop cat depth proot1 rest)"

definition expand_inherited_tables :: "catalog \<Rightarrow> nat \<Rightarrow> ExpansionInfo \<Rightarrow> error + ExpansionInfo" where
  "expand_inherited_tables cat depth proot =
     expand_inherited_loop cat depth proot [1 ..< Suc (length (rtable proot))]"

subsection \<open>The no-inheritance case of expand_inherited_rtentry\<close>

text \<open>
  What the expansion leaves behind when it treats the entry at \<open>rtindex\<close> as a table without
  children: the entry's \<^verbatim>\<open>inh\<close> flag is clear and \<^verbatim>\<open>root->append_rel_list\<close> is as it was.
\<close>

definition no_inheritance_case :: "ExpansionInfo \<Rightarrow> Index \<Rightarrow> ExpansionInfo \<Rightarrow> bool" where
  "no_inheritance_case proot rtindex proot' =
     (\<not> inh (rtable proot' ! (rtindex - 1)) \<and> append_rel_list proot' = append_rel_list proot)"

text \<open>
  A row mark pointer is usable: it is NULL or the position of a row mark of the list. So is
  the one \<^verbatim>\<open>get_plan_rowmark\<close> finds for the entry.
\<close>

definition rowmark_ok :: "nat option \<Rightarrow> ExpansionInfo \<Rightarrow> bool" where
  "rowmark_ok rc proot = (case rc of None \<Rightarrow> True | Some k \<Rightarrow> k < length (rowMarks proot))"

definition plan_rowmark_found :: "catalog \<Rightarrow> ExpansionInfo \<Rightarrow> Index \<Rightarrow> bool" where
  "plan_rowmark_found cat proot rtindex =
     rowmark_ok (get_plan_rowmark cat (rowMarks proot) rtindex) proot"

text \<open>The inheritance set that \<^verbatim>\<open>find_all_inheritors\<close> returns for the entry.\<close>

definition inheritance_set :: "catalog \<Rightarrow> ExpansionInfo \<Rightarrow> Index \<Rightarrow> Oid \<Rightarrow> Oid list" where
  "inheritance_set cat proot rtindex parentOID =
     find_all_inheritors cat parentOID
       (inheritance_lockmode cat proot rtindex (get_plan_rowmark cat (rowMarks proot) rtindex))"

text \<open>
  The members of the inheritance set for which the plain-inheritance branch builds an
  \<^verbatim>\<open>AppendRelInfo\<close>: the parent itself unless it is a partitioned table, and every other
  member that is not a temporary table of another session.
\<close>

definition builds_appinfo :: "catalog \<Rightarrow> Relation \<Rightarrow> Oid \<Rightarrow> bool" where
  "builds_appinfo cat oldrelation childOID =
     (if childOID = rd_id oldrelation then rd_relkind oldrelation \<noteq> RELKIND_PARTITIONED_TABLE
      else \<not> rd_other_temp (heap_open cat childOID))"

definition fewer_than_two_appinfos :: "catalog \<Rightarrow> Relation \<Rightarrow> Oid list \<Rightarrow> bool" where
  "fewer_than_two_appinfos cat oldrelation inhOIDs =
     (length (filter (builds_appinfo cat oldrelation) inhOIDs) < 2)"

text \<open>Every member of the list other than the parent is a temporary table of another session.\<close>

definition children_all_other_temp :: "catalog \<Rightarrow> Oid \<Rightarrow> Oid list \<Rightarrow> bool" where
  "children_all_other_temp cat parentOID inhOIDs =
     list_all (\<lambda>oid. oid = parentOID \<or> rd_other_temp (heap_open cat oid)) inhOIDs"

text \<open>
  The partitioned table has no partition to scan: its descriptor lists none, or only temporary
  tables of other sessions.
\<close>

definition no_live_partition :: "catalog \<Rightarrow> Relation \<Rightarrow> bool" where
  "no_live_partition cat oldrelation =
     (rd_relkind oldrelation = RELKIND_PARTITIONED_TABLE \<and>
      (case rd_partdesc oldrelation of
         None \<Rightarrow> False
       | Some oids \<Rightarrow> list_all (\<lambda>oid. rd_other_temp (heap_open cat oid)) oids))"

subsection \<open>An example catalog\<close>

text \<open>
  Relation 100 is a plain table \<open>t (a int4, b text)\<close> with the children 101, whose columns are
  \<open>(b text, a int4)\<close>, and 102, a temporary table of another session. Relation 200 is a
  partitioned table whose only partition, 201, is a temporary table of another session.
\<close>

definition example_att :: "string \<Rightarrow> Oid \<Rightarrow> Oid \<Rightarrow> Attribute" where
  "example_att name typ coll =
     \<lparr> attname = name, atttypid = typ, atttypmod = -1, attcollation = coll,
       attisdropped = False \<rparr>"

definition example_relation :: "char \<Rightarrow> bool \<Rightarrow> Attribute list \<Rightarrow> Oid list option \<Rightarrow> Relation" where
  "example_relation kind other_temp atts partdesc =
     \<lparr> rd_id = 0, rd_relname = ''t'', rd_relkind = kind, rd_reltype = 0,
       rd_other_temp = other_temp, rd_att = atts, rd_partdesc = partdesc \<rparr>"

definition example_relcache :: "Oid \<Rightarrow> Relation" where
  "example_relcache oid =
     (if oid = 101 then
        example_relation (CHR ''r'') False
          [example_att ''b'' 25 100, example_att ''a'' 23 0] None
      else if oid = 102 \<or> oid = 201 then
        example_relation (CHR ''r'') True
          [example_att ''a'' 23 0, example_att ''b'' 25 100] None
      else if oid = 200 then
        example_relation (CHR ''p'') False
          [example_att ''a'' 23 0, example_att ''b'' 25 100] (Some [201])
      else
        example_relation (CHR ''r'') False
          [example_att ''a'' 23 0, example_att ''b'' 25 100] None)"

definition example_catalog :: catalog where
  "example_catalog =
     \<lparr> has_subclass = (\<lambda>oid. oid = 100 \<or> oid = 200),
       find_all_inheritors =
         (\<lambda>oid lockmode. if oid = 100 then [100, 101, 102]
                          else if oid = 200 then [200, 201] else [oid]),
       relcache = example_relcache,
       SearchSysCacheAttName =
         (\<lambda>oid name. if name = ''a'' then Some (if oid = 101 then 2 else 1)
                      else if name = ''b'' then Some (if oid = 101 then 1 else 2)
                      else None),
       has_partition_attrs = (\<lambda>r cols. False),
       select_rowmark_type = (\<lambda>rte str. 0),
       get_plan_rowmark = (\<lambda>marks idx. None),
       RowMarkRequiresRowShareLock = (\<lambda>mt. False),
       FirstLowInvalidHeapAttributeNumber = -8 \<rparr>"

definition example_rte :: "Oid \<Rightarrow> char \<Rightarrow> bool \<Rightarrow> Bitmapset \<Rightarrow> RangeTblEntry" where
  "example_rte oid kind inherit cols =
     \<lparr> rtekind = RTE_RELATION, relid = oid, relkind = kind, inh = inherit, requiredPerms = 2,
       selectedCols = cols, insertedCols = {}, updatedCols = {}, securityQuals = [],
       eref_colnames = [''a'', ''b''] \<rparr>"

definition example_expansion :: "RangeTblEntry list \<Rightarrow> ExpansionInfo" where
  "example_expansion rt =
     \<lparr> rtable = rt, resultRelation = 0, rowMarks = [], append_rel_list = [],
       partColsUpdated = False \<rparr>"

subsection \<open>Outer-level references in an expression tree\<close>

text \<open>
  \<open>outer_refs_kept n n'\<close>: the tree \<open>n'\<close> is the tree \<open>n\<close> in which nothing has been replaced
  but Vars of query level zero, the \<^verbatim>\<open>cvarno\<close> of \<^verbatim>\<open>CurrentOfExpr\<close> nodes and the
  \<^verbatim>\<open>rtindex\<close> of \<^verbatim>\<open>RangeTblRef\<close> nodes. Every Var of \<open>n\<close> whose \<^verbatim>\<open>varlevelsup\<close> is not zero
  stands in \<open>n'\<close> at the same place, with all its fields.
\<close>

fun outer_refs_kept :: "Node \<Rightarrow> Node \<Rightarrow> bool"
  and outer_refs_kept_list :: "Node list \<Rightarrow> Node list \<Rightarrow> bool"
  and outer_refs_kept_opt_list :: "Node option list \<Rightarrow> Node option list \<Rightarrow> bool" where
  "outer_refs_kept (T_Var var) n' = (varlevelsup var = 0 \<or> n' = T_Var var)"
| "outer_refs_kept (T_Const ty tm coll len v isnull byval) n' =
     (n' = T_Const ty tm coll len v isnull byval)"
| "outer_refs_kept (T_CurrentOfExpr cvarno cursor_name cursor_param) n' =
     (case n' of
        T_CurrentOfExpr cvarno' cursor_name' cursor_param' \<Rightarrow>
          cursor_name' = cursor_name \<and> cursor_param' = cursor_param
      | _ \<Rightarrow> False)"
| "outer_refs_kept (T_RangeTblRef rtindex) n' =
     (case n' of T_RangeTblRef rtindex' \<Rightarrow> True | _ \<Rightarrow> False)"
| "outer_refs_kept (T_RelabelType arg ty tm coll fmt) n' =
     (case n' of
        T_RelabelType arg' ty' tm' coll' fmt' \<Rightarrow>
          outer_refs_kept arg arg' \<and> ty' = ty \<and> tm' = tm \<and> coll' = coll \<and> fmt' = fmt
      | _ \<Rightarrow> False)"
| "outer_refs_kept (T_ConvertRowtypeExpr arg ty fmt loc) n' =
     (case n' of
        T_ConvertRowtypeExpr arg' ty' fmt' loc' \<Rightarrow>
          outer_refs_kept arg arg' \<and> ty' = ty \<and> fmt' = fmt \<and> loc' = loc
      | _ \<Rightarrow> False)"
| "outer_refs_kept (T_RowExpr args ty fmt names loc) n' =
     (case n' of
        T_RowExpr args' ty' fmt' names' loc' \<Rightarrow>
          outer_refs_kept_opt_list args args' \<and> ty' = ty \<and> fmt' = fmt \<and> names' = names
          \<and> loc' = loc
      | _ \<Rightarrow> False)"
| "outer_refs_kept (T_Expr tag args) n' =
     (case n' of
        T_Expr tag' args' \<Rightarrow> tag' = tag \<and> outer_refs_kept_list args args'
      | _ \<Rightarrow> False)"
| "outer_refs_kept_list [] ns' = (ns' = [])"
| "outer_refs_kept_list (n # ns) ns' =
     (case ns' of
        [] \<Rightarrow> False
      | n' # rest \<Rightarrow> outer_refs_kept n n' \<and> outer_refs_kept_list ns rest)"
| "outer_refs_kept_opt_list [] ns' = (ns' = [])"
| "outer_refs_kept_opt_list (None # ns) ns' =
     (case ns' of
        [] \<Rightarrow> False
      | n' # rest \<Rightarrow> n' = None \<and> outer_refs_kept_opt_list ns rest)"
| "outer_refs_kept_opt_list (Some n # ns) ns' =
     (case ns' of
        Some n' # rest \<Rightarrow> outer_refs_kept n n' \<and> outer_refs_kept_opt_list ns rest
      | _ \<Rightarrow> False)"

text \<open>
  \<open>only_outer_refs n\<close>: every Var of the tree \<open>n\<close> is of an outer query level, and the tree has
  no \<^verbatim>\<open>CurrentOfExpr\<close> and no \<^verbatim>\<open>RangeTblRef\<close> node.
\<close>

fun only_outer_refs :: "Node \<Rightarrow> bool"
  and only_outer_refs_list :: "Node list \<Rightarrow> bool"
  and only_outer_refs_opt_list :: "Node option list \<Rightarrow> bool" where
  "only_outer_refs (T_Var var) = (varlevelsup var \<noteq> 0)"
| "only_outer_refs (T_Const ty tm coll len v isnull byval) = True"
| "only_outer_refs (T_CurrentOfExpr cvarno cursor_name cursor_param) = False"
| "only_outer_refs (T_RangeTblRef rtindex) = False"
| "only_outer_refs (T_RelabelType arg ty tm coll fmt) = only_outer_refs arg"
| "only_outer_refs (T_ConvertRowtypeExpr arg ty fmt loc) = only_outer_refs arg"
| "only_outer_refs (T_RowExpr args ty fmt names loc) = only_outer_refs_opt_list args"
| "only_outer_refs (T_Expr tag args) = only_outer_refs_list args"
| "only_outer_refs_list [] = True"
| "only_outer_refs_list (n # ns) = (only_outer_refs n \<and> only_outer_refs_list ns)"
| "only_outer_refs_opt_list [] = True"
| "only_outer_refs_opt_list (None # ns) = only_outer_refs_opt_list ns"
| "only_outer_refs_opt_list (Some n # ns) = (only_outer_refs n \<and> only_outer_refs_opt_list ns)"

section \<open>Properties\<close>

subsection \<open>translate_col_privs\<close>

lemma translate_sys_attrs_upto:
  assumes "\<forall>a \<in> set as. flihan < a"
  shows "translate_sys_attrs flihan parent_privs as child_privs =
           Inr (child_privs \<union> {b. \<exists>a \<in> set as. b = a - flihan \<and> b \<in> parent_privs})"
  using assms
proof (induction as arbitrary: child_privs)
  case Nil
  then show ?case by simp
next
  case (Cons a as)
  then have "\<not> a - flihan < 0" by simp
  with Cons show ?case
    by (auto simp: bms_is_member_def bms_add_member_def)
qed

lemma sys_bits_upto:
  "{b. \<exists>a \<in> set [flihan + 1 .. -1]. b = a - flihan \<and> b \<in> parent_privs} =
     sys_priv_bits flihan parent_privs"
proof (rule set_eqI)
  fix b
  show "(b \<in> {b. \<exists>a \<in> set [flihan + 1 .. -1]. b = a - flihan \<and> b \<in> parent_privs}) =
        (b \<in> sys_priv_bits flihan parent_privs)"
  proof
    assume "b \<in> {b. \<exists>a \<in> set [flihan + 1 .. -1]. b = a - flihan \<and> b \<in> parent_privs}"
    then show "b \<in> sys_priv_bits flihan parent_privs"
      by (auto simp: sys_priv_bits_def)
  next
    assume "b \<in> sys_priv_bits flihan parent_privs"
    then have h: "b \<in> parent_privs" "0 < b" "b < - flihan"
      by (simp_all add: sys_priv_bits_def)
    then have "b + flihan \<in> set [flihan + 1 .. -1]" "b = (b + flihan) - flihan"
      by simp_all
    with h(1) show "b \<in> {b. \<exists>a \<in> set [flihan + 1 .. -1]. b = a - flihan \<and> b \<in> parent_privs}"
      by blast
  qed
qed

lemma translate_user_attrs_bits:
  assumes "flihan < 0" and "0 \<le> attno" and "live_attnos_positive vs"
  shows "translate_user_attrs flihan parent_privs whole_row attno vs child_privs =
           Inr (child_privs \<union>
                {b. \<exists>i var. i < length vs \<and> vs ! i = Some var \<and> b = varattno var - flihan \<and>
                      (whole_row \<or> attno + int i + 1 - flihan \<in> parent_privs)})"
  using assms
proof (induction vs arbitrary: attno child_privs)
  case Nil
  then show ?case by simp
next
  case (Cons v vs)
  have live: "live_attnos_positive vs"
    using Cons.prems(3) by (simp add: live_attnos_positive_def)
  have ih: "\<And>c. translate_user_attrs flihan parent_privs whole_row (attno + 1) vs c =
           Inr (c \<union>
                {b. \<exists>i var. i < length vs \<and> vs ! i = Some var \<and> b = varattno var - flihan \<and>
                      (whole_row \<or> attno + 1 + int i + 1 - flihan \<in> parent_privs)})"
    using Cons.IH [of "attno + 1"] Cons.prems(1,2) live by simp
  have shift: "\<And>P. (\<exists>i. i < length (v # vs) \<and> P i) = (P 0 \<or> (\<exists>i. i < length vs \<and> P (Suc i)))"
  proof -
    fix P :: "nat \<Rightarrow> bool"
    show "(\<exists>i. i < length (v # vs) \<and> P i) = (P 0 \<or> (\<exists>i. i < length vs \<and> P (Suc i)))"
    proof
      assume "\<exists>i. i < length (v # vs) \<and> P i"
      then obtain i where i: "i < length (v # vs)" "P i" by blast
      show "P 0 \<or> (\<exists>i. i < length vs \<and> P (Suc i))"
      proof (cases i)
        case 0
        with i show ?thesis by simp
      next
        case (Suc j)
        with i show ?thesis by auto
      qed
    next
      assume "P 0 \<or> (\<exists>i. i < length vs \<and> P (Suc i))"
      then show "\<exists>i. i < length (v # vs) \<and> P i" by auto
    qed
  qed
  let ?S = "{b. \<exists>i var. i < length vs \<and> vs ! i = Some var \<and> b = varattno var - flihan \<and>
                      (whole_row \<or> attno + 1 + int i + 1 - flihan \<in> parent_privs)}"
  have split_set: "{b. \<exists>i var. i < length (v # vs) \<and> (v # vs) ! i = Some var \<and>
                      b = varattno var - flihan \<and>
                      (whole_row \<or> attno + int i + 1 - flihan \<in> parent_privs)} =
          {b. \<exists>var. v = Some var \<and> b = varattno var - flihan \<and>
                      (whole_row \<or> attno + 1 - flihan \<in> parent_privs)} \<union> ?S"
    (is "?L = ?H \<union> ?S")
  proof -
    have "\<And>b. (b \<in> ?L) = (b \<in> ?H \<or> b \<in> ?S)"
    proof -
      fix b
      have "(b \<in> ?L) =
            (\<exists>i. i < length (v # vs) \<and> (\<exists>var. (v # vs) ! i = Some var \<and>
                      b = varattno var - flihan \<and>
                      (whole_row \<or> attno + int i + 1 - flihan \<in> parent_privs)))"
        by blast
      also have "\<dots> = ((\<exists>var. (v # vs) ! 0 = Some var \<and>
                      b = varattno var - flihan \<and>
                      (whole_row \<or> attno + int 0 + 1 - flihan \<in> parent_privs)) \<or>
                  (\<exists>i. i < length vs \<and> (\<exists>var. (v # vs) ! Suc i = Some var \<and>
                      b = varattno var - flihan \<and>
                      (whole_row \<or> attno + int (Suc i) + 1 - flihan \<in> parent_privs))))"
        by (rule shift)
      also have "\<dots> = (b \<in> ?H \<or> b \<in> ?S)"
        by (simp add: add.commute add.left_commute)
      finally show "(b \<in> ?L) = (b \<in> ?H \<or> b \<in> ?S)" .
    qed
    then show ?thesis by blast
  qed
  show ?case
  proof (cases v)
    case None
    then show ?thesis
      unfolding split_set using ih by simp
  next
    case (Some var)
    have pos: "0 < varattno var"
      using Cons.prems(3) Some by (simp add: live_attnos_positive_def)
    have nonneg: "\<not> varattno var - flihan < 0" "\<not> attno + 1 - flihan < 0"
      using pos Cons.prems(1,2) by simp_all
    show ?thesis
      unfolding split_set using Some ih nonneg
      by (auto simp: bms_is_member_def bms_add_member_def)
  qed
qed

lemma translate_col_privs_eq:
  assumes "flihan < 0" and "live_attnos_positive tvars"
  shows "translate_col_privs flihan parent_privs tvars =
           Inr (sys_priv_bits flihan parent_privs \<union>
                user_priv_bits flihan parent_privs tvars)"
proof -
  have sys: "translate_sys_attrs flihan parent_privs [flihan + 1 .. -1] {} =
               Inr (sys_priv_bits flihan parent_privs)"
  proof -
    have "\<forall>a \<in> set [flihan + 1 .. -1]. flihan < a" by simp
    from translate_sys_attrs_upto [OF this, of parent_privs "{}"] show ?thesis
      unfolding sys_bits_upto by simp
  qed
  have whole: "bms_is_member (InvalidAttrNumber - flihan) parent_privs =
                 Inr (- flihan \<in> parent_privs)"
    using assms(1) by (simp add: bms_is_member_def InvalidAttrNumber_def)
  show ?thesis
    unfolding translate_col_privs_def sys whole
    using translate_user_attrs_bits [OF assms(1) _ assms(2), of 0 parent_privs
        "- flihan \<in> parent_privs" "sys_priv_bits flihan parent_privs"]
    by (simp add: user_priv_bits_def InvalidAttrNumber_def)
qed

text \<open>
  C10. With \<^verbatim>\<open>FirstLowInvalidHeapAttributeNumber\<close> negative and a translation list as
  \<^verbatim>\<open>make_inh_translation_list\<close> builds it (the live entries carry positive child attribute
  numbers), \<^verbatim>\<open>translate_col_privs\<close> returns a set that never holds the whole-row bit; when the
  parent's set holds the whole-row bit the result holds the column bit of every live
  translated child column; the system-attribute bits are the parent's, at the same numbers;
  a parent column bit gives the bit of the child attribute recorded at that position; and
  nothing else is in the result, so a dropped slot contributes no bit.
\<close>

theorem translate_col_privs_spec:
  assumes "flihan < 0" and "live_attnos_positive tvars"
  shows "\<exists>child_privs.
           translate_col_privs flihan parent_privs tvars = Inr child_privs \<and>
           InvalidAttrNumber - flihan \<notin> child_privs \<and>
           (InvalidAttrNumber - flihan \<in> parent_privs \<longrightarrow>
              (\<forall>var. Some var \<in> set tvars \<longrightarrow> varattno var - flihan \<in> child_privs)) \<and>
           (\<forall>a. flihan < a \<and> a < 0 \<longrightarrow>
              (a - flihan \<in> child_privs) = (a - flihan \<in> parent_privs)) \<and>
           (\<forall>i var. i < length tvars \<and> tvars ! i = Some var \<and>
                    int i + 1 - flihan \<in> parent_privs \<longrightarrow>
                    varattno var - flihan \<in> child_privs) \<and>
           child_privs = sys_priv_bits flihan parent_privs \<union>
                         user_priv_bits flihan parent_privs tvars"
proof -
  let ?c = "sys_priv_bits flihan parent_privs \<union> user_priv_bits flihan parent_privs tvars"
  have pos: "\<And>i var. i < length tvars \<Longrightarrow> tvars ! i = Some var \<Longrightarrow>
               0 < varattno var"
  proof -
    fix i var
    assume "i < length tvars" "tvars ! i = Some var"
    then have "Some var \<in> set tvars" by (metis nth_mem)
    with assms(2) show "0 < varattno var"
      by (auto simp: live_attnos_positive_def list_all_iff)
  qed
  have eq: "translate_col_privs flihan parent_privs tvars = Inr ?c"
    using assms by (rule translate_col_privs_eq)
  have no_whole: "InvalidAttrNumber - flihan \<notin> ?c"
  proof
    assume "InvalidAttrNumber - flihan \<in> ?c"
    then have "- flihan \<in> user_priv_bits flihan parent_privs tvars"
      by (simp add: InvalidAttrNumber_def sys_priv_bits_def)
    then obtain i var where "i < length tvars" "tvars ! i = Some var"
      "- flihan = varattno var - flihan"
      unfolding user_priv_bits_def by blast
    with pos [of i var] show False by simp
  qed
  have whole: "InvalidAttrNumber - flihan \<in> parent_privs \<longrightarrow>
              (\<forall>var. Some var \<in> set tvars \<longrightarrow> varattno var - flihan \<in> ?c)"
  proof (intro impI allI)
    fix var
    assume w: "InvalidAttrNumber - flihan \<in> parent_privs" and m: "Some var \<in> set tvars"
    from m obtain i where "i < length tvars" "tvars ! i = Some var"
      by (auto simp: in_set_conv_nth)
    with w show "varattno var - flihan \<in> ?c"
      by (auto simp: InvalidAttrNumber_def user_priv_bits_def)
  qed
  have sys: "\<forall>a. flihan < a \<and> a < 0 \<longrightarrow> (a - flihan \<in> ?c) = (a - flihan \<in> parent_privs)"
  proof (intro allI impI)
    fix a
    assume a: "flihan < a \<and> a < 0"
    have "a - flihan \<notin> user_priv_bits flihan parent_privs tvars"
    proof
      assume "a - flihan \<in> user_priv_bits flihan parent_privs tvars"
      then obtain i var where "i < length tvars" "tvars ! i = Some var"
        "a - flihan = varattno var - flihan"
        unfolding user_priv_bits_def by blast
      with pos [of i var] a show False by simp
    qed
    moreover have "(a - flihan \<in> sys_priv_bits flihan parent_privs) = (a - flihan \<in> parent_privs)"
      using a by (auto simp: sys_priv_bits_def)
    ultimately show "(a - flihan \<in> ?c) = (a - flihan \<in> parent_privs)" by simp
  qed
  have user: "\<forall>i var. i < length tvars \<and> tvars ! i = Some var \<and>
                    int i + 1 - flihan \<in> parent_privs \<longrightarrow> varattno var - flihan \<in> ?c"
    by (auto simp: user_priv_bits_def)
  from eq no_whole whole sys user show ?thesis by blast
qed

text \<open>
  Witness for C10: \<^verbatim>\<open>FirstLowInvalidHeapAttributeNumber = -8\<close>, the parent holds the bits of
  system attribute \<open>-5\<close> and of column 3, and column 2 of the parent is dropped.
\<close>

theorem translate_col_privs_spec_witness:
  "(-8::int) < 0 \<and>
   live_attnos_positive [Some (makeVar 4 1 23 (-1) 0 0), None, Some (makeVar 4 2 25 (-1) 100 0)] \<and>
   translate_col_privs (-8) {3, 11}
     [Some (makeVar 4 1 23 (-1) 0 0), None, Some (makeVar 4 2 25 (-1) 100 0)] = Inr {3, 10} \<and>
   (8::int) \<notin> {3, 10}"
proof -
  let ?tv = "[Some (makeVar 4 1 23 (-1) 0 0), None, Some (makeVar 4 2 25 (-1) 100 0)]"
  have h1: "(-8::int) < 0" by simp
  have h2: "live_attnos_positive ?tv"
    by (simp add: live_attnos_positive_def makeVar_def)
  from translate_col_privs_spec [OF h1 h2, of "{3, 11}"]
  obtain c where c: "translate_col_privs (-8) {3, 11} ?tv = Inr c"
    and "InvalidAttrNumber - (-8) \<notin> c"
    by blast
  have up: "[-8 + 1 .. -1] = [-7, -6, -5, -4, -3, -2, -1::int]"
    by code_simp
  have "translate_col_privs (-8) {3, 11} ?tv = Inr {3, 10}"
    unfolding translate_col_privs_def up
    by (simp add: bms_is_member_def bms_add_member_def InvalidAttrNumber_def makeVar_def
        insert_commute)
  with h1 h2 show ?thesis by simp
qed

subsection \<open>adjust_appendrel_attrs_mutator on a Var\<close>

lemma find_appinfo_Some:
  "find_appinfo idx infos = Some a \<Longrightarrow> a \<in> set infos \<and> parent_relid a = idx"
  by (induction infos) (auto split: if_splits)

lemma find_appinfo_None:
  "(find_appinfo idx infos = None) = (\<forall>a \<in> set infos. parent_relid a \<noteq> idx)"
  by (induction infos) auto

lemma mutator_keeps_outer_refs:
  "(\<forall>n'. adjust_appendrel_attrs_mutator c n = Inr n' \<longrightarrow> outer_refs_kept n n')"
  "(\<forall>ns'. mutate_list c ns = Inr ns' \<longrightarrow> outer_refs_kept_list ns ns')"
  "(\<forall>os'. mutate_opt_list c os = Inr os' \<longrightarrow> outer_refs_kept_opt_list os os')"
proof (induction c n and c ns and c os
    rule: adjust_appendrel_attrs_mutator_mutate_list_mutate_opt_list.induct)
  case (1 c var)
  then show ?case
    by (auto simp: adjust_appendrel_attrs_var_def split: option.splits)
qed (auto split: option.splits sum.splits if_splits)

lemma mutator_outer_only:
  "only_outer_refs n \<longrightarrow> adjust_appendrel_attrs_mutator c n = Inr n"
  "only_outer_refs_list ns \<longrightarrow> mutate_list c ns = Inr ns"
  "only_outer_refs_opt_list os \<longrightarrow> mutate_opt_list c os = Inr os"
proof (induction c n and c ns and c os
    rule: adjust_appendrel_attrs_mutator_mutate_list_mutate_opt_list.induct)
  case (1 c var)
  then show ?case
    by (auto simp: adjust_appendrel_attrs_var_def split: option.splits)
qed auto

text \<open>
  C9. The translator never translates a reference to an outer query level. A Var whose
  \<^verbatim>\<open>varlevelsup\<close> is not zero comes back as a copy equal to the input, whatever its
  \<^verbatim>\<open>varno\<close> and whatever the maps say, from \<^verbatim>\<open>adjust_appendrel_attrs_mutator\<close> and from
  \<^verbatim>\<open>adjust_appendrel_attrs\<close> itself; so a Var that the translator changes has
  \<^verbatim>\<open>varlevelsup\<close> zero. The same holds anywhere inside an expression tree: in the tree
  that \<^verbatim>\<open>adjust_appendrel_attrs_mutator\<close> or \<^verbatim>\<open>adjust_appendrel_attrs\<close> returns, every
  outer-level Var of the input stands unchanged at its place, under the same nodes, and
  nothing but level-zero Vars, \<^verbatim>\<open>CurrentOfExpr\<close> and \<^verbatim>\<open>RangeTblRef\<close> nodes has been
  replaced. A tree all of whose Vars are of an outer level, and that has no \<^verbatim>\<open>CurrentOfExpr\<close>
  or \<^verbatim>\<open>RangeTblRef\<close> node, is returned as it is, without an error.
\<close>

theorem outer_level_var_untouched:
  "(varlevelsup var \<noteq> 0 \<longrightarrow>
      adjust_appendrel_attrs_mutator context (T_Var var) = Inr (T_Var var) \<and>
      adjust_appendrel_attrs rt (Some (T_Var var)) infos = Inr (Some (T_Var var))) \<and>
   (adjust_appendrel_attrs_mutator context (T_Var var) \<noteq> Inr (T_Var var) \<longrightarrow>
      varlevelsup var = 0) \<and>
   (\<forall>n'. adjust_appendrel_attrs_mutator context n = Inr n' \<longrightarrow> outer_refs_kept n n') \<and>
   (\<forall>n'. adjust_appendrel_attrs rt (Some n) infos = Inr (Some n') \<longrightarrow> outer_refs_kept n n') \<and>
   (only_outer_refs n \<longrightarrow>
      adjust_appendrel_attrs_mutator context n = Inr n \<and>
      adjust_appendrel_attrs rt (Some n) infos = Inr (Some n))"
proof (intro conjI)
  show "varlevelsup var \<noteq> 0 \<longrightarrow>
      adjust_appendrel_attrs_mutator context (T_Var var) = Inr (T_Var var) \<and>
      adjust_appendrel_attrs rt (Some (T_Var var)) infos = Inr (Some (T_Var var))"
    by (simp add: adjust_appendrel_attrs_def adjust_appendrel_attrs_var_def split: option.splits)
  show "adjust_appendrel_attrs_mutator context (T_Var var) \<noteq> Inr (T_Var var) \<longrightarrow>
      varlevelsup var = 0"
    by (simp add: adjust_appendrel_attrs_var_def split: option.splits)
  show "\<forall>n'. adjust_appendrel_attrs_mutator context n = Inr n' \<longrightarrow> outer_refs_kept n n'"
    by (rule mutator_keeps_outer_refs(1))
  show "\<forall>n'. adjust_appendrel_attrs rt (Some n) infos = Inr (Some n') \<longrightarrow> outer_refs_kept n n'"
    using mutator_keeps_outer_refs(1) [of "\<lparr> root_rtable = rt, appinfos = infos \<rparr>" n]
    by (auto simp: adjust_appendrel_attrs_def split: sum.splits)
  show "only_outer_refs n \<longrightarrow>
      adjust_appendrel_attrs_mutator context n = Inr n \<and>
      adjust_appendrel_attrs rt (Some n) infos = Inr (Some n)"
    using mutator_outer_only(1) [of n "context"]
      mutator_outer_only(1) [of n "\<lparr> root_rtable = rt, appinfos = infos \<rparr>"]
    by (simp add: adjust_appendrel_attrs_def)
qed

text \<open>
  Witness for C9, parent relation 1 being mapped to child 2 and its column 1 to the child's
  column 5: a Var of level 1 whose \<^verbatim>\<open>varno\<close> is 1 comes back as it is; in the expression
  \<open>outer.1 = inner.1\<close> only the level-zero Var is translated; and an outer-level Var under a
  \<^verbatim>\<open>RelabelType\<close> comes back as it is.
\<close>

theorem outer_level_var_untouched_witness:
  "varlevelsup (makeVar 1 1 23 (-1) 0 1) \<noteq> 0 \<and>
   find_appinfo (varno (makeVar 1 1 23 (-1) 0 1))
     [\<lparr> parent_relid = 1, child_relid = 2, parent_reltype = 100, child_reltype = 200,
        translated_vars = [Some (T_Var (makeVar 2 5 23 (-1) 0 0))], parent_reloid = 1000 \<rparr>] \<noteq> None \<and>
   adjust_appendrel_attrs_mutator
     \<lparr> root_rtable = [],
       appinfos = [\<lparr> parent_relid = 1, child_relid = 2, parent_reltype = 100, child_reltype = 200,
        translated_vars = [Some (T_Var (makeVar 2 5 23 (-1) 0 0))], parent_reloid = 1000 \<rparr>] \<rparr>
     (T_Var (makeVar 1 1 23 (-1) 0 1)) = Inr (T_Var (makeVar 1 1 23 (-1) 0 1)) \<and>
   adjust_appendrel_attrs_mutator
     \<lparr> root_rtable = [],
       appinfos = [\<lparr> parent_relid = 1, child_relid = 2, parent_reltype = 100, child_reltype = 200,
        translated_vars = [Some (T_Var (makeVar 2 5 23 (-1) 0 0))], parent_reloid = 1000 \<rparr>] \<rparr>
     (T_Expr ''OpExpr =''
        [T_Var (makeVar 1 1 23 (-1) 0 1), T_Var (makeVar 1 1 23 (-1) 0 0)]) =
     Inr (T_Expr ''OpExpr =''
            [T_Var (makeVar 1 1 23 (-1) 0 1), T_Var (makeVar 2 5 23 (-1) 0 0)]) \<and>
   outer_refs_kept
     (T_Expr ''OpExpr =''
        [T_Var (makeVar 1 1 23 (-1) 0 1), T_Var (makeVar 1 1 23 (-1) 0 0)])
     (T_Expr ''OpExpr =''
        [T_Var (makeVar 1 1 23 (-1) 0 1), T_Var (makeVar 2 5 23 (-1) 0 0)]) \<and>
   only_outer_refs (T_RelabelType (T_Var (makeVar 1 1 23 (-1) 0 1)) 25 (-1) 100
                      COERCE_IMPLICIT_CAST) \<and>
   adjust_appendrel_attrs []
     (Some (T_RelabelType (T_Var (makeVar 1 1 23 (-1) 0 1)) 25 (-1) 100 COERCE_IMPLICIT_CAST))
     [\<lparr> parent_relid = 1, child_relid = 2, parent_reltype = 100, child_reltype = 200,
        translated_vars = [Some (T_Var (makeVar 2 5 23 (-1) 0 0))], parent_reloid = 1000 \<rparr>] =
     Inr (Some (T_RelabelType (T_Var (makeVar 1 1 23 (-1) 0 1)) 25 (-1) 100
                  COERCE_IMPLICIT_CAST))"
proof -
  let ?c = "\<lparr> root_rtable = [],
       appinfos = [\<lparr> parent_relid = 1, child_relid = 2, parent_reltype = 100, child_reltype = 200,
        translated_vars = [Some (T_Var (makeVar 2 5 23 (-1) 0 0))], parent_reloid = 1000 \<rparr>] \<rparr>"
  let ?n = "T_Expr ''OpExpr =''
        [T_Var (makeVar 1 1 23 (-1) 0 1), T_Var (makeVar 1 1 23 (-1) 0 0)]"
  let ?r = "T_RelabelType (T_Var (makeVar 1 1 23 (-1) 0 1)) 25 (-1) 100 COERCE_IMPLICIT_CAST"
  have lvl: "varlevelsup (makeVar 1 1 23 (-1) 0 1) \<noteq> 0"
    by (simp add: makeVar_def)
  have run: "adjust_appendrel_attrs_mutator ?c ?n =
     Inr (T_Expr ''OpExpr =''
            [T_Var (makeVar 1 1 23 (-1) 0 1), T_Var (makeVar 2 5 23 (-1) 0 0)])"
    by (simp add: adjust_appendrel_attrs_var_def makeVar_def)
  have only: "only_outer_refs ?r"
    by (simp add: makeVar_def)
  note t = outer_level_var_untouched [of "makeVar 1 1 23 (-1) 0 1" ?c "[]" "appinfos ?c"]
  from t [of ?n] lvl
  have v: "adjust_appendrel_attrs_mutator ?c (T_Var (makeVar 1 1 23 (-1) 0 1)) =
             Inr (T_Var (makeVar 1 1 23 (-1) 0 1))"
    by blast
  from t [of ?n] run
  have k: "outer_refs_kept ?n
     (T_Expr ''OpExpr =''
        [T_Var (makeVar 1 1 23 (-1) 0 1), T_Var (makeVar 2 5 23 (-1) 0 0)])"
    by blast
  from t [of ?r] only
  have a: "adjust_appendrel_attrs [] (Some ?r) (appinfos ?c) = Inr (Some ?r)"
    by blast
  have f: "find_appinfo (varno (makeVar 1 1 23 (-1) 0 1)) (appinfos ?c) \<noteq> None"
    by (simp add: makeVar_def)
  from lvl f v run k only a show ?thesis by simp
qed



subsection \<open>Target lists of set operations\<close>

lemma AttrNumber_of_int_id: "0 \<le> n \<Longrightarrow> n \<le> 32767 \<Longrightarrow> AttrNumber_of_int n = n"
  unfolding AttrNumber_of_int_def by (rule signed_take_bit_int_eq_self) simp_all

lemma Index_of_int_id: "0 \<le> n \<Longrightarrow> n \<le> 32767 \<Longrightarrow> int (Index_of_int n) = n"
  unfolding Index_of_int_def by (simp add: take_bit_int_eq_self)

lemma setop_tlist_loop_props:
  assumes "setop_tlist_loop nf vno hack n ctl ccl itl rtl = Inr (tles, n')"
    and "1 \<le> n" and "n + int (length ctl) \<le> 32767"
  shows "n' = n + int (length tles) \<and> length tles \<le> length ctl \<and>
         (\<forall>i < length tles. resno (tles ! i) = n + int i \<and> \<not> resjunk (tles ! i) \<and>
              int (ressortgroupref (tles ! i)) = resno (tles ! i))"
  using assms
proof (induction nf vno hack n ctl ccl itl rtl arbitrary: tles n' rule: setop_tlist_loop.induct)
  case (1 nf vno hack n colType ctl colColl ccl inputtle itl rtl)
  from "1.prems"(1) obtain reftle rtl' where rtl: "rtl = reftle # rtl'"
    by (cases rtl) auto
  from "1.prems"(1) rtl obtain e where e: "setop_column_expr nf vno hack colType colColl inputtle = Inr e"
    by (auto split: sum.splits)
  from "1.prems"(1) rtl e obtain tles0 where
    rec: "setop_tlist_loop nf vno hack (n + 1) ctl ccl itl rtl' = Inr (tles0, n')"
    and tles: "tles = (makeTargetEntry e (AttrNumber_of_int n) (resname reftle) False)
                 \<lparr> ressortgroupref := Index_of_int (resno (makeTargetEntry e (AttrNumber_of_int n) (resname reftle) False)) \<rparr> # tles0"
    by (auto simp: Let_def split: sum.splits)
  have n: "0 \<le> n" "n \<le> 32767" using "1.prems"(2,3) by simp_all
  have ih: "n' = n + 1 + int (length tles0) \<and> length tles0 \<le> length ctl \<and>
         (\<forall>i < length tles0. resno (tles0 ! i) = n + 1 + int i \<and> \<not> resjunk (tles0 ! i) \<and>
              int (ressortgroupref (tles0 ! i)) = resno (tles0 ! i))"
    using "1.IH" [OF rtl e refl refl rec] "1.prems"(2,3) by simp
  show ?case
  proof (intro conjI allI impI)
    show "n' = n + int (length tles)" using ih tles by simp
    show "length tles \<le> length (colType # ctl)" using ih tles by simp
  next
    fix i assume i: "i < length tles"
    show "resno (tles ! i) = n + int i"
      using i ih tles n by (cases i) (simp_all add: makeTargetEntry_def AttrNumber_of_int_id)
    show "\<not> resjunk (tles ! i)"
      using i ih tles n by (cases i) (simp_all add: makeTargetEntry_def)
    show "int (ressortgroupref (tles ! i)) = resno (tles ! i)"
      using i ih tles n
      by (cases i) (simp_all add: makeTargetEntry_def AttrNumber_of_int_id Index_of_int_id)
  qed
qed auto
lemma convention_no_flag:
  assumes "\<forall>i < length tles. resno (tles ! i) = 1 + int i \<and> \<not> resjunk (tles ! i) \<and>
              int (ressortgroupref (tles ! i)) = resno (tles ! i)"
  shows "setop_tlist_convention False tles"
proof -
  have "map resno tles = map (\<lambda>i. int i + 1) [0 ..< length tles]"
    using assms by (intro nth_equalityI) simp_all
  then show ?thesis
    using assms by (simp add: setop_tlist_convention_def list_all_length)
qed

lemma convention_flag:
  assumes "\<forall>i < length tles. resno (tles ! i) = 1 + int i \<and> \<not> resjunk (tles ! i) \<and>
              int (ressortgroupref (tles ! i)) = resno (tles ! i)"
    and "resno f = 1 + int (length tles)" and "resjunk f" and "ressortgroupref f = 0"
  shows "setop_tlist_convention True (tles @ [f])"
proof -
  have "map resno (tles @ [f]) = map (\<lambda>i. int i + 1) [0 ..< length (tles @ [f])]"
  proof (intro nth_equalityI)
    show "length (map resno (tles @ [f])) = length (map (\<lambda>i. int i + 1) [0 ..< length (tles @ [f])])"
      by simp
  next
    fix i assume "i < length (map resno (tles @ [f]))"
    then have "i < length tles \<or> i = length tles" by auto
    then show "map resno (tles @ [f]) ! i = map (\<lambda>i. int i + 1) [0 ..< length (tles @ [f])] ! i"
      using assms(1,2) by (auto simp: nth_append simp del: upt_Suc)
  qed
  then show ?thesis
    using assms by (simp add: setop_tlist_convention_def list_all_length)
qed

lemma generate_setop_tlist_convention:
  assumes "generate_setop_tlist nf colTypes colCollations flag vno hack input_tlist refnames = Inr tlist"
    and "length colTypes < 32767"
  shows "setop_tlist_convention (flag \<ge> 0) tlist"
proof -
  from assms(1) obtain tles n where
    loop: "setop_tlist_loop nf vno hack 1 colTypes colCollations input_tlist refnames = Inr (tles, n)"
    by (auto simp: generate_setop_tlist_def split: sum.splits)
  have props: "n = 1 + int (length tles) \<and> length tles \<le> length colTypes \<and>
         (\<forall>i < length tles. resno (tles ! i) = 1 + int i \<and> \<not> resjunk (tles ! i) \<and>
              int (ressortgroupref (tles ! i)) = resno (tles ! i))"
    using setop_tlist_loop_props [OF loop] assms(2) by simp
  show ?thesis
  proof (cases "flag \<ge> 0")
    case True
    let ?f = "makeTargetEntry (T_Const INT4OID (-1) InvalidOid 4 flag False True)
                            (AttrNumber_of_int n) ''flag'' True"
    have tl: "tlist = tles @ [?f]"
      using assms(1) loop True by (simp add: generate_setop_tlist_def)
    have "AttrNumber_of_int n = n"
      using props assms(2) by (intro AttrNumber_of_int_id) simp_all
    then have "resno ?f = 1 + int (length tles)" "resjunk ?f" "ressortgroupref ?f = 0"
      using props by (simp_all add: makeTargetEntry_def)
    with props show ?thesis
      unfolding tl using True convention_flag by simp
  next
    case False
    have "tlist = tles"
      using assms(1) loop False by (simp add: generate_setop_tlist_def)
    with props False show ?thesis
      using convention_no_flag by simp
  qed
qed

lemma append_tlist_loop_props:
  assumes "append_tlist_loop n ctl tms ccl rtl = (tles, n')"
    and "1 \<le> n" and "n + int (length ctl) \<le> 32767"
  shows "n' = n + int (length tles) \<and> length tles = min (min (length ctl) (length tms)) (min (length ccl) (length rtl)) \<and>
         (\<forall>i < length tles. resno (tles ! i) = n + int i \<and> \<not> resjunk (tles ! i) \<and>
              int (ressortgroupref (tles ! i)) = resno (tles ! i) \<and>
              expr (tles ! i) = Some (T_Var (makeVar 0 (n + int i) (ctl ! i) (tms ! i) (ccl ! i) 0)))"
  using assms
proof (induction n ctl tms ccl rtl arbitrary: tles n' rule: append_tlist_loop.induct)
  case (1 n colType ctl colTypmod tms colColl ccl reftle rtl)
  obtain tles0 n0 where rec: "append_tlist_loop (n + 1) ctl tms ccl rtl = (tles0, n0)"
    by (cases "append_tlist_loop (n + 1) ctl tms ccl rtl")
  have n: "0 \<le> n" "n \<le> 32767" using "1.prems"(2,3) by simp_all
  have an: "AttrNumber_of_int n = n" using n by (rule AttrNumber_of_int_id)
  from "1.prems"(1) rec have n': "n' = n0"
    and tles: "tles = (makeTargetEntry (T_Var (makeVar 0 n colType colTypmod colColl 0)) n (resname reftle) False)
                 \<lparr> ressortgroupref := Index_of_int n \<rparr> # tles0"
    by (simp_all add: Let_def an makeTargetEntry_def)
  have ih: "n0 = n + 1 + int (length tles0) \<and> length tles0 = min (min (length ctl) (length tms)) (min (length ccl) (length rtl)) \<and>
         (\<forall>i < length tles0. resno (tles0 ! i) = n + 1 + int i \<and> \<not> resjunk (tles0 ! i) \<and>
              int (ressortgroupref (tles0 ! i)) = resno (tles0 ! i) \<and>
              expr (tles0 ! i) = Some (T_Var (makeVar 0 (n + 1 + int i) (ctl ! i) (tms ! i) (ccl ! i) 0)))"
    using "1.IH" [OF refl refl refl rec] "1.prems"(2,3) by simp
  show ?case
  proof (intro conjI allI impI)
    show "n' = n + int (length tles)" using ih tles n' by simp
    show "length tles = min (min (length (colType # ctl)) (length (colTypmod # tms)))
             (min (length (colColl # ccl)) (length (reftle # rtl)))" using ih tles by simp
  next
    fix i assume i: "i < length tles"
    show "resno (tles ! i) = n + int i"
      using i ih tles n by (cases i) (simp_all add: makeTargetEntry_def)
    show "\<not> resjunk (tles ! i)"
      using i ih tles n by (cases i) (simp_all add: makeTargetEntry_def)
    show "int (ressortgroupref (tles ! i)) = resno (tles ! i)"
      using i ih tles n
      by (cases i) (simp_all add: makeTargetEntry_def Index_of_int_id)
    show "expr (tles ! i) = Some (T_Var (makeVar 0 (n + int i) ((colType # ctl) ! i)
             ((colTypmod # tms) ! i) ((colColl # ccl) ! i) 0))"
      using i ih tles n
      by (cases i) (simp_all add: makeTargetEntry_def add.assoc)
  qed
qed auto
lemma append_typmods_sub_slots:
  assumes "length (nonjunk sub) = length ctl" and "ci + length ctl \<le> length tms"
  shows "\<exists>tms'. append_typmods_sub nf first ctl ci sub tms = Inr tms' \<and> length tms' = length tms \<and>
           (\<forall>j < length tms. tms' ! j =
              (if ci \<le> j \<and> j < ci + length ctl
               then typmod_step nf first (ctl ! (j - ci)) (tms ! j) (nonjunk sub ! (j - ci))
               else tms ! j))"
  using assms
proof (induction sub arbitrary: ctl ci tms)
  case Nil
  then show ?case by (simp add: nonjunk_def)
next
  case (Cons e sub)
  show ?case
  proof (cases "resjunk e")
    case True
    then have njeq: "nonjunk (e # sub) = nonjunk sub" by (simp add: nonjunk_def)
    have eq: "append_typmods_sub nf first ctl ci (e # sub) tms =
                append_typmods_sub nf first ctl ci sub tms"
      using True by simp
    have "length (nonjunk sub) = length ctl" using Cons.prems(1) njeq by simp
    from Cons.IH [OF this Cons.prems(2)] show ?thesis by (simp only: eq njeq)
  next
    case False
    then have nj: "nonjunk (e # sub) = e # nonjunk sub" by (simp add: nonjunk_def)
    with Cons.prems(1) obtain ct ctl' where ctl: "ctl = ct # ctl'"
      by (cases ctl) auto
    let ?tms = "tms[ci := typmod_step nf first ct (tms ! ci) e]"
    have step: "append_typmods_sub nf first ctl ci (e # sub) tms =
                  append_typmods_sub nf first ctl' (ci + 1) sub ?tms"
      using False ctl by (simp add: typmod_step_def Let_def)
    have "length (nonjunk sub) = length ctl'" "ci + 1 + length ctl' \<le> length ?tms"
      using Cons.prems nj ctl by simp_all
    from Cons.IH [OF this] obtain tms' where
      r: "append_typmods_sub nf first ctl' (ci + 1) sub ?tms = Inr tms'"
      and len: "length tms' = length ?tms"
      and slots: "\<forall>j < length ?tms. tms' ! j =
              (if ci + 1 \<le> j \<and> j < ci + 1 + length ctl'
               then typmod_step nf first (ctl' ! (j - (ci + 1))) (?tms ! j) (nonjunk sub ! (j - (ci + 1)))
               else ?tms ! j)"
      by blast
    have "\<forall>j < length tms. tms' ! j =
              (if ci \<le> j \<and> j < ci + length ctl
               then typmod_step nf first (ctl ! (j - ci)) (tms ! j) (nonjunk (e # sub) ! (j - ci))
               else tms ! j)"
    proof (intro allI impI)
      fix j assume j: "j < length tms"
      consider "j < ci" | "j = ci" | "ci < j" by linarith
      then show "tms' ! j =
              (if ci \<le> j \<and> j < ci + length ctl
               then typmod_step nf first (ctl ! (j - ci)) (tms ! j) (nonjunk (e # sub) ! (j - ci))
               else tms ! j)"
      proof cases
        case 1
        with slots j show ?thesis by simp
      next
        case 2
        with slots j show ?thesis by (simp add: ctl nj)
      next
        case 3
        then obtain k where k: "j - ci = Suc k" "j - (ci + 1) = k"
          by (metis Suc_diff_Suc diff_diff_left plus_1_eq_Suc add.commute)
        with 3 slots j show ?thesis by (simp add: ctl nj)
      qed
    qed
    with r len step show ?thesis by simp
  qed
qed

lemma append_typmods_slots:
  assumes "\<forall>sub \<in> set subs. length (nonjunk sub) = length colTypes"
    and "length tms = length colTypes"
  shows "\<exists>tms'. append_typmods nf first colTypes subs tms = Inr tms' \<and> length tms' = length tms \<and>
           (\<forall>j < length tms. tms' ! j =
              typmod_steps nf first (colTypes ! j) (tms ! j) (map (\<lambda>sub. nonjunk sub ! j) subs))"
  using assms
proof (induction subs arbitrary: tms first)
  case Nil
  then show ?case by simp
next
  case (Cons sub subs)
  have "length (nonjunk sub) = length colTypes" "0 + length colTypes \<le> length tms"
    using Cons.prems by simp_all
  from append_typmods_sub_slots [OF this, of nf first] obtain tms1 where
    r1: "append_typmods_sub nf first colTypes 0 sub tms = Inr tms1"
    and len1: "length tms1 = length tms"
    and s1: "\<forall>j < length tms. tms1 ! j =
               typmod_step nf first (colTypes ! j) (tms ! j) (nonjunk sub ! j)"
    using Cons.prems(2) by auto
  have "\<forall>sub \<in> set subs. length (nonjunk sub) = length colTypes" "length tms1 = length colTypes"
    using Cons.prems len1 by simp_all
  from Cons.IH [OF this, of False] obtain tms' where
    r: "append_typmods nf False colTypes subs tms1 = Inr tms'"
    and len: "length tms' = length tms1"
    and s: "\<forall>j < length tms1. tms' ! j =
              typmod_steps nf False (colTypes ! j) (tms1 ! j) (map (\<lambda>sub. nonjunk sub ! j) subs)"
    by blast
  from r1 r len len1 s s1 show ?case by simp
qed

lemma typmod_steps_rest:
  "typmod_steps nf False colType (if b then t0 else -1) es =
     (if b \<and> list_all (\<lambda>tle. exprType nf (expr tle) = colType \<and> exprTypmod nf (expr tle) = t0) es
      then t0 else -1)"
proof (induction es arbitrary: b)
  case Nil
  then show ?case by simp
next
  case (Cons e es)
  have "typmod_step nf False colType (if b then t0 else -1) e =
          (if b \<and> exprType nf (expr e) = colType \<and> exprTypmod nf (expr e) = t0 then t0 else -1)"
    by (auto simp: typmod_step_def)
  then show ?case
    using Cons.IH [of "b \<and> exprType nf (expr e) = colType \<and> exprTypmod nf (expr e) = t0"]
    by auto
qed

lemma typmod_steps_agreed:
  "entries \<noteq> [] \<Longrightarrow> typmod_steps nf True colType cur entries = agreed_typmod nf colType entries"
proof (cases entries)
  case Nil
  assume "entries \<noteq> []"
  with Nil show ?thesis by simp
next
  case (Cons e es)
  have "typmod_step nf True colType cur e =
          (if exprType nf (expr e) = colType then exprTypmod nf (expr e) else -1)"
    by (simp add: typmod_step_def)
  then show ?thesis
    using Cons typmod_steps_rest [of nf colType "exprType nf (expr e) = colType"
        "exprTypmod nf (expr e)" es]
    by (auto simp: agreed_typmod_def)
qed

lemma append_tlist_loop_vars:
  assumes "append_tlist_loop n ctl tms ccl rtl = (tles, n')"
  shows "length tles = min (min (length ctl) (length tms)) (min (length ccl) (length rtl)) \<and>
         (\<forall>i < length tles. \<exists>v. expr (tles ! i) = Some (T_Var v) \<and> vartype v = ctl ! i \<and>
              vartypmod v = tms ! i \<and> varcollid v = ccl ! i)"
  using assms
proof (induction n ctl tms ccl rtl arbitrary: tles n' rule: append_tlist_loop.induct)
  case (1 n colType ctl colTypmod tms colColl ccl reftle rtl)
  obtain tles0 n0 where rec: "append_tlist_loop (n + 1) ctl tms ccl rtl = (tles0, n0)"
    by (cases "append_tlist_loop (n + 1) ctl tms ccl rtl")
  define t where "t = (makeTargetEntry (T_Var (makeVar 0 (AttrNumber_of_int n) colType colTypmod colColl 0))
                 (AttrNumber_of_int n) (resname reftle) False)
             \<lparr> ressortgroupref := Index_of_int (resno (makeTargetEntry
                 (T_Var (makeVar 0 (AttrNumber_of_int n) colType colTypmod colColl 0))
                 (AttrNumber_of_int n) (resname reftle) False)) \<rparr>"
  have tles: "tles = t # tles0"
    using "1.prems" rec by (simp add: Let_def t_def)
  have t: "expr t = Some (T_Var (makeVar 0 (AttrNumber_of_int n) colType colTypmod colColl 0))"
    by (simp add: t_def makeTargetEntry_def)
  note ih = "1.IH" [OF refl refl refl rec]
  show ?case
  proof (intro conjI allI impI)
    show "length tles = min (min (length (colType # ctl)) (length (colTypmod # tms)))
             (min (length (colColl # ccl)) (length (reftle # rtl)))" using ih tles by simp
  next
    fix i assume i: "i < length tles"
    show "\<exists>v. expr (tles ! i) = Some (T_Var v) \<and> vartype v = (colType # ctl) ! i \<and>
              vartypmod v = (colTypmod # tms) ! i \<and> varcollid v = (colColl # ccl) ! i"
      using i ih tles t by (cases i) (simp_all add: makeVar_def)
  qed
qed auto
lemma generate_append_tlist_convention:
  assumes "generate_append_tlist nf fresh colTypes colCollations flag input_tlists refnames = Inr tlist"
    and "length colTypes < 32767"
  shows "setop_tlist_convention flag tlist"
proof -
  from assms(1) obtain tms where
    tms: "append_typmods nf True colTypes input_tlists (map fresh [0 ..< length colTypes]) = Inr tms"
    by (auto simp: generate_append_tlist_def split: sum.splits)
  obtain tles n where loop: "append_tlist_loop 1 colTypes tms colCollations refnames = (tles, n)"
    by (cases "append_tlist_loop 1 colTypes tms colCollations refnames")
  have props: "n = 1 + int (length tles) \<and>
         length tles = min (min (length colTypes) (length tms)) (min (length colCollations) (length refnames)) \<and>
         (\<forall>i < length tles. resno (tles ! i) = 1 + int i \<and> \<not> resjunk (tles ! i) \<and>
              int (ressortgroupref (tles ! i)) = resno (tles ! i) \<and>
              expr (tles ! i) = Some (T_Var (makeVar 0 (1 + int i) (colTypes ! i) (tms ! i) (colCollations ! i) 0)))"
    using append_tlist_loop_props [OF loop] assms(2) by simp
  then have conv: "\<forall>i < length tles. resno (tles ! i) = 1 + int i \<and> \<not> resjunk (tles ! i) \<and>
              int (ressortgroupref (tles ! i)) = resno (tles ! i)"
    by blast
  show ?thesis
  proof (cases flag)
    case True
    let ?f = "makeTargetEntry (T_Var (makeVar 0 (AttrNumber_of_int n) INT4OID (-1) InvalidOid 0))
                                (AttrNumber_of_int n) ''flag'' True"
    have tl: "tlist = tles @ [?f]"
      using assms(1) tms loop True by (simp add: generate_append_tlist_def Let_def)
    have "AttrNumber_of_int n = n"
      using props assms(2) by (intro AttrNumber_of_int_id) simp_all
    then have "resno ?f = 1 + int (length tles)" "resjunk ?f" "ressortgroupref ?f = 0"
      using props by (simp_all add: makeTargetEntry_def)
    with conv show ?thesis
      unfolding tl using True convention_flag by simp
  next
    case False
    have "tlist = tles"
      using assms(1) tms loop False by (simp add: generate_append_tlist_def Let_def)
    with conv False show ?thesis
      using convention_no_flag by simp
  qed
qed

text \<open>
  C6. With fewer than 32767 columns (so that every result number fits \<^verbatim>\<open>AttrNumber\<close>; the
  parser allows at most 1664), a target list that \<^verbatim>\<open>generate_setop_tlist\<close> or
  \<^verbatim>\<open>generate_append_tlist\<close> returns follows the convention: the result numbers are
  \<open>1, 2, ...\<close> in order, every entry but the flag column is not junk and has
  \<^verbatim>\<open>ressortgroupref\<close> equal to its \<^verbatim>\<open>resno\<close>, and the flag column, when requested, is the last
  entry, junk, with \<^verbatim>\<open>ressortgroupref\<close> zero. This holds whenever the functions return.
\<close>

theorem setop_tlists_follow_convention:
  assumes "length colTypes < 32767"
  shows "(generate_setop_tlist nf colTypes colCollations flag vno hack input_tlist refnames = Inr tlist
            \<longrightarrow> setop_tlist_convention (flag \<ge> 0) tlist) \<and>
         (generate_append_tlist nf fresh colTypes colCollations aflag input_tlists refnames = Inr atlist
            \<longrightarrow> setop_tlist_convention aflag atlist)"
  using assms generate_setop_tlist_convention generate_append_tlist_convention by blast

text \<open>
  Witness for C6: two columns (numeric and varchar) and flag 1 over a sub-plan with the same
  two columns.
\<close>

theorem setop_tlists_follow_convention_witness:
  "length [1700::Oid, 1043] < 32767 \<and>
   generate_setop_tlist example_nf [1700, 1043] [0, 100] 1 3 True
     [example_tle 1 ''a'' 1700 655366 0, example_tle 2 ''b'' 1043 14 100]
     [example_tle 1 ''x'' 1700 655366 0, example_tle 2 ''y'' 1043 14 100] =
     Inr [\<lparr> expr = Some (T_Var (makeVar 3 1 1700 655366 0 0)), resno = 1, resname = ''x'',
             ressortgroupref = 1, resjunk = False \<rparr>,
          \<lparr> expr = Some (T_Var (makeVar 3 2 1043 14 100 0)), resno = 2, resname = ''y'',
             ressortgroupref = 2, resjunk = False \<rparr>,
          \<lparr> expr = Some (T_Const INT4OID (-1) InvalidOid 4 1 False True), resno = 3,
             resname = ''flag'', ressortgroupref = 0, resjunk = True \<rparr>] \<and>
   setop_tlist_convention (1 \<ge> (0::int))
       [\<lparr> expr = Some (T_Var (makeVar 3 1 1700 655366 0 0)), resno = 1, resname = ''x'',
             ressortgroupref = 1, resjunk = False \<rparr>,
          \<lparr> expr = Some (T_Var (makeVar 3 2 1043 14 100 0)), resno = 2, resname = ''y'',
             ressortgroupref = 2, resjunk = False \<rparr>,
          \<lparr> expr = Some (T_Const INT4OID (-1) InvalidOid 4 1 False True), resno = 3,
             resname = ''flag'', ressortgroupref = 0, resjunk = True \<rparr>]"
proof -
  have b: "length [1700::Oid, 1043] < 32767" by simp
  have a: "AttrNumber_of_int 1 = 1" "AttrNumber_of_int 2 = 2" "AttrNumber_of_int 3 = 3"
    by (simp_all add: AttrNumber_of_int_id)
  have i: "Index_of_int 1 = 1" "Index_of_int 2 = 2"
    by (simp_all add: Index_of_int_def)
  have r: "generate_setop_tlist example_nf [1700, 1043] [0, 100] 1 3 True
     [example_tle 1 ''a'' 1700 655366 0, example_tle 2 ''b'' 1043 14 100]
     [example_tle 1 ''x'' 1700 655366 0, example_tle 2 ''y'' 1043 14 100] =
     Inr [\<lparr> expr = Some (T_Var (makeVar 3 1 1700 655366 0 0)), resno = 1, resname = ''x'',
             ressortgroupref = 1, resjunk = False \<rparr>,
          \<lparr> expr = Some (T_Var (makeVar 3 2 1043 14 100 0)), resno = 2, resname = ''y'',
             ressortgroupref = 2, resjunk = False \<rparr>,
          \<lparr> expr = Some (T_Const INT4OID (-1) InvalidOid 4 1 False True), resno = 3,
             resname = ''flag'', ressortgroupref = 0, resjunk = True \<rparr>]"
    by (simp add: generate_setop_tlist_def setop_column_expr_def example_nf_def example_tle_def
        makeTargetEntry_def makeVar_def is_Const_def a i Let_def)
  from setop_tlists_follow_convention [OF b, of example_nf "[0, 100]" 1 3 True] r b
  show ?thesis by blast
qed

text \<open>
  C5. When \<^verbatim>\<open>input_tlists\<close> is not empty and every input target list has one non-junk entry
  per declared column (the function's own assertions), \<^verbatim>\<open>generate_append_tlist\<close> returns,
  and at every column position of the list it builds the Var's typmod is the agreed typmod
  of the inputs' entries at that position: their common typmod when every entry has the
  declared column type and the typmod of the first input's entry, and \<open>-1\<close> as soon as one
  entry differs in type from the declared type or in typmod from the first input's.
\<close>

theorem append_tlist_typmods:
  assumes "input_tlists \<noteq> []"
    and "\<forall>sub \<in> set input_tlists. length (nonjunk sub) = length colTypes"
  shows "\<exists>tlist. generate_append_tlist nf fresh colTypes colCollations flag input_tlists refnames = Inr tlist \<and>
           (\<forall>i. i < length colTypes \<and> i < length colCollations \<and> i < length refnames \<longrightarrow>
              (\<exists>v. expr (tlist ! i) = Some (T_Var v) \<and>
                   vartypmod v = agreed_typmod nf (colTypes ! i)
                                   (map (\<lambda>sub. nonjunk sub ! i) input_tlists)))"
proof -
  have "length (map fresh [0 ..< length colTypes]) = length colTypes" by simp
  from append_typmods_slots [OF assms(2) this, of nf True] obtain tms where
    tms: "append_typmods nf True colTypes input_tlists (map fresh [0 ..< length colTypes]) = Inr tms"
    and len: "length tms = length colTypes"
    and slots: "\<forall>j < length colTypes. tms ! j =
              typmod_steps nf True (colTypes ! j) (fresh j) (map (\<lambda>sub. nonjunk sub ! j) input_tlists)"
    by auto
  have agreed: "\<forall>j < length colTypes. tms ! j =
              agreed_typmod nf (colTypes ! j) (map (\<lambda>sub. nonjunk sub ! j) input_tlists)"
    using slots assms(1) by (simp add: typmod_steps_agreed)
  obtain tles n where loop: "append_tlist_loop 1 colTypes tms colCollations refnames = (tles, n)"
    by (cases "append_tlist_loop 1 colTypes tms colCollations refnames")
  note vars = append_tlist_loop_vars [OF loop]
  let ?f = "makeTargetEntry (T_Var (makeVar 0 (AttrNumber_of_int n) INT4OID (-1) InvalidOid 0))
                                (AttrNumber_of_int n) ''flag'' True"
  let ?tlist = "if flag then tles @ [?f] else tles"
  have res: "generate_append_tlist nf fresh colTypes colCollations flag input_tlists refnames = Inr ?tlist"
    using tms loop by (simp add: generate_append_tlist_def Let_def)
  have "\<forall>i. i < length colTypes \<and> i < length colCollations \<and> i < length refnames \<longrightarrow>
              (\<exists>v. expr (?tlist ! i) = Some (T_Var v) \<and>
                   vartypmod v = agreed_typmod nf (colTypes ! i)
                                   (map (\<lambda>sub. nonjunk sub ! i) input_tlists))"
  proof (intro allI impI)
    fix i assume i: "i < length colTypes \<and> i < length colCollations \<and> i < length refnames"
    then have il: "i < length tles" using vars len by simp
    then have nth: "?tlist ! i = tles ! i" by (simp add: nth_append)
    from vars il obtain v where "expr (tles ! i) = Some (T_Var v)" "vartypmod v = tms ! i"
      by blast
    with agreed i nth show "\<exists>v. expr (?tlist ! i) = Some (T_Var v) \<and>
                   vartypmod v = agreed_typmod nf (colTypes ! i)
                                   (map (\<lambda>sub. nonjunk sub ! i) input_tlists)"
      by auto
  qed
  with res show ?thesis by blast
qed

text \<open>
  Witness for C5: both inputs give numeric(10,2) in column 1, and varchar(10) against
  varchar(20) in column 2; the fresh array held 7 in every slot.
\<close>

theorem append_tlist_typmods_witness:
  "[[example_tle 1 ''a'' 1700 655366 0, example_tle 2 ''b'' 1043 14 100],
    [example_tle 1 ''c'' 1700 655366 0, example_tle 2 ''d'' 1043 24 100]] \<noteq> [] \<and>
   list_all (\<lambda>sub. length (nonjunk sub) = length [1700::Oid, 1043])
     [[example_tle 1 ''a'' 1700 655366 0, example_tle 2 ''b'' 1043 14 100],
      [example_tle 1 ''c'' 1700 655366 0, example_tle 2 ''d'' 1043 24 100]] \<and>
   generate_append_tlist example_nf (\<lambda>i. 7) [1700, 1043] [0, 100] False
     [[example_tle 1 ''a'' 1700 655366 0, example_tle 2 ''b'' 1043 14 100],
      [example_tle 1 ''c'' 1700 655366 0, example_tle 2 ''d'' 1043 24 100]]
     [example_tle 1 ''x'' 1700 655366 0, example_tle 2 ''y'' 1043 14 100] =
     Inr [\<lparr> expr = Some (T_Var (makeVar 0 1 1700 655366 0 0)), resno = 1, resname = ''x'',
             ressortgroupref = 1, resjunk = False \<rparr>,
          \<lparr> expr = Some (T_Var (makeVar 0 2 1043 (-1) 100 0)), resno = 2, resname = ''y'',
             ressortgroupref = 2, resjunk = False \<rparr>] \<and>
   agreed_typmod example_nf 1700
     [example_tle 1 ''a'' 1700 655366 0, example_tle 1 ''c'' 1700 655366 0] = 655366 \<and>
   agreed_typmod example_nf 1043
     [example_tle 2 ''b'' 1043 14 100, example_tle 2 ''d'' 1043 24 100] = -1"
proof -
  let ?in = "[[example_tle 1 ''a'' 1700 655366 0, example_tle 2 ''b'' 1043 14 100],
      [example_tle 1 ''c'' 1700 655366 0, example_tle 2 ''d'' 1043 24 100]]"
  have h1: "?in \<noteq> []" by simp
  have h2: "\<forall>sub \<in> set ?in. length (nonjunk sub) = length [1700::Oid, 1043]"
    by (simp add: nonjunk_def example_tle_def)
  from append_tlist_typmods [OF h1 h2, of example_nf "\<lambda>i. 7" "[0, 100]" False
      "[example_tle 1 ''x'' 1700 655366 0, example_tle 2 ''y'' 1043 14 100]"]
  obtain tlist where
    t: "generate_append_tlist example_nf (\<lambda>i. 7) [1700, 1043] [0, 100] False ?in
          [example_tle 1 ''x'' 1700 655366 0, example_tle 2 ''y'' 1043 14 100] = Inr tlist"
    by blast
  have a: "AttrNumber_of_int 1 = 1" "AttrNumber_of_int 2 = 2" "AttrNumber_of_int 3 = 3"
    by (simp_all add: AttrNumber_of_int_id)
  have i: "Index_of_int 1 = 1" "Index_of_int 2 = 2"
    by (simp_all add: Index_of_int_def)
  have up: "[0 ..< length [1700::Oid, 1043]] = [0, 1]"
    by (simp add: upt_rec)
  have r: "generate_append_tlist example_nf (\<lambda>i. 7) [1700, 1043] [0, 100] False ?in
          [example_tle 1 ''x'' 1700 655366 0, example_tle 2 ''y'' 1043 14 100] =
     Inr [\<lparr> expr = Some (T_Var (makeVar 0 1 1700 655366 0 0)), resno = 1, resname = ''x'',
             ressortgroupref = 1, resjunk = False \<rparr>,
          \<lparr> expr = Some (T_Var (makeVar 0 2 1043 (-1) 100 0)), resno = 2, resname = ''y'',
             ressortgroupref = 2, resjunk = False \<rparr>]"
    unfolding generate_append_tlist_def up
    by (simp add: example_nf_def example_tle_def makeTargetEntry_def makeVar_def a i Let_def)
  have g: "agreed_typmod example_nf 1700
     [example_tle 1 ''a'' 1700 655366 0, example_tle 1 ''c'' 1700 655366 0] = 655366"
    "agreed_typmod example_nf 1043
     [example_tle 2 ''b'' 1043 14 100, example_tle 2 ''d'' 1043 24 100] = -1"
    by (simp_all add: agreed_typmod_def example_nf_def example_tle_def makeVar_def)
  from h1 h2 t r g show ?thesis by (simp add: list_all_iff)
qed

subsection \<open>choose_hashed_setop\<close>

text \<open>
  C1. The decision of \<^verbatim>\<open>choose_hashed_setop\<close>: hashable but not sortable grouping clauses give
  true (hash), whatever \<^verbatim>\<open>enable_hashagg\<close>, the memory estimate and the costs are; sortable
  but not hashable give false (sort); neither gives the feature-not-supported error
  "could not implement" followed by the construct's name; with both, the result is false
  when \<^verbatim>\<open>enable_hashagg\<close> is off, false when (MAXALIGN(width) +
  MAXALIGN(SizeofMinimalTupleHeader)) * dNumGroups exceeds \<^verbatim>\<open>work_mem * 1024\<close>, and otherwise
  true exactly when the fractional-cost comparison of the hashed dummy path against the
  sort-then-group dummy path (the tuple fraction divided by dNumOutputRows when it is at
  least 1) is negative, so that a tie chooses sorting.
\<close>

theorem choose_hashed_setop_decision:
  "(grouping_is_hashable env groupClauses \<and> \<not> grouping_is_sortable env groupClauses \<longrightarrow>
      choose_hashed_setop env proot groupClauses input_path dNumGroups dNumOutputRows construct_name
        = Inr True) \<and>
   (grouping_is_sortable env groupClauses \<and> \<not> grouping_is_hashable env groupClauses \<longrightarrow>
      choose_hashed_setop env proot groupClauses input_path dNumGroups dNumOutputRows construct_name
        = Inr False) \<and>
   (\<not> grouping_is_sortable env groupClauses \<and> \<not> grouping_is_hashable env groupClauses \<longrightarrow>
      choose_hashed_setop env proot groupClauses input_path dNumGroups dNumOutputRows construct_name
        = Inl (FeatureNotSupported (''could not implement '' @ construct_name)
                ''Some of the datatypes only support hashing, while others only support sorting.'')) \<and>
   (grouping_is_sortable env groupClauses \<and> grouping_is_hashable env groupClauses \<longrightarrow>
      choose_hashed_setop env proot groupClauses input_path dNumGroups dNumOutputRows construct_name
        = (if \<not> enable_hashagg env then Inr False
           else if hash_table_exceeds_work_mem env input_path dNumGroups then Inr False
           else Inr (compare_fractional_path_costs env
                       (hashed_dummy_cost env groupClauses input_path dNumGroups)
                       (sorted_dummy_cost env groupClauses input_path dNumGroups)
                       (limit_fraction env proot dNumOutputRows) < 0)))"
  by (simp add: choose_hashed_setop_def could_not_implement_def Let_def
      hash_table_exceeds_work_mem_def hashed_dummy_cost_def sorted_dummy_cost_def
      limit_fraction_def)

text \<open>
  Witness for C1, with the example collaborators (\<^verbatim>\<open>work_mem\<close> 4096 kB, 32 bytes per entry):
  one run for each branch, the hashable-only one with a group estimate far over the
  budget, and the last one a cost tie.
\<close>

theorem choose_hashed_setop_decision_witness:
  "grouping_is_hashable example_env [example_clause False True] \<and>
   \<not> grouping_is_sortable example_env [example_clause False True] \<and>
   choose_hashed_setop example_env example_root [example_clause False True]
     (AppendPath [] []) 1000000000 1 ''EXCEPT'' = Inr True \<and>
   choose_hashed_setop example_env example_root [example_clause True False]
     (AppendPath [] []) 5 5 ''EXCEPT'' = Inr False \<and>
   choose_hashed_setop example_env example_root [example_clause True False, example_clause False True]
     (AppendPath [] []) 5 5 ''INTERSECT'' =
     Inl (FeatureNotSupported ''could not implement INTERSECT''
            ''Some of the datatypes only support hashing, while others only support sorting.'') \<and>
   choose_hashed_setop (example_env \<lparr> enable_hashagg := False \<rparr>) example_root
     [example_clause True True] (AppendPath [] []) 5 5 ''UNION'' = Inr False \<and>
   hash_table_exceeds_work_mem example_env (AppendPath [] []) 1000000000 \<and>
   choose_hashed_setop example_env example_root [example_clause True True]
     (AppendPath [] []) 1000000000 5 ''UNION'' = Inr False \<and>
   compare_fractional_path_costs example_env
     (hashed_dummy_cost example_env [example_clause True True]
        (AppendPath [SubPlanPath 1 0, SubPlanPath 2 0] []) 5)
     (sorted_dummy_cost example_env [example_clause True True]
        (AppendPath [SubPlanPath 1 0, SubPlanPath 2 0] []) 5)
     (limit_fraction example_env example_root 5) < 0 \<and>
   choose_hashed_setop example_env example_root [example_clause True True]
     (AppendPath [SubPlanPath 1 0, SubPlanPath 2 0] []) 5 5 ''UNION'' = Inr True \<and>
   compare_fractional_path_costs example_env
     (hashed_dummy_cost example_env [example_clause True True] (AppendPath [] []) 0)
     (sorted_dummy_cost example_env [example_clause True True] (AppendPath [] []) 0)
     (limit_fraction example_env example_root 5) = 0 \<and>
   choose_hashed_setop example_env example_root [example_clause True True]
     (AppendPath [] []) 0 5 ''UNION'' = Inr False"
proof -
  note ex = example_env_def example_clause_def example_root_def OidIsValid_def InvalidOid_def
  have hs: "grouping_is_hashable example_env [example_clause False True]"
      "\<not> grouping_is_sortable example_env [example_clause False True]"
    by (simp_all add: ex)
  have sh: "grouping_is_sortable example_env [example_clause True False]"
      "\<not> grouping_is_hashable example_env [example_clause True False]"
    by (simp_all add: ex)
  have nn: "\<not> grouping_is_sortable example_env [example_clause True False, example_clause False True]"
      "\<not> grouping_is_hashable example_env [example_clause True False, example_clause False True]"
    by (simp_all add: ex)
  have bb: "grouping_is_sortable example_env [example_clause True True]"
      "grouping_is_hashable example_env [example_clause True True]"
      "grouping_is_sortable (example_env \<lparr> enable_hashagg := False \<rparr>) [example_clause True True]"
      "grouping_is_hashable (example_env \<lparr> enable_hashagg := False \<rparr>) [example_clause True True]"
    by (simp_all add: ex)
  have big: "hash_table_exceeds_work_mem example_env (AppendPath [] []) 1000000000"
    by (simp add: hash_table_exceeds_work_mem_def ex signed_take_bit_int_eq_self)
  have small: "\<not> hash_table_exceeds_work_mem example_env
                   (AppendPath [SubPlanPath 1 0, SubPlanPath 2 0] []) 5"
      "\<not> hash_table_exceeds_work_mem example_env (AppendPath [] []) 0"
    by (simp_all add: hash_table_exceeds_work_mem_def ex signed_take_bit_int_eq_self)
  have cheaper: "compare_fractional_path_costs example_env
     (hashed_dummy_cost example_env [example_clause True True]
        (AppendPath [SubPlanPath 1 0, SubPlanPath 2 0] []) 5)
     (sorted_dummy_cost example_env [example_clause True True]
        (AppendPath [SubPlanPath 1 0, SubPlanPath 2 0] []) 5)
     (limit_fraction example_env example_root 5) < 0"
    by (simp add: hashed_dummy_cost_def sorted_dummy_cost_def limit_fraction_def ex
        example_compare_def)
  have tie: "compare_fractional_path_costs example_env
     (hashed_dummy_cost example_env [example_clause True True] (AppendPath [] []) 0)
     (sorted_dummy_cost example_env [example_clause True True] (AppendPath [] []) 0)
     (limit_fraction example_env example_root 5) = 0"
    by (simp add: hashed_dummy_cost_def sorted_dummy_cost_def limit_fraction_def ex
        example_compare_def)
  have en: "enable_hashagg example_env" "\<not> enable_hashagg (example_env \<lparr> enable_hashagg := False \<rparr>)"
    by (simp_all add: ex)
  note d = choose_hashed_setop_decision
  from d [of example_env "[example_clause False True]" example_root "AppendPath [] []"
            1000000000 1 "''EXCEPT''"] hs
  have c1: "choose_hashed_setop example_env example_root [example_clause False True]
     (AppendPath [] []) 1000000000 1 ''EXCEPT'' = Inr True" by blast
  from d [of example_env "[example_clause True False]" example_root "AppendPath [] []"
            5 5 "''EXCEPT''"] sh
  have c2: "choose_hashed_setop example_env example_root [example_clause True False]
     (AppendPath [] []) 5 5 ''EXCEPT'' = Inr False" by blast
  from d [of example_env "[example_clause True False, example_clause False True]" example_root
            "AppendPath [] []" 5 5 "''INTERSECT''"] nn
  have c3: "choose_hashed_setop example_env example_root
     [example_clause True False, example_clause False True]
     (AppendPath [] []) 5 5 ''INTERSECT'' =
     Inl (FeatureNotSupported ''could not implement INTERSECT''
            ''Some of the datatypes only support hashing, while others only support sorting.'')"
    by simp
  from d [of "example_env \<lparr> enable_hashagg := False \<rparr>" "[example_clause True True]" example_root
            "AppendPath [] []" 5 5 "''UNION''"] bb en
  have c4: "choose_hashed_setop (example_env \<lparr> enable_hashagg := False \<rparr>) example_root
     [example_clause True True] (AppendPath [] []) 5 5 ''UNION'' = Inr False" by simp
  from d [of example_env "[example_clause True True]" example_root
            "AppendPath [] []" 1000000000 5 "''UNION''"] bb en big
  have c5: "choose_hashed_setop example_env example_root [example_clause True True]
     (AppendPath [] []) 1000000000 5 ''UNION'' = Inr False" by simp
  from d [of example_env "[example_clause True True]" example_root
            "AppendPath [SubPlanPath 1 0, SubPlanPath 2 0] []" 5 5 "''UNION''"] bb en small cheaper
  have c6: "choose_hashed_setop example_env example_root [example_clause True True]
     (AppendPath [SubPlanPath 1 0, SubPlanPath 2 0] []) 5 5 ''UNION'' = Inr True" by simp
  from d [of example_env "[example_clause True True]" example_root
            "AppendPath [] []" 0 5 "''UNION''"] bb en small tie
  have c7: "choose_hashed_setop example_env example_root [example_clause True True]
     (AppendPath [] []) 0 5 ''UNION'' = Inr False" by simp
  from hs c1 c2 c3 c4 big c5 cheaper c6 tie c7 show ?thesis by blast
qed

subsection \<open>generate_nonunion_path\<close>

text \<open>
  C2. When both children of an INTERSECT or EXCEPT node have been planned and
  \<^verbatim>\<open>generate_nonunion_path\<close> returns, the Append at the bottom of the returned path has the two
  children's paths as its inputs: for EXCEPT the left child first, whatever the group
  estimates; for INTERSECT the left child first exactly when \<^verbatim>\<open>dLeftGroups <= dRightGroups\<close>,
  else the right child first (first flag 0, else 1). When there is something to group on,
  the hash-versus-sort chooser is given \<^verbatim>\<open>dLeftGroups\<close> for EXCEPT and the smaller of
  \<^verbatim>\<open>dLeftGroups\<close> and \<^verbatim>\<open>dRightGroups\<close> for INTERSECT (\<^verbatim>\<open>dLeftGroups\<close> when it is less than
  \<^verbatim>\<open>dRightGroups\<close>, else \<^verbatim>\<open>dRightGroups\<close>) as the group count, and the SetOp step
  stands on the Append directly when the chooser said hash, and on a sort stage over the
  Append exactly when it said no.
\<close>

theorem generate_nonunion_path_order:
  assumes left: "recurse_set_operations env (proot \<lparr> tuple_fraction := d_of_int env 0 \<rparr>) larg
                   colTypes colCollations False 0 refnames True = Inr (root1, lpath, ltlist, lg)"
    and right: "recurse_set_operations env root1 rarg colTypes colCollations False 1 refnames True
                  = Inr (root2, rpath, rtlist, rg)"
    and ok: "generate_nonunion_path env proot
               (SetOperationStmt sop is_all larg rarg colTypes colCollations groupClauses)
               refnames want = Inr (root3, path, tlist, ngroups)"
  shows "append_inputs path =
           Some (if sop = SETOP_EXCEPT then [lpath, rpath]
                 else if d_le env (local_double env lg) (local_double env rg)
                      then [lpath, rpath] else [rpath, lpath]) \<and>
         (\<forall>groupList. generate_setop_grouplist groupClauses tlist = Inr groupList \<and>
              groupList \<noteq> [] \<longrightarrow>
            (\<exists>pathlist firstFlag dNumGroups dNumOutputRows use_hash.
               pathlist = (if sop = SETOP_EXCEPT \<or> d_le env (local_double env lg) (local_double env rg)
                           then [lpath, rpath] else [rpath, lpath]) \<and>
               firstFlag = (if sop = SETOP_EXCEPT \<or> d_le env (local_double env lg) (local_double env rg)
                            then 0 else 1) \<and>
               dNumGroups = (if sop = SETOP_EXCEPT then local_double env lg
                             else if d_lt env (local_double env lg) (local_double env rg)
                                  then local_double env lg else local_double env rg) \<and>
               dNumOutputRows = nonunion_output_rows env sop is_all lpath rpath dNumGroups \<and>
               choose_hashed_setop env root3 groupList (AppendPath pathlist tlist)
                 dNumGroups dNumOutputRows
                 (if sop = SETOP_INTERSECT then ''INTERSECT'' else ''EXCEPT'') = Inr use_hash \<and>
               path = SetOpPath
                        (if use_hash then AppendPath pathlist tlist
                         else SortPath (AppendPath pathlist tlist)
                                (make_pathkeys_for_sortclauses env groupList tlist) None)
                        (SetOpCmd_of sop is_all)
                        (if use_hash then SETOP_HASHED else SETOP_SORTED)
                        groupList (int (length colTypes) + 1)
                        (if use_hash then firstFlag else -1)
                        dNumGroups dNumOutputRows))"
proof -
  let ?pl = "if sop = SETOP_EXCEPT \<or> d_le env (local_double env lg) (local_double env rg)
             then [lpath, rpath] else [rpath, lpath]"
  let ?r3 = "root2 \<lparr> tuple_fraction := tuple_fraction proot \<rparr>"
  have nu: "nonunion_of_children env ?r3 sop is_all colTypes colCollations groupClauses refnames
              want lpath ltlist lg rpath rtlist rg = Inr (root3, path, tlist, ngroups)"
    using ok left right by simp
  have r3: "root3 = ?r3"
    using nu by (auto simp: nonunion_of_children_def Let_def split: sum.splits if_splits)
  obtain gl where gl: "generate_setop_grouplist groupClauses tlist = Inr gl"
    using nu by (auto simp: nonunion_of_children_def Let_def split: sum.splits if_splits)
  have ai: "append_inputs path = Some ?pl"
    using nu
    by (auto simp: nonunion_of_children_def Let_def local_double_def
             split: sum.splits if_splits)
  let ?ng = "if sop = SETOP_EXCEPT then local_double env lg
             else if d_lt env (local_double env lg) (local_double env rg)
                  then local_double env lg else local_double env rg"
  have main: "gl \<noteq> [] \<longrightarrow>
            (\<exists>use_hash.
               choose_hashed_setop env root3 gl (AppendPath ?pl tlist) ?ng
                 (nonunion_output_rows env sop is_all lpath rpath ?ng)
                 (if sop = SETOP_INTERSECT then ''INTERSECT'' else ''EXCEPT'') = Inr use_hash \<and>
               path = SetOpPath
                        (if use_hash then AppendPath ?pl tlist
                         else SortPath (AppendPath ?pl tlist)
                                (make_pathkeys_for_sortclauses env gl tlist) None)
                        (SetOpCmd_of sop is_all)
                        (if use_hash then SETOP_HASHED else SETOP_SORTED)
                        gl (int (length colTypes) + 1)
                        (if use_hash then (if sop = SETOP_EXCEPT \<or> d_le env (local_double env lg) (local_double env rg)
                            then 0 else 1) else -1)
                        ?ng (nonunion_output_rows env sop is_all lpath rpath ?ng))"
    using nu gl unfolding r3 [symmetric]
    apply (cases sop)
    apply (auto simp: nonunion_of_children_def Let_def local_double_def SetOpCmd_of_def
             nonunion_output_rows_def Min_double_def split: sum.splits if_splits)
    done
  from ai main gl show ?thesis by auto
qed

text \<open>
  Evaluation of the example: leaf 1 has 100 estimated groups and leaf 2 has 50.
\<close>

lemma example_casts:
  "AttrNumber_of_int 1 = 1" "AttrNumber_of_int 2 = 2" "AttrNumber_of_int 3 = 3"
  "Index_of_int 1 = 1" "Index_of_int 2 = 2" "Index_of_int 3 = 3" "Index_of_int 0 = 0"
  by (simp_all add: AttrNumber_of_int_def Index_of_int_def signed_take_bit_int_eq_self)

lemma example_plan_leaf:
  "0 \<le> flag \<Longrightarrow> rtindex = 1 \<or> rtindex = 2 \<Longrightarrow>
   recurse_set_operations example_env (example_root \<lparr> tuple_fraction := 0 \<rparr>)
     (RangeTblRef rtindex) example_colTypes example_colCollations False flag example_refnames True =
   Inr (example_root, example_leaf_path rtindex, example_leaf_tlist (nat rtindex) flag,
        Some (100 / of_int rtindex))"
  by (auto simp: plan_leaf_subquery_def example_env_def example_root_def example_colTypes_def
      example_colCollations_def example_refnames_def example_nf_def example_tle_def
      generate_setop_tlist_def setop_column_expr_def makeTargetEntry_def makeVar_def
      is_Const_def example_casts Let_def example_leaf_path_def example_leaf_tlist_def
      example_columns_def)
lemma example_append_tlist_flag:
  "generate_append_tlist example_nf (\<lambda>i. 0) example_colTypes example_colCollations True
     [example_leaf_tlist v1 f1, example_leaf_tlist v2 f2] example_refnames =
   Inr example_append_tlist"
proof -
  have up: "[0 ..< length example_colTypes] = [0, 1]"
    by (simp add: example_colTypes_def upt_rec)
  show ?thesis
    unfolding generate_append_tlist_def up
    by (simp add: example_colTypes_def example_colCollations_def example_refnames_def
        example_nf_def example_tle_def example_leaf_tlist_def example_columns_def
        example_append_tlist_def makeTargetEntry_def makeVar_def example_casts Let_def)
qed

lemma example_grouplist:
  "generate_setop_grouplist example_groupClauses example_append_tlist = Inr example_groupList"
  by (simp add: generate_setop_grouplist_def example_groupClauses_def example_append_tlist_def
      example_columns_def example_groupList_def)

lemma example_choose:
  "choose_hashed_setop example_env example_root example_groupList
     (AppendPath [example_leaf_path i, example_leaf_path j] example_append_tlist) 100 100 name = Inr True"
  "choose_hashed_setop example_env example_root example_groupList
     (AppendPath [example_leaf_path i, example_leaf_path j] example_append_tlist) 50 50 name = Inr True"
  by (simp_all add: choose_hashed_setop_def example_env_def example_root_def example_groupList_def
      example_clause_def OidIsValid_def InvalidOid_def example_leaf_path_def example_compare_def
      signed_take_bit_int_eq_self Let_def)

lemma example_nonunion_except:
  "generate_nonunion_path example_env example_root
     (SetOperationStmt SETOP_EXCEPT False (RangeTblRef 1) (RangeTblRef 2) example_colTypes
        example_colCollations example_groupClauses) example_refnames True =
   Inr (example_root,
        SetOpPath (AppendPath [example_leaf_path 1, example_leaf_path 2] example_append_tlist)
          SETOPCMD_EXCEPT SETOP_HASHED example_groupList 3 0 100 100,
        example_append_tlist, Some 100)"
proof -
  have z: "example_root \<lparr> tuple_fraction := d_of_int example_env 0 \<rparr> =
             example_root \<lparr> tuple_fraction := 0 \<rparr>"
    by (simp add: example_env_def)
  have r: "example_root \<lparr> tuple_fraction := tuple_fraction example_root \<rparr> = example_root"
    by simp
  have e: "nodefuncs example_env = example_nf" "palloc_junk example_env = (\<lambda>i. 0)"
    "uninit_double example_env = 0" "d_le example_env = (\<le>)" "d_lt example_env = (<)"
    "path_rows example_env = example_rows"
    "make_pathkeys_for_sortclauses example_env = (\<lambda>gl tlist. map tleSortGroupRef gl)"
    by (simp_all add: example_env_def)
  have len: "length example_colTypes = 2" "example_groupList \<noteq> []"
    by (simp_all add: example_colTypes_def example_groupList_def)
  have l1: "recurse_set_operations example_env (example_root \<lparr> tuple_fraction := 0 \<rparr>)
     (RangeTblRef 1) example_colTypes example_colCollations False 0 example_refnames True =
     Inr (example_root, example_leaf_path 1, example_leaf_tlist 1 0, Some 100)"
    using example_plan_leaf [of 0 1] by simp
  have l2: "recurse_set_operations example_env example_root
     (RangeTblRef 2) example_colTypes example_colCollations False 1 example_refnames True =
     Inr (example_root, example_leaf_path 2, example_leaf_tlist 2 1, Some 50)"
    using example_plan_leaf [of 1 2] by (simp add: example_root_def)
  show ?thesis
    unfolding generate_nonunion_path.simps z l1
    by (simp add: l2 r nonunion_of_children_def e example_append_tlist_flag
        example_grouplist example_choose Let_def Min_double_def len
        del: recurse_set_operations.simps)
qed

lemma example_nonunion_intersect:
  "generate_nonunion_path example_env example_root
     (SetOperationStmt SETOP_INTERSECT False (RangeTblRef 1) (RangeTblRef 2) example_colTypes
        example_colCollations example_groupClauses) example_refnames True =
   Inr (example_root,
        SetOpPath (AppendPath [example_leaf_path 2, example_leaf_path 1] example_append_tlist)
          SETOPCMD_INTERSECT SETOP_HASHED example_groupList 3 1 50 50,
        example_append_tlist, Some 50)"
proof -
  have z: "example_root \<lparr> tuple_fraction := d_of_int example_env 0 \<rparr> =
             example_root \<lparr> tuple_fraction := 0 \<rparr>"
    by (simp add: example_env_def)
  have r: "example_root \<lparr> tuple_fraction := tuple_fraction example_root \<rparr> = example_root"
    by simp
  have e: "nodefuncs example_env = example_nf" "palloc_junk example_env = (\<lambda>i. 0)"
    "uninit_double example_env = 0" "d_le example_env = (\<le>)" "d_lt example_env = (<)"
    "path_rows example_env = example_rows"
    "make_pathkeys_for_sortclauses example_env = (\<lambda>gl tlist. map tleSortGroupRef gl)"
    by (simp_all add: example_env_def)
  have len: "length example_colTypes = 2" "example_groupList \<noteq> []"
    by (simp_all add: example_colTypes_def example_groupList_def)
  have l1: "recurse_set_operations example_env (example_root \<lparr> tuple_fraction := 0 \<rparr>)
     (RangeTblRef 1) example_colTypes example_colCollations False 0 example_refnames True =
     Inr (example_root, example_leaf_path 1, example_leaf_tlist 1 0, Some 100)"
    using example_plan_leaf [of 0 1] by simp
  have l2: "recurse_set_operations example_env example_root
     (RangeTblRef 2) example_colTypes example_colCollations False 1 example_refnames True =
     Inr (example_root, example_leaf_path 2, example_leaf_tlist 2 1, Some 50)"
    using example_plan_leaf [of 1 2] by (simp add: example_root_def)
  show ?thesis
    unfolding generate_nonunion_path.simps z l1
    by (simp add: l2 r nonunion_of_children_def e example_append_tlist_flag
        example_grouplist example_choose Let_def Min_double_def len
        del: recurse_set_operations.simps)
qed

lemma example_nonunion_intersect_left_smaller:
  "generate_nonunion_path example_env example_root
     (SetOperationStmt SETOP_INTERSECT False (RangeTblRef 2) (RangeTblRef 1) example_colTypes
        example_colCollations example_groupClauses) example_refnames True =
   Inr (example_root,
        SetOpPath (AppendPath [example_leaf_path 2, example_leaf_path 1] example_append_tlist)
          SETOPCMD_INTERSECT SETOP_HASHED example_groupList 3 0 50 50,
        example_append_tlist, Some 50)"
proof -
  have z: "example_root \<lparr> tuple_fraction := d_of_int example_env 0 \<rparr> =
             example_root \<lparr> tuple_fraction := 0 \<rparr>"
    by (simp add: example_env_def)
  have r: "example_root \<lparr> tuple_fraction := tuple_fraction example_root \<rparr> = example_root"
    by simp
  have e: "nodefuncs example_env = example_nf" "palloc_junk example_env = (\<lambda>i. 0)"
    "uninit_double example_env = 0" "d_le example_env = (\<le>)" "d_lt example_env = (<)"
    "path_rows example_env = example_rows"
    "make_pathkeys_for_sortclauses example_env = (\<lambda>gl tlist. map tleSortGroupRef gl)"
    by (simp_all add: example_env_def)
  have len: "length example_colTypes = 2" "example_groupList \<noteq> []"
    by (simp_all add: example_colTypes_def example_groupList_def)
  have l1: "recurse_set_operations example_env (example_root \<lparr> tuple_fraction := 0 \<rparr>)
     (RangeTblRef 2) example_colTypes example_colCollations False 0 example_refnames True =
     Inr (example_root, example_leaf_path 2, example_leaf_tlist 2 0, Some 50)"
    using example_plan_leaf [of 0 2] by simp
  have l2: "recurse_set_operations example_env example_root
     (RangeTblRef 1) example_colTypes example_colCollations False 1 example_refnames True =
     Inr (example_root, example_leaf_path 1, example_leaf_tlist 1 1, Some 100)"
    using example_plan_leaf [of 1 1] by (simp add: example_root_def)
  show ?thesis
    unfolding generate_nonunion_path.simps z l1
    by (simp add: l2 r nonunion_of_children_def e example_append_tlist_flag
        example_grouplist example_choose Let_def Min_double_def len
        del: recurse_set_operations.simps)
qed

text \<open>
  Witness for C2, leaf 1 having 100 estimated groups and leaf 2 having 50. INTERSECT of 1 and
  2 puts leaf 2 first (first flag 1) and EXCEPT keeps leaf 1 first; INTERSECT of 2 and 1,
  where the left child has the fewer groups, keeps leaf 2 first (first flag 0). Both
  INTERSECTs hand 50, the smaller estimate, to the chooser, and EXCEPT hands it the left
  child's 100.
\<close>

theorem generate_nonunion_path_order_witness:
  "recurse_set_operations example_env
     (example_root \<lparr> tuple_fraction := d_of_int example_env 0 \<rparr>) (RangeTblRef 1)
     example_colTypes example_colCollations False 0 example_refnames True =
     Inr (example_root, example_leaf_path 1, example_leaf_tlist 1 0, Some 100) \<and>
   recurse_set_operations example_env example_root (RangeTblRef 2)
     example_colTypes example_colCollations False 1 example_refnames True =
     Inr (example_root, example_leaf_path 2, example_leaf_tlist 2 1, Some 50) \<and>
   generate_nonunion_path example_env example_root
     (SetOperationStmt SETOP_INTERSECT False (RangeTblRef 1) (RangeTblRef 2) example_colTypes
        example_colCollations example_groupClauses) example_refnames True =
     Inr (example_root,
          SetOpPath (AppendPath [example_leaf_path 2, example_leaf_path 1] example_append_tlist)
            SETOPCMD_INTERSECT SETOP_HASHED example_groupList 3 1 50 50,
          example_append_tlist, Some 50) \<and>
   append_inputs
     (SetOpPath (AppendPath [example_leaf_path 2, example_leaf_path 1] example_append_tlist)
        SETOPCMD_INTERSECT SETOP_HASHED example_groupList 3 1 50 50) =
     Some [example_leaf_path 2, example_leaf_path 1] \<and>
   generate_nonunion_path example_env example_root
     (SetOperationStmt SETOP_EXCEPT False (RangeTblRef 1) (RangeTblRef 2) example_colTypes
        example_colCollations example_groupClauses) example_refnames True =
     Inr (example_root,
          SetOpPath (AppendPath [example_leaf_path 1, example_leaf_path 2] example_append_tlist)
            SETOPCMD_EXCEPT SETOP_HASHED example_groupList 3 0 100 100,
          example_append_tlist, Some 100) \<and>
   append_inputs
     (SetOpPath (AppendPath [example_leaf_path 1, example_leaf_path 2] example_append_tlist)
        SETOPCMD_EXCEPT SETOP_HASHED example_groupList 3 0 100 100) =
     Some [example_leaf_path 1, example_leaf_path 2] \<and>
   recurse_set_operations example_env
     (example_root \<lparr> tuple_fraction := d_of_int example_env 0 \<rparr>) (RangeTblRef 2)
     example_colTypes example_colCollations False 0 example_refnames True =
     Inr (example_root, example_leaf_path 2, example_leaf_tlist 2 0, Some 50) \<and>
   recurse_set_operations example_env example_root (RangeTblRef 1)
     example_colTypes example_colCollations False 1 example_refnames True =
     Inr (example_root, example_leaf_path 1, example_leaf_tlist 1 1, Some 100) \<and>
   d_lt example_env (local_double example_env (Some 50)) (local_double example_env (Some 100)) \<and>
   generate_setop_grouplist example_groupClauses example_append_tlist = Inr example_groupList \<and>
   generate_nonunion_path example_env example_root
     (SetOperationStmt SETOP_INTERSECT False (RangeTblRef 2) (RangeTblRef 1) example_colTypes
        example_colCollations example_groupClauses) example_refnames True =
     Inr (example_root,
          SetOpPath (AppendPath [example_leaf_path 2, example_leaf_path 1] example_append_tlist)
            SETOPCMD_INTERSECT SETOP_HASHED example_groupList 3 0 50 50,
          example_append_tlist, Some 50) \<and>
   append_inputs
     (SetOpPath (AppendPath [example_leaf_path 2, example_leaf_path 1] example_append_tlist)
        SETOPCMD_INTERSECT SETOP_HASHED example_groupList 3 0 50 50) =
     Some [example_leaf_path 2, example_leaf_path 1] \<and>
   (\<exists>use_hash.
      choose_hashed_setop example_env example_root example_groupList
        (AppendPath [example_leaf_path 2, example_leaf_path 1] example_append_tlist)
        (local_double example_env (Some 50))
        (nonunion_output_rows example_env SETOP_INTERSECT False (example_leaf_path 2)
           (example_leaf_path 1) (local_double example_env (Some 50)))
        ''INTERSECT'' = Inr use_hash \<and>
      SetOpPath (AppendPath [example_leaf_path 2, example_leaf_path 1] example_append_tlist)
        SETOPCMD_INTERSECT SETOP_HASHED example_groupList 3 0 50 50 =
      SetOpPath
        (if use_hash
         then AppendPath [example_leaf_path 2, example_leaf_path 1] example_append_tlist
         else SortPath
                (AppendPath [example_leaf_path 2, example_leaf_path 1] example_append_tlist)
                (make_pathkeys_for_sortclauses example_env example_groupList
                   example_append_tlist) None)
        (SetOpCmd_of SETOP_INTERSECT False)
        (if use_hash then SETOP_HASHED else SETOP_SORTED)
        example_groupList (int (length example_colTypes) + 1)
        (if use_hash then 0 else -1)
        (local_double example_env (Some 50))
        (nonunion_output_rows example_env SETOP_INTERSECT False (example_leaf_path 2)
           (example_leaf_path 1) (local_double example_env (Some 50))))"
proof -
  have z: "example_root \<lparr> tuple_fraction := d_of_int example_env 0 \<rparr> =
             example_root \<lparr> tuple_fraction := 0 \<rparr>"
    by (simp add: example_env_def)
  have l: "recurse_set_operations example_env
     (example_root \<lparr> tuple_fraction := d_of_int example_env 0 \<rparr>) (RangeTblRef 1)
     example_colTypes example_colCollations False 0 example_refnames True =
     Inr (example_root, example_leaf_path 1, example_leaf_tlist 1 0, Some 100)"
    unfolding z using example_plan_leaf [of 0 1] by simp
  have r: "recurse_set_operations example_env example_root (RangeTblRef 2)
     example_colTypes example_colCollations False 1 example_refnames True =
     Inr (example_root, example_leaf_path 2, example_leaf_tlist 2 1, Some 50)"
    using example_plan_leaf [of 1 2] by (simp add: example_root_def)
  have l': "recurse_set_operations example_env
     (example_root \<lparr> tuple_fraction := d_of_int example_env 0 \<rparr>) (RangeTblRef 2)
     example_colTypes example_colCollations False 0 example_refnames True =
     Inr (example_root, example_leaf_path 2, example_leaf_tlist 2 0, Some 50)"
    unfolding z using example_plan_leaf [of 0 2] by simp
  have r': "recurse_set_operations example_env example_root (RangeTblRef 1)
     example_colTypes example_colCollations False 1 example_refnames True =
     Inr (example_root, example_leaf_path 1, example_leaf_tlist 1 1, Some 100)"
    using example_plan_leaf [of 1 1] by (simp add: example_root_def)
  have le: "\<not> d_le example_env (local_double example_env (Some 100))
                (local_double example_env (Some 50))"
    by (simp add: example_env_def local_double_def)
  have le': "d_le example_env (local_double example_env (Some 50))
                (local_double example_env (Some 100))"
    by (simp add: example_env_def local_double_def)
  have lt': "d_lt example_env (local_double example_env (Some 50))
                (local_double example_env (Some 100))"
    by (simp add: example_env_def local_double_def)
  have ne: "example_groupList \<noteq> []"
    by (simp add: example_groupList_def)
  from generate_nonunion_path_order [OF l r example_nonunion_intersect] le
  have i: "append_inputs
     (SetOpPath (AppendPath [example_leaf_path 2, example_leaf_path 1] example_append_tlist)
        SETOPCMD_INTERSECT SETOP_HASHED example_groupList 3 1 50 50) =
     Some [example_leaf_path 2, example_leaf_path 1]"
    by simp
  from generate_nonunion_path_order [OF l r example_nonunion_except]
  have e: "append_inputs
     (SetOpPath (AppendPath [example_leaf_path 1, example_leaf_path 2] example_append_tlist)
        SETOPCMD_EXCEPT SETOP_HASHED example_groupList 3 0 100 100) =
     Some [example_leaf_path 1, example_leaf_path 2]"
    by simp
  note t = generate_nonunion_path_order [OF l' r' example_nonunion_intersect_left_smaller]
  from t le'
  have i': "append_inputs
     (SetOpPath (AppendPath [example_leaf_path 2, example_leaf_path 1] example_append_tlist)
        SETOPCMD_INTERSECT SETOP_HASHED example_groupList 3 0 50 50) =
     Some [example_leaf_path 2, example_leaf_path 1]"
    by simp
  from t [THEN conjunct2, rule_format, of example_groupList] example_grouplist ne le' lt'
  have c: "\<exists>use_hash.
      choose_hashed_setop example_env example_root example_groupList
        (AppendPath [example_leaf_path 2, example_leaf_path 1] example_append_tlist)
        (local_double example_env (Some 50))
        (nonunion_output_rows example_env SETOP_INTERSECT False (example_leaf_path 2)
           (example_leaf_path 1) (local_double example_env (Some 50)))
        ''INTERSECT'' = Inr use_hash \<and>
      SetOpPath (AppendPath [example_leaf_path 2, example_leaf_path 1] example_append_tlist)
        SETOPCMD_INTERSECT SETOP_HASHED example_groupList 3 0 50 50 =
      SetOpPath
        (if use_hash
         then AppendPath [example_leaf_path 2, example_leaf_path 1] example_append_tlist
         else SortPath
                (AppendPath [example_leaf_path 2, example_leaf_path 1] example_append_tlist)
                (make_pathkeys_for_sortclauses example_env example_groupList
                   example_append_tlist) None)
        (SetOpCmd_of SETOP_INTERSECT False)
        (if use_hash then SETOP_HASHED else SETOP_SORTED)
        example_groupList (int (length example_colTypes) + 1)
        (if use_hash then 0 else -1)
        (local_double example_env (Some 50))
        (nonunion_output_rows example_env SETOP_INTERSECT False (example_leaf_path 2)
           (example_leaf_path 1) (local_double example_env (Some 50)))"
    by simp
  from l r example_nonunion_intersect i example_nonunion_except e l' r' lt' example_grouplist
    example_nonunion_intersect_left_smaller i' c
  show ?thesis by blast
qed

subsection \<open>UNION children\<close>

lemma plan_leaf_root:
  assumes "plan_leaf_subquery env proot rtindex ct cc flag refnames want = Inr (root1, path, tlist, ng)"
  shows "tuple_fraction root1 = tuple_fraction proot \<and>
         non_recursive_path root1 = non_recursive_path proot"
  using assms
  by (auto simp: plan_leaf_subquery_def Let_def split: if_splits sum.splits)

lemma leaf_scan_same_root:
  assumes "tuple_fraction r = tuple_fraction r'" and "non_recursive_path r = non_recursive_path r'"
  shows "leaf_scan env r ct cc refnames rtindex = leaf_scan env r' ct cc refnames rtindex"
  using assms
  by (auto simp: leaf_scan_def plan_leaf_subquery_def Let_def split: if_splits sum.splits)

lemma recurse_union_children_pure_total:
  assumes "pure_union_all ct n"
    and "list_all (\<lambda>i. leaf_scan env r ct cc refnames i \<noteq> None) (setop_leaves n)"
  shows "\<exists>r'. recurse_union_children env r n SETOP_UNION True ct cc refnames =
               Inr (r', map (\<lambda>i. fst (the (leaf_scan env r ct cc refnames i))) (setop_leaves n),
                        map (\<lambda>i. snd (the (leaf_scan env r ct cc refnames i))) (setop_leaves n)) \<and>
              tuple_fraction r' = tuple_fraction r \<and>
              non_recursive_path r' = non_recursive_path r"
  using assms
proof (induction n arbitrary: r rule: setop_leaves.induct)
  case (1 rtindex)
  from "1.prems"(2) obtain r1 p t g where
    p: "plan_leaf_subquery env r rtindex ct cc (-1) refnames False = Inr (r1, p, t, g)"
    by (auto simp: leaf_scan_def split: sum.splits)
  then have "leaf_scan env r ct cc refnames rtindex = Some (p, t)"
    by (simp add: leaf_scan_def)
  with p plan_leaf_root [OF p] show ?case by simp
next
  case (2 sop is_all larg rarg ct' cc' gc)
  from "2.prems"(1) have pure: "sop = SETOP_UNION" "is_all" "ct' = ct"
    "pure_union_all ct larg" "pure_union_all ct rarg" by simp_all
  from "2.prems"(2) have ok: 
    "list_all (\<lambda>i. leaf_scan env r ct cc refnames i \<noteq> None) (setop_leaves larg)"
    "list_all (\<lambda>i. leaf_scan env r ct cc refnames i \<noteq> None) (setop_leaves rarg)"
    by simp_all
  from "2.IH"(1) [OF pure(4) ok(1)] obtain r1 where
    l: "recurse_union_children env r larg SETOP_UNION True ct cc refnames =
          Inr (r1, map (\<lambda>i. fst (the (leaf_scan env r ct cc refnames i))) (setop_leaves larg),
                   map (\<lambda>i. snd (the (leaf_scan env r ct cc refnames i))) (setop_leaves larg))"
    and r1: "tuple_fraction r1 = tuple_fraction r" "non_recursive_path r1 = non_recursive_path r"
    by blast
  have same: "\<And>i. leaf_scan env r1 ct cc refnames i = leaf_scan env r ct cc refnames i"
    using r1 by (intro leaf_scan_same_root) simp_all
  have ok1: "list_all (\<lambda>i. leaf_scan env r1 ct cc refnames i \<noteq> None) (setop_leaves rarg)"
    using ok(2) by (simp add: same)
  from "2.IH"(2) [OF pure(5) ok1] obtain r2 where
    rr: "recurse_union_children env r1 rarg SETOP_UNION True ct cc refnames =
          Inr (r2, map (\<lambda>i. fst (the (leaf_scan env r ct cc refnames i))) (setop_leaves rarg),
                   map (\<lambda>i. snd (the (leaf_scan env r ct cc refnames i))) (setop_leaves rarg))"
    and r2: "tuple_fraction r2 = tuple_fraction r1" "non_recursive_path r2 = non_recursive_path r1"
    by (auto simp: same)
  show ?case
    using l rr r1 r2 pure by simp
next
  case (3 tag)
  then show ?case by simp
qed

text \<open>
  C3. \<^verbatim>\<open>recurse_union_children\<close> folds a child \<^verbatim>\<open>SetOperationStmt\<close> into the parent's list, by
  concatenating what it collects from the child's two arguments, when the child's operator
  is the parent's, its ALL flag is the parent's or is true, and its column type list equals
  the parent's; otherwise (and only then) the child is planned on its own and contributes
  one path. The collations take no part in the test. The folding recurses: for a tree
  built purely of UNION ALL nodes with the same column type list whose leaves all plan,
  \<^verbatim>\<open>generate_union_path\<close> returns one Append whose path list is the list of the leaves' own
  scan paths, one per leaf, in order.
\<close>

theorem union_children_folded:
  "(sop = top_op \<and> (is_all = top_all \<or> is_all) \<and> ct = top_colTypes \<longrightarrow>
      recurse_union_children env proot (SetOp (SetOperationStmt sop is_all larg rarg ct cc gc))
        top_op top_all top_colTypes top_colCollations refnames =
      (case recurse_union_children env proot larg top_op top_all top_colTypes top_colCollations
              refnames of
         Inl err \<Rightarrow> Inl err
       | Inr (root1, result1, tlists1) \<Rightarrow>
           (case recurse_union_children env root1 rarg top_op top_all top_colTypes
                   top_colCollations refnames of
              Inl err \<Rightarrow> Inl err
            | Inr (root2, result2, tlists2) \<Rightarrow>
                Inr (root2, result1 @ result2, tlists1 @ tlists2)))) \<and>
   (\<not> (sop = top_op \<and> (is_all = top_all \<or> is_all) \<and> ct = top_colTypes) \<longrightarrow>
      recurse_union_children env proot (SetOp (SetOperationStmt sop is_all larg rarg ct cc gc))
        top_op top_all top_colTypes top_colCollations refnames =
      (case recurse_set_operations env proot (SetOp (SetOperationStmt sop is_all larg rarg ct cc gc))
              top_colTypes top_colCollations False (-1) refnames False of
         Inl err \<Rightarrow> Inl err
       | Inr (root1, path, child_tlist, ngroups) \<Rightarrow> Inr (root1, [path], [child_tlist]))) \<and>
   (pure_union_all colTypes (SetOp (SetOperationStmt SETOP_UNION True left right colTypes colCollations groupClauses)) \<and>
    list_all (\<lambda>i. leaf_scan env proot colTypes colCollations refnames i \<noteq> None)
      (setop_leaves left @ setop_leaves right) \<and>
    generate_append_tlist (nodefuncs env) (palloc_junk env) colTypes colCollations False
      (map (\<lambda>i. snd (the (leaf_scan env proot colTypes colCollations refnames i)))
         (setop_leaves left @ setop_leaves right)) refnames = Inr tlist \<longrightarrow>
      (\<exists>root' pathlist.
         generate_union_path env proot
           (SetOperationStmt SETOP_UNION True left right colTypes colCollations groupClauses)
           refnames want =
           Inr (root', AppendPath pathlist tlist, tlist,
                if want then Some (path_rows env (AppendPath pathlist tlist)) else None) \<and>
         length pathlist = length (setop_leaves left @ setop_leaves right) \<and>
         pathlist = map (\<lambda>i. fst (the (leaf_scan env proot colTypes colCollations refnames i)))
                      (setop_leaves left @ setop_leaves right)))"
proof (intro conjI impI)
  assume c: "sop = top_op \<and> (is_all = top_all \<or> is_all) \<and> ct = top_colTypes"
  then show "recurse_union_children env proot (SetOp (SetOperationStmt sop is_all larg rarg ct cc gc))
        top_op top_all top_colTypes top_colCollations refnames =
      (case recurse_union_children env proot larg top_op top_all top_colTypes top_colCollations
              refnames of
         Inl err \<Rightarrow> Inl err
       | Inr (root1, result1, tlists1) \<Rightarrow>
           (case recurse_union_children env root1 rarg top_op top_all top_colTypes
                   top_colCollations refnames of
              Inl err \<Rightarrow> Inl err
            | Inr (root2, result2, tlists2) \<Rightarrow>
                Inr (root2, result1 @ result2, tlists1 @ tlists2)))"
    by (auto split: sum.splits)
next
  assume "\<not> (sop = top_op \<and> (is_all = top_all \<or> is_all) \<and> ct = top_colTypes)"
  then show "recurse_union_children env proot (SetOp (SetOperationStmt sop is_all larg rarg ct cc gc))
        top_op top_all top_colTypes top_colCollations refnames =
      (case recurse_set_operations env proot (SetOp (SetOperationStmt sop is_all larg rarg ct cc gc))
              top_colTypes top_colCollations False (-1) refnames False of
         Inl err \<Rightarrow> Inl err
       | Inr (root1, path, child_tlist, ngroups) \<Rightarrow> Inr (root1, [path], [child_tlist]))"
    by (auto simp del: recurse_set_operations.simps split: sum.splits)
next
  assume h: "pure_union_all colTypes (SetOp (SetOperationStmt SETOP_UNION True left right colTypes colCollations groupClauses)) \<and>
    list_all (\<lambda>i. leaf_scan env proot colTypes colCollations refnames i \<noteq> None)
      (setop_leaves left @ setop_leaves right) \<and>
    generate_append_tlist (nodefuncs env) (palloc_junk env) colTypes colCollations False
      (map (\<lambda>i. snd (the (leaf_scan env proot colTypes colCollations refnames i)))
         (setop_leaves left @ setop_leaves right)) refnames = Inr tlist"
  let ?scan = "leaf_scan env proot colTypes colCollations refnames"
  from h have pure: "pure_union_all colTypes left" "pure_union_all colTypes right" by simp_all
  from h have ok: "list_all (\<lambda>i. ?scan i \<noteq> None) (setop_leaves left)"
    "list_all (\<lambda>i. ?scan i \<noteq> None) (setop_leaves right)" by simp_all
  from recurse_union_children_pure_total [OF pure(1) ok(1)] obtain r1 where
    l: "recurse_union_children env proot left SETOP_UNION True colTypes colCollations refnames =
          Inr (r1, map (\<lambda>i. fst (the (?scan i))) (setop_leaves left),
                   map (\<lambda>i. snd (the (?scan i))) (setop_leaves left))"
    and r1: "tuple_fraction r1 = tuple_fraction proot"
            "non_recursive_path r1 = non_recursive_path proot"
    by blast
  have same: "\<And>i. leaf_scan env r1 colTypes colCollations refnames i = ?scan i"
    using r1 by (intro leaf_scan_same_root) simp_all
  have ok1: "list_all (\<lambda>i. leaf_scan env r1 colTypes colCollations refnames i \<noteq> None)
               (setop_leaves right)"
    using ok(2) by (simp add: same)
  from recurse_union_children_pure_total [OF pure(2) ok1] obtain r2 where
    rr: "recurse_union_children env r1 right SETOP_UNION True colTypes colCollations refnames =
          Inr (r2, map (\<lambda>i. fst (the (?scan i))) (setop_leaves right),
                   map (\<lambda>i. snd (the (?scan i))) (setop_leaves right))"
    by (auto simp: same)
  from h have tl: "generate_append_tlist (nodefuncs env) (palloc_junk env) colTypes colCollations
      False (map (\<lambda>i. snd (the (?scan i))) (setop_leaves left) @
             map (\<lambda>i. snd (the (?scan i))) (setop_leaves right)) refnames = Inr tlist"
    by simp
  show "\<exists>root' pathlist.
         generate_union_path env proot
           (SetOperationStmt SETOP_UNION True left right colTypes colCollations groupClauses)
           refnames want =
           Inr (root', AppendPath pathlist tlist, tlist,
                if want then Some (path_rows env (AppendPath pathlist tlist)) else None) \<and>
         length pathlist = length (setop_leaves left @ setop_leaves right) \<and>
         pathlist = map (\<lambda>i. fst (the (?scan i))) (setop_leaves left @ setop_leaves right)"
    using l rr tl by (simp add: union_of_children_def)
qed

text \<open>Evaluation of the example tree.\<close>

lemma example_plan_leaf_noflag:
  "0 \<le> i \<Longrightarrow> i < 2 ^ 32 \<Longrightarrow>
   recurse_set_operations example_env example_root (RangeTblRef i) example_colTypes
     example_colCollations False (-1) example_refnames False =
     Inr (example_root, example_leaf_path i, example_columns (nat i), None)"
  by (simp add: plan_leaf_subquery_def example_env_def example_root_def
      example_colTypes_def example_colCollations_def example_refnames_def example_nf_def
      example_tle_def generate_setop_tlist_def setop_column_expr_def makeTargetEntry_def
      makeVar_def is_Const_def example_casts Let_def example_leaf_path_def
      example_columns_def Index_of_int_def take_bit_int_eq_self)

lemma example_leaf_scan:
  "0 \<le> i \<Longrightarrow> i < 2 ^ 32 \<Longrightarrow>
   leaf_scan example_env example_root example_colTypes example_colCollations example_refnames i =
     Some (example_leaf_path i, example_columns (nat i))"
  unfolding leaf_scan_def by (simp add: example_plan_leaf_noflag del: recurse_set_operations.simps)

lemma example_union_tlist:
  "generate_append_tlist example_nf (\<lambda>i. 0) example_colTypes example_colCollations False
     [example_columns v1, example_columns v2, example_columns v3, example_columns v4]
     example_refnames = Inr (example_columns 0)"
proof -
  have up: "[0 ..< length example_colTypes] = [0, 1]"
    by (simp add: example_colTypes_def upt_rec)
  show ?thesis
    unfolding generate_append_tlist_def up
    by (simp add: example_colTypes_def example_colCollations_def example_refnames_def
        example_nf_def example_tle_def example_columns_def
        makeTargetEntry_def makeVar_def example_casts Let_def)
qed

lemma example_union_plan:
  "generate_union_path example_env example_root
     (SetOperationStmt SETOP_UNION True example_union_left (RangeTblRef 4)
        example_colTypes example_colCollations []) example_refnames False =
     Inr (example_root,
          AppendPath [example_leaf_path 1, example_leaf_path 2, example_leaf_path 3,
                      example_leaf_path 4] (example_columns 0),
          example_columns 0, None)"
proof -
  have e: "nodefuncs example_env = example_nf" "palloc_junk example_env = (\<lambda>i. 0)"
    by (simp_all add: example_env_def)
  have l: "\<And>i. 0 \<le> i \<Longrightarrow> i < 2 ^ 32 \<Longrightarrow>
         recurse_union_children example_env example_root (RangeTblRef i) SETOP_UNION True
           example_colTypes example_colCollations example_refnames =
         Inr (example_root, [example_leaf_path i], [example_columns (nat i)])"
    using example_plan_leaf_noflag
    by (simp del: recurse_set_operations.simps)
  show ?thesis
    by (simp add: example_union_left_def l union_of_children_def e example_union_tlist
        del: recurse_set_operations.simps recurse_union_children.simps(2))
qed

text \<open>
  Witness for C3: the tree \<open>((1 UNION ALL 2) UNION ALL 3) UNION ALL 4\<close> gives one Append
  over the four leaf scans.
\<close>

theorem union_children_folded_witness:
  "pure_union_all example_colTypes
     (SetOp (SetOperationStmt SETOP_UNION True example_union_left (RangeTblRef 4)
               example_colTypes example_colCollations [])) \<and>
   setop_leaves example_union_left @ setop_leaves (RangeTblRef 4) = [1, 2, 3, 4] \<and>
   list_all (\<lambda>i. leaf_scan example_env example_root example_colTypes example_colCollations
                    example_refnames i \<noteq> None) [1, 2, 3, 4] \<and>
   generate_union_path example_env example_root
     (SetOperationStmt SETOP_UNION True example_union_left (RangeTblRef 4)
        example_colTypes example_colCollations []) example_refnames False =
     Inr (example_root,
          AppendPath [example_leaf_path 1, example_leaf_path 2, example_leaf_path 3,
                      example_leaf_path 4] (example_columns 0),
          example_columns 0, None)"
proof -
  let ?scan = "leaf_scan example_env example_root example_colTypes example_colCollations
                 example_refnames"
  have pure: "pure_union_all example_colTypes
     (SetOp (SetOperationStmt SETOP_UNION True example_union_left (RangeTblRef 4)
               example_colTypes example_colCollations []))"
    by (simp add: example_union_left_def)
  have leaves: "setop_leaves example_union_left @ setop_leaves (RangeTblRef 4) = [1, 2, 3, 4]"
    by (simp add: example_union_left_def)
  have scans: "?scan 1 = Some (example_leaf_path 1, example_columns 1)"
    "?scan 2 = Some (example_leaf_path 2, example_columns 2)"
    "?scan 3 = Some (example_leaf_path 3, example_columns 3)"
    "?scan 4 = Some (example_leaf_path 4, example_columns 4)"
    using example_leaf_scan [of 1] example_leaf_scan [of 2] example_leaf_scan [of 3]
      example_leaf_scan [of 4] by simp_all
  have ok: "list_all (\<lambda>i. ?scan i \<noteq> None) (setop_leaves example_union_left @ setop_leaves (RangeTblRef 4))"
    unfolding leaves by (simp add: scans)
  have tl: "generate_append_tlist (nodefuncs example_env) (palloc_junk example_env)
      example_colTypes example_colCollations False
      (map (\<lambda>i. snd (the (?scan i))) (setop_leaves example_union_left @ setop_leaves (RangeTblRef 4)))
      example_refnames = Inr (example_columns 0)"
  proof -
    have e: "nodefuncs example_env = example_nf" "palloc_junk example_env = (\<lambda>i. 0)"
      by (simp_all add: example_env_def)
    show ?thesis
      unfolding leaves using example_union_tlist by (simp add: scans e)
  qed
  note th = union_children_folded [where env = example_env and proot = example_root
      and colTypes = example_colTypes and left = example_union_left and right = "RangeTblRef 4"
      and colCollations = example_colCollations and groupClauses = "[]"
      and refnames = example_refnames and tlist = "example_columns 0" and want = False,
      THEN conjunct2, THEN conjunct2, THEN mp, OF conjI [OF pure conjI [OF ok tl]]]
  from th obtain root' where
    g: "generate_union_path example_env example_root
          (SetOperationStmt SETOP_UNION True example_union_left (RangeTblRef 4)
             example_colTypes example_colCollations []) example_refnames False =
        Inr (root', AppendPath (map (\<lambda>i. fst (the (?scan i)))
               (setop_leaves example_union_left @ setop_leaves (RangeTblRef 4))) (example_columns 0),
             example_columns 0, None)"
    by (auto simp del: generate_union_path.simps)
  have "root' = example_root"
    using g unfolding example_union_plan by simp
  with g leaves scans pure ok show ?thesis by simp
qed

subsection \<open>generate_recursion_path\<close>



















subsection \<open>expand_inherited_rtentry\<close>

text \<open>
  What one call of \<^verbatim>\<open>expand_single_inheritance_child\<close> and the two loops over the children
  do to the range table, to \<^verbatim>\<open>root->append_rel_list\<close> and to the list of
  \<^verbatim>\<open>AppendRelInfo\<close>s they are given.
\<close>

lemma heap_open_id: "rd_id (heap_open cat oid) = oid"
  by (simp add: heap_open_def)

lemma expand_single_inheritance_child_effect:
  assumes "expand_single_inheritance_child cat proot p parentrel rc childrel infos =
             Inr (proot', infos', idx)"
  shows "\<exists>crte. rtable proot' = rtable proot @ [crte]"
    and "idx = Suc (length (rtable proot))"
    and "append_rel_list proot' = append_rel_list proot"
    and "partColsUpdated proot' = partColsUpdated proot"
    and "1 \<le> p \<and> p \<le> length (rtable proot)"
    and "\<exists>extra. infos' = infos @ extra \<and>
           length extra =
             (if rd_relkind childrel \<noteq> RELKIND_PARTITIONED_TABLE
                 \<or> rd_id childrel \<noteq> rd_id parentrel then 1 else 0)"
  using assms
  by (auto simp: expand_single_inheritance_child_def rt_fetch_def Let_def make_childrte_def
      build_child_appinfo_def
      split: sum.splits if_splits prod.splits)

lemma expand_inheritance_children_effect:
  "expand_inheritance_children cat proot p oldrel rc oids infos = Inr (proot', infos') \<Longrightarrow>
     (\<exists>more. rtable proot' = rtable proot @ more) \<and>
     append_rel_list proot' = append_rel_list proot \<and>
     length infos' = length infos + length (filter (builds_appinfo cat oldrel) oids)"
proof (induction oids arbitrary: proot infos)
  case Nil
  then show ?case by simp
next
  case (Cons childOID oids)
  show ?case
  proof (cases "childOID \<noteq> rd_id oldrel \<and> rd_other_temp (heap_open cat childOID)")
    case True
    with Cons.prems
    have "expand_inheritance_children cat proot p oldrel rc oids infos = Inr (proot', infos')"
      by (simp add: Let_def)
    from Cons.IH [OF this] True show ?thesis
      by (simp add: builds_appinfo_def)
  next
    case False
    let ?new = "if childOID \<noteq> rd_id oldrel then heap_open cat childOID else oldrel"
    from False Cons.prems obtain proot1 infos1 idx where
      s: "expand_single_inheritance_child cat proot p oldrel rc ?new infos =
            Inr (proot1, infos1, idx)"
      and r: "expand_inheritance_children cat proot1 p oldrel rc oids infos1 = Inr (proot', infos')"
      by (auto simp: Let_def split: sum.splits if_splits)
    have id: "rd_id ?new = childOID" by (simp add: heap_open_id)
    from expand_single_inheritance_child_effect [OF s]
    obtain crte extra where
      e: "rtable proot1 = rtable proot @ [crte]"
         "append_rel_list proot1 = append_rel_list proot"
         "infos1 = infos @ extra"
         "length extra = (if rd_relkind ?new \<noteq> RELKIND_PARTITIONED_TABLE
                             \<or> rd_id ?new \<noteq> rd_id oldrel then 1 else 0)"
      by blast
    have b: "length extra = (if builds_appinfo cat oldrel childOID then 1 else 0)"
      using e(4) False by (auto simp: builds_appinfo_def heap_open_id)
    from Cons.IH [OF r] obtain more where
      m: "rtable proot' = rtable proot1 @ more"
         "append_rel_list proot' = append_rel_list proot1"
         "length infos' = length infos1 + length (filter (builds_appinfo cat oldrel) oids)"
      by blast
    from m(1) e(1) have "rtable proot' = rtable proot @ (crte # more)" by simp
    then have "\<exists>more. rtable proot' = rtable proot @ more" by blast
    moreover from m(2) e(2) have "append_rel_list proot' = append_rel_list proot" by simp
    moreover from m(3) e(3) b
    have "length infos' =
            length infos + length (filter (builds_appinfo cat oldrel) (childOID # oids))"
      by simp
    ultimately show ?thesis by blast
  qed
qed
lemma expand_partitions_effect:
  assumes P1: "\<forall>r0 q0 rel0 rc0 lm0 r1.
      expand_partitioned_rtentry cat d r0 q0 rel0 rc0 lm0 = Inr r1 \<longrightarrow>
      length (rtable r0) \<le> length (rtable r1) \<and>
      (\<forall>i<length (rtable r0). i \<noteq> q0 - 1 \<longrightarrow> rtable r1 ! i = rtable r0 ! i) \<and>
      (\<exists>extra. append_rel_list r1 = append_rel_list r0 @ extra)"
  shows "expand_partitions cat d proot p rel rc lm oids hc = Inr (proot', hc') \<Longrightarrow>
      length (rtable proot) \<le> length (rtable proot') \<and>
      (\<forall>i<length (rtable proot). rtable proot' ! i = rtable proot ! i) \<and>
      hc' = (hc \<or> \<not> list_all (\<lambda>oid. rd_other_temp (heap_open cat oid)) oids) \<and>
      (\<exists>extra. append_rel_list proot' = append_rel_list proot @ extra \<and>
         (list_all (\<lambda>oid. rd_other_temp (heap_open cat oid)) oids \<longrightarrow> extra = []))"
proof (induction oids arbitrary: proot hc)
  case Nil
  then show ?case by simp
next
  case (Cons childOID oids)
  let ?temp = "\<lambda>oid. rd_other_temp (heap_open cat oid)"
  show ?case
  proof (cases "?temp childOID")
    case True
    with Cons.prems
    have "expand_partitions cat d proot p rel rc lm oids hc = Inr (proot', hc')"
      by (simp add: Let_def)
    from Cons.IH [OF this] True show ?thesis by simp
  next
    case False
    let ?childrel = "heap_open cat childOID"
    from False Cons.prems obtain proot1 infos idx proot2 where
      s: "expand_single_inheritance_child cat proot p rel rc ?childrel (append_rel_list proot) =
            Inr (proot1, infos, idx)"
      and n: "(if rd_relkind ?childrel = RELKIND_PARTITIONED_TABLE
               then expand_partitioned_rtentry cat d (proot1 \<lparr> append_rel_list := infos \<rparr>)
                      idx ?childrel rc lm
               else Inr (proot1 \<lparr> append_rel_list := infos \<rparr>)) = Inr proot2"
      and r: "expand_partitions cat d proot2 p rel rc lm oids True = Inr (proot', hc')"
      by (auto simp: Let_def split: sum.splits)
    from expand_single_inheritance_child_effect [OF s]
    obtain crte extra1 where
      e: "rtable proot1 = rtable proot @ [crte]"
         "idx = Suc (length (rtable proot))"
         "infos = append_rel_list proot @ extra1"
      by blast
    have n2: "length (rtable proot1) \<le> length (rtable proot2) \<and>
              (\<forall>i<length (rtable proot). rtable proot2 ! i = rtable proot ! i) \<and>
              (\<exists>extra. append_rel_list proot2 = infos @ extra)"
    proof (cases "rd_relkind ?childrel = RELKIND_PARTITIONED_TABLE")
      case True
      with n have "expand_partitioned_rtentry cat d (proot1 \<lparr> append_rel_list := infos \<rparr>)
                      idx ?childrel rc lm = Inr proot2" by simp
      with P1 have "length (rtable (proot1 \<lparr> append_rel_list := infos \<rparr>)) \<le> length (rtable proot2) \<and>
          (\<forall>i<length (rtable (proot1 \<lparr> append_rel_list := infos \<rparr>)). i \<noteq> idx - 1 \<longrightarrow>
              rtable proot2 ! i = rtable (proot1 \<lparr> append_rel_list := infos \<rparr>) ! i) \<and>
          (\<exists>extra. append_rel_list proot2 =
              append_rel_list (proot1 \<lparr> append_rel_list := infos \<rparr>) @ extra)"
        by blast
      with e show ?thesis
        by (auto simp: nth_append)
    next
      case False
      with n have "proot2 = proot1 \<lparr> append_rel_list := infos \<rparr>" by simp
      with e show ?thesis by (simp add: nth_append)
    qed
    then obtain extra2 where x2: "append_rel_list proot2 = infos @ extra2" by blast
    from Cons.IH [OF r] obtain extra3 where
      i: "length (rtable proot2) \<le> length (rtable proot')"
         "\<forall>i<length (rtable proot2). rtable proot' ! i = rtable proot2 ! i"
         "hc' = True"
         "append_rel_list proot' = append_rel_list proot2 @ extra3"
      by auto
    from n2 e(1) have len: "length (rtable proot) < length (rtable proot2)" by simp
    have "length (rtable proot) \<le> length (rtable proot')" using len i(1) by simp
    moreover have "\<forall>i<length (rtable proot). rtable proot' ! i = rtable proot ! i"
      using n2 i(2) len by auto
    moreover have "hc' = (hc \<or> \<not> list_all ?temp (childOID # oids))"
      using i(3) False by simp
    moreover have "append_rel_list proot' = append_rel_list proot @ (extra1 @ extra2 @ extra3)"
      using i(4) x2 e(3) by simp
    then have "\<exists>extra. append_rel_list proot' = append_rel_list proot @ extra \<and>
                 (list_all ?temp (childOID # oids) \<longrightarrow> extra = [])"
      using False by auto
    ultimately show ?thesis by blast
  qed
qed

lemma expand_partitioned_rtentry_effect:
  "expand_partitioned_rtentry cat d proot p rel rc lm = Inr proot' \<Longrightarrow>
     (\<exists>oids. rd_partdesc rel = Some oids \<and>
        1 \<le> p \<and> p \<le> length (rtable proot) \<and>
        length (rtable proot) \<le> length (rtable proot') \<and>
        (\<forall>i<length (rtable proot). i \<noteq> p - 1 \<longrightarrow> rtable proot' ! i = rtable proot ! i) \<and>
        inh (rtable proot' ! (p - 1)) =
          (inh (rtable proot ! (p - 1)) \<and>
           \<not> list_all (\<lambda>oid. rd_other_temp (heap_open cat oid)) oids) \<and>
        (\<exists>extra. append_rel_list proot' = append_rel_list proot @ extra \<and>
           (list_all (\<lambda>oid. rd_other_temp (heap_open cat oid)) oids \<and>
            rd_relkind rel = RELKIND_PARTITIONED_TABLE \<longrightarrow> extra = []) \<and>
           (rd_relkind rel \<noteq> RELKIND_PARTITIONED_TABLE \<longrightarrow> extra \<noteq> [])))"
proof (induction d arbitrary: proot p rel rc lm proot')
  case 0
  then show ?case by simp
next
  case (Suc d)
  let ?temp = "\<lambda>oid. rd_other_temp (heap_open cat oid)"
  from Suc.prems obtain oids where pd: "rd_partdesc rel = Some oids"
    by (auto split: option.splits)
  from Suc.prems pd obtain parentrte where f: "rt_fetch p (rtable proot) = Inr parentrte"
    by (auto split: sum.splits)
  then have pr: "1 \<le> p" "p \<le> length (rtable proot)"
    by (auto simp: rt_fetch_def split: if_splits)
  define proot1 where "proot1 =
      (if \<not> partColsUpdated proot
       then proot \<lparr> partColsUpdated := has_partition_attrs cat rel (updatedCols parentrte) \<rparr>
       else proot)"
  have p1: "rtable proot1 = rtable proot" "append_rel_list proot1 = append_rel_list proot"
    by (simp_all add: proot1_def)
  from Suc.prems pd f obtain proot2 infos idx proot3 has_child where
    s: "expand_single_inheritance_child cat proot1 p rel rc rel (append_rel_list proot1) =
          Inr (proot2, infos, idx)"
    and l: "expand_partitions cat d (proot2 \<lparr> append_rel_list := infos \<rparr>) p rel rc lm oids False =
          Inr (proot3, has_child)"
    and res: "proot' = (if \<not> has_child then clear_inh proot3 p else proot3)"
    unfolding proot1_def
    by (auto simp: Let_def split: sum.splits if_splits)
  from expand_single_inheritance_child_effect [OF s] p1
  obtain crte extra0 where
    e: "rtable proot2 = rtable proot @ [crte]"
       "infos = append_rel_list proot @ extra0"
       "length extra0 = (if rd_relkind rel \<noteq> RELKIND_PARTITIONED_TABLE then 1 else 0)"
    by auto
  have P1: "\<forall>r0 q0 rel0 rc0 lm0 r1.
      expand_partitioned_rtentry cat d r0 q0 rel0 rc0 lm0 = Inr r1 \<longrightarrow>
      length (rtable r0) \<le> length (rtable r1) \<and>
      (\<forall>i<length (rtable r0). i \<noteq> q0 - 1 \<longrightarrow> rtable r1 ! i = rtable r0 ! i) \<and>
      (\<exists>extra. append_rel_list r1 = append_rel_list r0 @ extra)"
  proof (intro allI impI)
    fix r0 q0 rel0 rc0 lm0 r1
    assume "expand_partitioned_rtentry cat d r0 q0 rel0 rc0 lm0 = Inr r1"
    from Suc.IH [OF this]
    show "length (rtable r0) \<le> length (rtable r1) \<and>
      (\<forall>i<length (rtable r0). i \<noteq> q0 - 1 \<longrightarrow> rtable r1 ! i = rtable r0 ! i) \<and>
      (\<exists>extra. append_rel_list r1 = append_rel_list r0 @ extra)"
      by blast
  qed
  from expand_partitions_effect [OF P1 l] obtain extra where
    q: "length (rtable proot2) \<le> length (rtable proot3)"
       "\<forall>i<length (rtable proot2). rtable proot3 ! i = rtable proot2 ! i"
       "has_child = (\<not> list_all ?temp oids)"
       "append_rel_list proot3 = infos @ extra"
       "list_all ?temp oids \<longrightarrow> extra = []"
    by auto
  have old: "\<forall>i<length (rtable proot). rtable proot3 ! i = rtable proot ! i"
    using q(2) e(1) by (simp add: nth_append)
  have len3: "length (rtable proot) < length (rtable proot3)"
    using q(1) e(1) by simp
  have lenr: "length (rtable proot') = length (rtable proot3)"
    using res by (simp add: clear_inh_def)
  have oth: "\<forall>i<length (rtable proot). i \<noteq> p - 1 \<longrightarrow> rtable proot' ! i = rtable proot ! i"
    using res old by (auto simp: clear_inh_def)
  have flag: "inh (rtable proot' ! (p - 1)) =
                (inh (rtable proot ! (p - 1)) \<and> \<not> list_all ?temp oids)"
  proof (cases has_child)
    case True
    with res have "proot' = proot3" by simp
    with old pr True q(3) show ?thesis by simp
  next
    case False
    with res have "rtable proot' ! (p - 1) = (rtable proot3 ! (p - 1)) \<lparr> inh := False \<rparr>"
      using pr len3 by (simp add: clear_inh_def)
    with False q(3) show ?thesis by simp
  qed
  have app: "append_rel_list proot' = append_rel_list proot @ (extra0 @ extra)"
    using res q(4) e(2) by (simp add: clear_inh_def)
  have x1: "list_all ?temp oids \<and> rd_relkind rel = RELKIND_PARTITIONED_TABLE \<longrightarrow>
              extra0 @ extra = []"
    using q(5) e(3) by auto
  have x2: "rd_relkind rel \<noteq> RELKIND_PARTITIONED_TABLE \<longrightarrow> extra0 @ extra \<noteq> []"
    using e(3) by auto
  from pd pr len3 lenr oth flag app x1 x2 show ?case
    by (intro exI [of _ oids] conjI exI [of _ "extra0 @ extra"]) simp_all
qed
lemma clear_inh_no_inheritance_case:
  "1 \<le> p \<Longrightarrow> p \<le> length (rtable proot) \<Longrightarrow>
   append_rel_list proot = append_rel_list proot0 \<Longrightarrow>
   no_inheritance_case proot0 p (clear_inh proot p)"
  by (simp add: no_inheritance_case_def clear_inh_def)

lemma builds_appinfo_count:
  "rd_relkind oldrel \<noteq> RELKIND_PARTITIONED_TABLE \<Longrightarrow>
   length (filter (builds_appinfo cat oldrel) oids) =
     count_list oids (rd_id oldrel) +
     length (filter (\<lambda>oid. oid \<noteq> rd_id oldrel \<and> \<not> rd_other_temp (heap_open cat oid)) oids)"
  by (induction oids) (auto simp: builds_appinfo_def)

lemma fewer_than_two_appinfos_children:
  assumes "rd_relkind oldrel \<noteq> RELKIND_PARTITIONED_TABLE"
    and "count_list oids (rd_id oldrel) = 1"
  shows "fewer_than_two_appinfos cat oldrel oids =
         children_all_other_temp cat (rd_id oldrel) oids"
proof -
  let ?live = "\<lambda>oid. oid \<noteq> rd_id oldrel \<and> \<not> rd_other_temp (heap_open cat oid)"
  have "fewer_than_two_appinfos cat oldrel oids = (filter ?live oids = [])"
    using builds_appinfo_count [OF assms(1), of cat oids] assms(2)
    by (auto simp: fewer_than_two_appinfos_def)
  also have "\<dots> = children_all_other_temp cat (rd_id oldrel) oids"
    by (auto simp: children_all_other_temp_def filter_empty_conv list_all_iff)
  finally show ?thesis .
qed

lemma self_translation_succeeds:
  "\<exists>vars. inh_translation_loop cat rel rel v old_attno new_attno atts = Inr vars"
proof (induction atts arbitrary: old_attno new_attno)
  case Nil
  then show ?case by simp
next
  case (Cons att atts)
  from Cons.IH [of "old_attno + 1" new_attno] obtain vars where
    "inh_translation_loop cat rel rel v (old_attno + 1) new_attno atts = Inr vars"
    by blast
  then show ?case by simp
qed

lemma expand_self_succeeds:
  assumes "1 \<le> p" "p \<le> length (rtable proot)" "rowmark_ok rc proot"
  shows "\<exists>proot' infos' idx.
           expand_single_inheritance_child cat proot p rel rc rel infos =
             Inr (proot', infos', idx) \<and>
           rowmark_ok rc proot' \<and> p \<le> length (rtable proot') \<and>
           append_rel_list proot' = append_rel_list proot \<and>
           (rd_relkind rel = RELKIND_PARTITIONED_TABLE \<longrightarrow> infos' = infos)"
proof -
  obtain vars where v: "make_inh_translation_list cat rel rel (Suc (length (rtable proot))) =
                          Inr vars"
    using self_translation_succeeds [of cat rel "Suc (length (rtable proot))" 0 0 "rd_att rel"]
    by (auto simp: make_inh_translation_list_def)
  show ?thesis
    using assms v
    by (auto simp: expand_single_inheritance_child_def rt_fetch_def Let_def
        build_child_appinfo_def build_child_rowmark_def make_childrte_def rowmark_ok_def
        split: option.splits)
qed

lemma expand_inheritance_children_succeeds:
  "children_all_other_temp cat (rd_id oldrel) oids \<Longrightarrow>
   1 \<le> p \<Longrightarrow> p \<le> length (rtable proot) \<Longrightarrow> rowmark_ok rc proot \<Longrightarrow>
   \<exists>r. expand_inheritance_children cat proot p oldrel rc oids infos = Inr r"
proof (induction oids arbitrary: proot infos)
  case Nil
  then show ?case by simp
next
  case (Cons childOID oids)
  from Cons.prems(1) have rest: "children_all_other_temp cat (rd_id oldrel) oids"
    and this_one: "childOID = rd_id oldrel \<or> rd_other_temp (heap_open cat childOID)"
    by (simp_all add: children_all_other_temp_def)
  show ?case
  proof (cases "childOID = rd_id oldrel")
    case True
    from expand_self_succeeds [OF Cons.prems(2,3,4), of cat oldrel infos]
    obtain proot1 infos1 idx where
      s: "expand_single_inheritance_child cat proot p oldrel rc oldrel infos =
            Inr (proot1, infos1, idx)"
      and k: "rowmark_ok rc proot1" "p \<le> length (rtable proot1)"
      by blast
    from Cons.IH [OF rest Cons.prems(2) k(2) k(1), of infos1] s True
    show ?thesis by (simp add: Let_def)
  next
    case False
    with this_one Cons.IH [OF rest Cons.prems(2,3,4), of infos]
    show ?thesis by (simp add: Let_def)
  qed
qed

lemma expand_partitions_skips:
  "list_all (\<lambda>oid. rd_other_temp (heap_open cat oid)) oids \<Longrightarrow>
   expand_partitions cat d proot p rel rc lm oids hc = Inr (proot, hc)"
  by (induction oids) (simp_all add: Let_def)

lemma expand_partitioned_rtentry_succeeds:
  assumes "no_live_partition cat rel" "1 \<le> p" "p \<le> length (rtable proot)"
    "rowmark_ok rc proot"
  shows "\<exists>r. expand_partitioned_rtentry cat (Suc d) proot p rel rc lm = Inr r"
proof -
  from assms(1) obtain oids where pd: "rd_partdesc rel = Some oids"
    and all: "list_all (\<lambda>oid. rd_other_temp (heap_open cat oid)) oids"
    and kind: "rd_relkind rel = RELKIND_PARTITIONED_TABLE"
    by (auto simp: no_live_partition_def split: option.splits)
  obtain parentrte where f: "rt_fetch p (rtable proot) = Inr parentrte"
    using assms(2,3) by (simp add: rt_fetch_def)
  define proot1 where "proot1 =
      (if \<not> partColsUpdated proot
       then proot \<lparr> partColsUpdated := has_partition_attrs cat rel (updatedCols parentrte) \<rparr>
       else proot)"
  have p1: "p \<le> length (rtable proot1)" "rowmark_ok rc proot1"
    using assms(3,4) by (simp_all add: proot1_def rowmark_ok_def split: option.splits)
  from expand_self_succeeds [OF assms(2) p1, of cat rel "append_rel_list proot1"]
  obtain proot2 infos idx where
    s: "expand_single_inheritance_child cat proot1 p rel rc rel (append_rel_list proot1) =
          Inr (proot2, infos, idx)"
    by blast
  show ?thesis
    using pd f s expand_partitions_skips [OF all]
    unfolding proot1_def
    by (simp add: Let_def)
qed
lemma expand_inherited_rtentry_cases:
  assumes f: "rt_fetch rtindex (rtable proot) = Inr rte"
    and i: "inh rte" and k: "rtekind rte = RTE_RELATION"
    and res: "expand_inherited_rtentry cat depth proot rtindex = Inr proot'"
  shows "no_inheritance_case proot rtindex proot' =
           (\<not> has_subclass cat (relid rte) \<or>
            length (inheritance_set cat proot rtindex (relid rte)) < 2 \<or>
            (rd_partdesc (heap_open cat (relid rte)) = None \<and>
             fewer_than_two_appinfos cat (heap_open cat (relid rte))
               (inheritance_set cat proot rtindex (relid rte))) \<or>
            no_live_partition cat (heap_open cat (relid rte)))"
proof -
  let ?parentOID = "relid rte"
  let ?oldrc = "get_plan_rowmark cat (rowMarks proot) rtindex"
  let ?lockmode = "inheritance_lockmode cat proot rtindex ?oldrc"
  let ?inhOIDs = "find_all_inheritors cat ?parentOID ?lockmode"
  let ?oldrel = "heap_open cat ?parentOID"
  have set: "inheritance_set cat proot rtindex ?parentOID = ?inhOIDs"
    by (simp add: inheritance_set_def)
  from f have pr: "1 \<le> rtindex" "rtindex \<le> length (rtable proot)"
    and rte: "rtable proot ! (rtindex - 1) = rte"
    by (auto simp: rt_fetch_def split: if_splits)
  show ?thesis
  proof (cases "\<not> has_subclass cat ?parentOID \<or> length ?inhOIDs < 2")
    case True
    with res f i k have "proot' = clear_inh proot rtindex"
      by (auto simp: expand_inherited_rtentry_def Let_def split: if_splits option.splits)
    with clear_inh_no_inheritance_case [OF pr refl] True set show ?thesis by auto
  next
    case False
    define proot1 where "proot1 =
        (case ?oldrc of
           None \<Rightarrow> proot
         | Some k \<Rightarrow> proot \<lparr> rowMarks := (rowMarks proot)
                              [k := (rowMarks proot ! k) \<lparr> isParent := True \<rparr>] \<rparr>)"
    have p1: "rtable proot1 = rtable proot" "append_rel_list proot1 = append_rel_list proot"
      by (simp_all add: proot1_def split: option.splits)
    show ?thesis
    proof (cases "rd_partdesc ?oldrel")
      case None
      with res f i k False obtain proot2 infos where
        l: "expand_inheritance_children cat proot1 rtindex ?oldrel ?oldrc ?inhOIDs [] =
              Inr (proot2, infos)"
        and r: "proot' = (if length infos < 2 then clear_inh proot2 rtindex
                          else proot2 \<lparr> append_rel_list := append_rel_list proot2 @ infos \<rparr>)"
        unfolding proot1_def
        by (auto simp: expand_inherited_rtentry_def Let_def split: if_splits sum.splits)
      from expand_inheritance_children_effect [OF l] p1 obtain more where
        e: "rtable proot2 = rtable proot @ more"
           "append_rel_list proot2 = append_rel_list proot"
           "length infos = length (filter (builds_appinfo cat ?oldrel) ?inhOIDs)"
        by auto
      have few: "fewer_than_two_appinfos cat ?oldrel ?inhOIDs = (length infos < 2)"
        using e(3) by (simp add: fewer_than_two_appinfos_def)
      have nl: "\<not> no_live_partition cat ?oldrel"
        using None by (simp add: no_live_partition_def)
      show ?thesis
      proof (cases "length infos < 2")
        case True
        with r have "proot' = clear_inh proot2 rtindex" by simp
        moreover have "rtindex \<le> length (rtable proot2)" using pr(2) e(1) by simp
        ultimately have "no_inheritance_case proot rtindex proot'"
          using clear_inh_no_inheritance_case [OF pr(1) _ e(2)] by simp
        with True few None set show ?thesis by simp
      next
        case False
        with r have "append_rel_list proot' = append_rel_list proot @ infos" "infos \<noteq> []"
          using e(2) by auto
        then have "\<not> no_inheritance_case proot rtindex proot'"
          by (simp add: no_inheritance_case_def)
        with False few nl set \<open>\<not> (\<not> has_subclass cat ?parentOID \<or> length ?inhOIDs < 2)\<close>
        show ?thesis by simp
      qed
    next
      case (Some oids)
      with res f i k False have
        "expand_partitioned_rtentry cat depth proot1 rtindex ?oldrel ?oldrc ?lockmode = Inr proot'"
        unfolding proot1_def
        by (auto simp: expand_inherited_rtentry_def Let_def split: if_splits)
      from expand_partitioned_rtentry_effect [OF this] Some p1 rte i
      obtain extra where
        e: "inh (rtable proot' ! (rtindex - 1)) =
              (\<not> list_all (\<lambda>oid. rd_other_temp (heap_open cat oid)) oids)"
           "append_rel_list proot' = append_rel_list proot @ extra"
           "list_all (\<lambda>oid. rd_other_temp (heap_open cat oid)) oids \<and>
              rd_relkind ?oldrel = RELKIND_PARTITIONED_TABLE \<longrightarrow> extra = []"
           "rd_relkind ?oldrel \<noteq> RELKIND_PARTITIONED_TABLE \<longrightarrow> extra \<noteq> []"
        by auto
      have "no_inheritance_case proot rtindex proot' = no_live_partition cat ?oldrel"
        using e Some by (auto simp: no_inheritance_case_def no_live_partition_def)
      with False Some set show ?thesis by simp
    qed
  qed
qed

lemma expand_inherited_rtentry_childless:
  assumes f: "rt_fetch rtindex (rtable proot) = Inr rte"
    and i: "inh rte" and k: "rtekind rte = RTE_RELATION"
  shows "\<not> has_subclass cat (relid rte) \<or>
         plan_rowmark_found cat proot rtindex \<and>
         length (inheritance_set cat proot rtindex (relid rte)) < 2 \<Longrightarrow>
         expand_inherited_rtentry cat depth proot rtindex = Inr (clear_inh proot rtindex)"
  using f i k
  by (auto simp: expand_inherited_rtentry_def Let_def inheritance_set_def plan_rowmark_found_def
      rowmark_ok_def split: option.splits)

lemma expand_inherited_rtentry_silent:
  assumes f: "rt_fetch rtindex (rtable proot) = Inr rte"
    and i: "inh rte" and k: "rtekind rte = RTE_RELATION"
    and ok: "plan_rowmark_found cat proot rtindex"
    and sit: "rd_partdesc (heap_open cat (relid rte)) = None \<and>
              children_all_other_temp cat (relid rte)
                (inheritance_set cat proot rtindex (relid rte)) \<or>
              no_live_partition cat (heap_open cat (relid rte)) \<and> 0 < depth"
  shows "\<exists>proot'. expand_inherited_rtentry cat depth proot rtindex = Inr proot'"
proof -
  let ?parentOID = "relid rte"
  let ?oldrc = "get_plan_rowmark cat (rowMarks proot) rtindex"
  let ?lockmode = "inheritance_lockmode cat proot rtindex ?oldrc"
  let ?inhOIDs = "find_all_inheritors cat ?parentOID ?lockmode"
  let ?oldrel = "heap_open cat ?parentOID"
  have set: "inheritance_set cat proot rtindex ?parentOID = ?inhOIDs"
    by (simp add: inheritance_set_def)
  from f have pr: "1 \<le> rtindex" "rtindex \<le> length (rtable proot)"
    by (auto simp: rt_fetch_def split: if_splits)
  define proot1 where "proot1 =
      (case ?oldrc of
         None \<Rightarrow> proot
       | Some k \<Rightarrow> proot \<lparr> rowMarks := (rowMarks proot)
                            [k := (rowMarks proot ! k) \<lparr> isParent := True \<rparr>] \<rparr>)"
  have p1: "rtindex \<le> length (rtable proot1)" "rowmark_ok ?oldrc proot1"
    using pr(2) ok
    by (simp_all add: proot1_def plan_rowmark_found_def rowmark_ok_def split: option.splits)
  have valid: "\<not> (case ?oldrc of None \<Rightarrow> False | Some k \<Rightarrow> \<not> k < length (rowMarks proot))"
    using ok by (simp add: plan_rowmark_found_def rowmark_ok_def split: option.splits)
  show ?thesis
  proof (cases "\<not> has_subclass cat ?parentOID \<or> length ?inhOIDs < 2")
    case True
    with f i k valid show ?thesis
      by (auto simp: expand_inherited_rtentry_def Let_def)
  next
    case False
    show ?thesis
    proof (cases "rd_partdesc ?oldrel")
      case None
      with sit set have "children_all_other_temp cat (rd_id ?oldrel) ?inhOIDs"
        by (simp add: no_live_partition_def heap_open_id)
      from expand_inheritance_children_succeeds [OF this pr(1) p1, of "[]"]
      obtain r where
        "expand_inheritance_children cat proot1 rtindex ?oldrel ?oldrc ?inhOIDs [] = Inr r"
        by blast
      with f i k valid False None show ?thesis
        unfolding proot1_def
        by (cases r) (auto simp: expand_inherited_rtentry_def Let_def)
    next
      case (Some oids)
      with sit have nl: "no_live_partition cat ?oldrel" and d: "0 < depth" by simp_all
      from d obtain d' where d': "depth = Suc d'" by (cases depth) simp_all
      from expand_partitioned_rtentry_succeeds [OF nl pr(1) p1, of d' ?lockmode]
      obtain r where
        "expand_partitioned_rtentry cat depth proot1 rtindex ?oldrel ?oldrc ?lockmode = Inr r"
        unfolding d' by blast
      with f i k valid False Some show ?thesis
        unfolding proot1_def
        by (auto simp: expand_inherited_rtentry_def Let_def)
    qed
  qed
qed
lemma example_catalog_simps:
  "has_subclass example_catalog oid = (oid = 100 \<or> oid = 200)"
  "find_all_inheritors example_catalog oid lm =
     (if oid = 100 then [100, 101, 102] else if oid = 200 then [200, 201] else [oid])"
  "get_plan_rowmark example_catalog marks idx = None"
  "has_partition_attrs example_catalog r cols = False"
  "FirstLowInvalidHeapAttributeNumber example_catalog = -8"
  "SearchSysCacheAttName example_catalog oid name =
     (if name = ''a'' then Some (if oid = 101 then 2 else 1)
      else if name = ''b'' then Some (if oid = 101 then 1 else 2)
      else None)"
  "heap_open example_catalog 100 =
     \<lparr> rd_id = 100, rd_relname = ''t'', rd_relkind = CHR ''r'', rd_reltype = 0,
       rd_other_temp = False,
       rd_att = [example_att ''a'' 23 0, example_att ''b'' 25 100], rd_partdesc = None \<rparr>"
  "heap_open example_catalog 101 =
     \<lparr> rd_id = 101, rd_relname = ''t'', rd_relkind = CHR ''r'', rd_reltype = 0,
       rd_other_temp = False,
       rd_att = [example_att ''b'' 25 100, example_att ''a'' 23 0], rd_partdesc = None \<rparr>"
  "heap_open example_catalog 102 =
     \<lparr> rd_id = 102, rd_relname = ''t'', rd_relkind = CHR ''r'', rd_reltype = 0,
       rd_other_temp = True,
       rd_att = [example_att ''a'' 23 0, example_att ''b'' 25 100], rd_partdesc = None \<rparr>"
  "heap_open example_catalog 200 =
     \<lparr> rd_id = 200, rd_relname = ''t'', rd_relkind = CHR ''p'', rd_reltype = 0,
       rd_other_temp = False,
       rd_att = [example_att ''a'' 23 0, example_att ''b'' 25 100], rd_partdesc = Some [201] \<rparr>"
  "heap_open example_catalog 201 =
     \<lparr> rd_id = 201, rd_relname = ''t'', rd_relkind = CHR ''r'', rd_reltype = 0,
       rd_other_temp = True,
       rd_att = [example_att ''a'' 23 0, example_att ''b'' 25 100], rd_partdesc = None \<rparr>"
  by (simp_all add: example_catalog_def heap_open_def example_relcache_def example_relation_def)

lemma example_partitioned_expansion:
  "expand_inherited_rtentry example_catalog 1
     (example_expansion [example_rte 200 (CHR ''p'') True {}]) 1 =
   Inr (example_expansion
          [example_rte 200 (CHR ''p'') False {},
           (example_rte 200 (CHR ''p'') False {}) \<lparr> requiredPerms := 0 \<rparr>])"
proof -
  show ?thesis
    unfolding expand_inherited_rtentry_def
    by (simp add: example_catalog_simps rt_fetch_def example_expansion_def example_rte_def
        inheritance_lockmode_def Let_def expand_single_inheritance_child_def make_childrte_def
        build_child_appinfo_def build_child_rowmark_def RELKIND_PARTITIONED_TABLE_def
        clear_inh_def)
qed

lemma example_translations:
  "make_inh_translation_list example_catalog (heap_open example_catalog 100)
     (heap_open example_catalog 100) v =
     Inr [Some (makeVar v 1 23 (-1) 0 0), Some (makeVar v 2 25 (-1) 100 0)]"
  "make_inh_translation_list example_catalog (heap_open example_catalog 100)
     (heap_open example_catalog 101) v =
     Inr [Some (makeVar v 2 23 (-1) 0 0), Some (makeVar v 1 25 (-1) 100 0)]"
  by (simp_all add: make_inh_translation_list_def example_catalog_simps example_att_def
      find_child_attribute_def Let_def makeVar_def
      AttrNumber_of_int_def signed_take_bit_int_eq_self
      does_not_match_parents_type_def does_not_match_parents_collation_def)

lemma example_privs:
  "translate_col_privs (-8) {9}
     [Some (makeVar v 2 23 (-1) 0 0), Some (makeVar v 1 25 (-1) 100 0)] = Inr {10}"
  "translate_col_privs (-8) {}
     [Some (makeVar v 2 23 (-1) 0 0), Some (makeVar v 1 25 (-1) 100 0)] = Inr {}"
proof -
  have up: "[-8 + 1 .. -1] = [-7, -6, -5, -4, -3, -2, -1::int]"
    by code_simp
  show "translate_col_privs (-8) {9}
     [Some (makeVar v 2 23 (-1) 0 0), Some (makeVar v 1 25 (-1) 100 0)] = Inr {10}"
    unfolding translate_col_privs_def up
    by (simp add: bms_is_member_def bms_add_member_def InvalidAttrNumber_def makeVar_def)
  show "translate_col_privs (-8) {}
     [Some (makeVar v 2 23 (-1) 0 0), Some (makeVar v 1 25 (-1) 100 0)] = Inr {}"
    unfolding translate_col_privs_def up
    by (simp add: bms_is_member_def bms_add_member_def InvalidAttrNumber_def makeVar_def)
qed

lemma example_inheritance_expansion:
  "expand_inherited_rtentry example_catalog 1
     (example_expansion [example_rte 100 (CHR ''r'') True {9}]) 1 =
   Inr ((example_expansion
           [example_rte 100 (CHR ''r'') True {9},
            (example_rte 100 (CHR ''r'') False {9}) \<lparr> requiredPerms := 0 \<rparr>,
            (example_rte 101 (CHR ''r'') False {10}) \<lparr> requiredPerms := 0 \<rparr>])
        \<lparr> append_rel_list :=
            [\<lparr> parent_relid = 1, child_relid = 2, parent_reltype = 0, child_reltype = 0,
               translated_vars = [Some (T_Var (makeVar 2 1 23 (-1) 0 0)),
                                  Some (T_Var (makeVar 2 2 25 (-1) 100 0))],
               parent_reloid = 100 \<rparr>,
             \<lparr> parent_relid = 1, child_relid = 3, parent_reltype = 0, child_reltype = 0,
               translated_vars = [Some (T_Var (makeVar 3 2 23 (-1) 0 0)),
                                  Some (T_Var (makeVar 3 1 25 (-1) 100 0))],
               parent_reloid = 100 \<rparr>] \<rparr>)"
proof -
  have h: "rd_id (heap_open example_catalog 100) = 100"
    "rd_partdesc (heap_open example_catalog 100) = None"
    "rd_relkind (heap_open example_catalog 100) = CHR ''r''"
    "rd_reltype (heap_open example_catalog 100) = 0"
    "rd_id (heap_open example_catalog 101) = 101"
    "rd_relkind (heap_open example_catalog 101) = CHR ''r''"
    "rd_reltype (heap_open example_catalog 101) = 0"
    "rd_other_temp (heap_open example_catalog 101) = False"
    "rd_other_temp (heap_open example_catalog 102) = True"
    by (simp_all add: example_catalog_simps)
  have c: "has_subclass example_catalog 100"
    "find_all_inheritors example_catalog 100 lm = [100, 101, 102]"
    "get_plan_rowmark example_catalog marks idx = None"
    "FirstLowInvalidHeapAttributeNumber example_catalog = -8" for lm marks idx
    by (simp_all add: example_catalog_simps)
  show ?thesis
    unfolding expand_inherited_rtentry_def
    by (simp add: h c example_translations example_privs
        rt_fetch_def example_expansion_def example_rte_def
        inheritance_lockmode_def Let_def expand_single_inheritance_child_def make_childrte_def
        build_child_appinfo_def build_child_rowmark_def RELKIND_PARTITIONED_TABLE_def
        translate_child_privs_def clear_inh_def numeral_2_eq_2 numeral_3_eq_3)
qed
text \<open>
  C7. Let the entry at \<open>rtindex\<close> name a relation and have \<^verbatim>\<open>inh\<close> set.
  When \<^verbatim>\<open>expand_inherited_rtentry\<close> returns, it has degraded to the no-inheritance case (the
  entry's \<^verbatim>\<open>inh\<close> flag is clear and \<^verbatim>\<open>root->append_rel_list\<close> is as it was) in exactly
  these situations: the relation has no subclasses; the enumeration of the inheritance set
  returns fewer than two members; in the plain-inheritance branch (the parent has no
  partition descriptor), fewer than two \<^verbatim>\<open>AppendRelInfo\<close>s were built; or, in the partitioned
  branch, the parent is a partitioned table whose descriptor lists no partition other than
  temporary tables of other sessions. The fourth situation is not in the specification's
  list.

  In the first two situations the function returns the state with only that flag cleared
  (in the second, when the entry's row mark, if it has one, is in the list of row marks).
  When every member of the inheritance set other than the parent is a temporary table of
  another session, or no partition is live and the stack has room for one call, the function
  returns without an error. For a parent that is not a partitioned table and occurs once in
  its inheritance set, fewer than two \<^verbatim>\<open>AppendRelInfo\<close>s are built exactly when every other
  member is a temporary table of another session. A member that is skipped as another
  session's temporary table leaves both loops as they would be without it: it raises no
  error and has no effect.
\<close>

theorem expand_inherited_rtentry_no_inheritance:
  assumes "rt_fetch rtindex (rtable proot) = Inr rte"
    and "inh rte" and "rtekind rte = RTE_RELATION"
  shows "(\<forall>proot'. expand_inherited_rtentry cat depth proot rtindex = Inr proot' \<longrightarrow>
            no_inheritance_case proot rtindex proot' =
              (\<not> has_subclass cat (relid rte) \<or>
               length (inheritance_set cat proot rtindex (relid rte)) < 2 \<or>
               (rd_partdesc (heap_open cat (relid rte)) = None \<and>
                fewer_than_two_appinfos cat (heap_open cat (relid rte))
                  (inheritance_set cat proot rtindex (relid rte))) \<or>
               no_live_partition cat (heap_open cat (relid rte)))) \<and>
         (\<not> has_subclass cat (relid rte) \<or>
          plan_rowmark_found cat proot rtindex \<and>
          length (inheritance_set cat proot rtindex (relid rte)) < 2 \<longrightarrow>
            expand_inherited_rtentry cat depth proot rtindex = Inr (clear_inh proot rtindex)) \<and>
         (plan_rowmark_found cat proot rtindex \<and>
          (rd_partdesc (heap_open cat (relid rte)) = None \<and>
           children_all_other_temp cat (relid rte)
             (inheritance_set cat proot rtindex (relid rte)) \<or>
           no_live_partition cat (heap_open cat (relid rte)) \<and> 0 < depth) \<longrightarrow>
            (\<exists>proot'. expand_inherited_rtentry cat depth proot rtindex = Inr proot')) \<and>
         (rd_relkind (heap_open cat (relid rte)) \<noteq> RELKIND_PARTITIONED_TABLE \<and>
          count_list (inheritance_set cat proot rtindex (relid rte)) (relid rte) = 1 \<longrightarrow>
            fewer_than_two_appinfos cat (heap_open cat (relid rte))
              (inheritance_set cat proot rtindex (relid rte)) =
            children_all_other_temp cat (relid rte)
              (inheritance_set cat proot rtindex (relid rte))) \<and>
         (childOID \<noteq> rd_id oldrelation \<and> rd_other_temp (heap_open cat childOID) \<longrightarrow>
            expand_inheritance_children cat r p oldrelation rc (childOID # inhOIDs) infos =
            expand_inheritance_children cat r p oldrelation rc inhOIDs infos) \<and>
         (rd_other_temp (heap_open cat childOID) \<longrightarrow>
            expand_partitions cat d r p parentrel rc lm (childOID # oids) hc =
            expand_partitions cat d r p parentrel rc lm oids hc)"
proof (intro conjI allI impI)
  fix proot'
  assume "expand_inherited_rtentry cat depth proot rtindex = Inr proot'"
  from expand_inherited_rtentry_cases [OF assms this]
  show "no_inheritance_case proot rtindex proot' =
              (\<not> has_subclass cat (relid rte) \<or>
               length (inheritance_set cat proot rtindex (relid rte)) < 2 \<or>
               (rd_partdesc (heap_open cat (relid rte)) = None \<and>
                fewer_than_two_appinfos cat (heap_open cat (relid rte))
                  (inheritance_set cat proot rtindex (relid rte))) \<or>
               no_live_partition cat (heap_open cat (relid rte)))" .
next
  assume "\<not> has_subclass cat (relid rte) \<or>
          plan_rowmark_found cat proot rtindex \<and>
          length (inheritance_set cat proot rtindex (relid rte)) < 2"
  from expand_inherited_rtentry_childless [OF assms this]
  show "expand_inherited_rtentry cat depth proot rtindex = Inr (clear_inh proot rtindex)" .
next
  assume a: "plan_rowmark_found cat proot rtindex \<and>
          (rd_partdesc (heap_open cat (relid rte)) = None \<and>
           children_all_other_temp cat (relid rte)
             (inheritance_set cat proot rtindex (relid rte)) \<or>
           no_live_partition cat (heap_open cat (relid rte)) \<and> 0 < depth)"
  from expand_inherited_rtentry_silent [OF assms conjunct1 [OF a] conjunct2 [OF a]]
  show "\<exists>proot'. expand_inherited_rtentry cat depth proot rtindex = Inr proot'" .
next
  assume a: "rd_relkind (heap_open cat (relid rte)) \<noteq> RELKIND_PARTITIONED_TABLE \<and>
          count_list (inheritance_set cat proot rtindex (relid rte)) (relid rte) = 1"
  from fewer_than_two_appinfos_children [of "heap_open cat (relid rte)"
      "inheritance_set cat proot rtindex (relid rte)" cat] a
  show "fewer_than_two_appinfos cat (heap_open cat (relid rte))
              (inheritance_set cat proot rtindex (relid rte)) =
            children_all_other_temp cat (relid rte)
              (inheritance_set cat proot rtindex (relid rte))"
    by (simp add: heap_open_id)
next
  assume "childOID \<noteq> rd_id oldrelation \<and> rd_other_temp (heap_open cat childOID)"
  then show "expand_inheritance_children cat r p oldrelation rc (childOID # inhOIDs) infos =
            expand_inheritance_children cat r p oldrelation rc inhOIDs infos"
    by (simp add: Let_def)
next
  assume "rd_other_temp (heap_open cat childOID)"
  then show "expand_partitions cat d r p parentrel rc lm (childOID # oids) hc =
            expand_partitions cat d r p parentrel rc lm oids hc"
    by (simp add: Let_def)
qed

text \<open>
  Counterexample for C7 as the specification states it. Relation 200 of the example catalog is a
  partitioned table that has subclasses and an inheritance set of two members, so none of
  the three situations of the specification holds: it has subclasses, the enumeration
  returns two members, and the plain-inheritance branch is not taken, because the relation
  has a partition descriptor. Its only partition is a temporary table of another session, and
  \<^verbatim>\<open>expand_inherited_rtentry\<close> degrades to the no-inheritance case: it clears the entry's
  \<^verbatim>\<open>inh\<close> flag and adds no \<^verbatim>\<open>AppendRelInfo\<close>.
\<close>

theorem expand_inherited_rtentry_partitioned_degrades:
  "rt_fetch 1 (rtable (example_expansion [example_rte 200 (CHR ''p'') True {}])) =
     Inr (example_rte 200 (CHR ''p'') True {}) \<and>
   inh (example_rte 200 (CHR ''p'') True {}) \<and>
   rtekind (example_rte 200 (CHR ''p'') True {}) = RTE_RELATION \<and>
   expand_inherited_rtentry example_catalog 1
     (example_expansion [example_rte 200 (CHR ''p'') True {}]) 1 =
     Inr (example_expansion
            [example_rte 200 (CHR ''p'') False {},
             (example_rte 200 (CHR ''p'') False {}) \<lparr> requiredPerms := 0 \<rparr>]) \<and>
   no_inheritance_case (example_expansion [example_rte 200 (CHR ''p'') True {}]) 1
     (example_expansion
        [example_rte 200 (CHR ''p'') False {},
         (example_rte 200 (CHR ''p'') False {}) \<lparr> requiredPerms := 0 \<rparr>]) \<and>
   has_subclass example_catalog 200 \<and>
   length (inheritance_set example_catalog
             (example_expansion [example_rte 200 (CHR ''p'') True {}]) 1 200) = 2 \<and>
   rd_partdesc (heap_open example_catalog 200) = Some [201] \<and>
   rd_other_temp (heap_open example_catalog 201)"
  using example_partitioned_expansion
  by (simp add: example_catalog_simps rt_fetch_def example_expansion_def example_rte_def
      no_inheritance_case_def inheritance_set_def)

text \<open>
  Witness for C7: the plain table 100 of the example catalog, whose inheritance set is itself,
  the child 101 and the foreign temporary table 102. The expansion adds range table entries
  for 100 and 101 and two \<^verbatim>\<open>AppendRelInfo\<close>s, and none of the four situations holds.
\<close>

theorem expand_inherited_rtentry_no_inheritance_witness:
  "rt_fetch 1 (rtable (example_expansion [example_rte 100 (CHR ''r'') True {9}])) =
     Inr (example_rte 100 (CHR ''r'') True {9}) \<and>
   inh (example_rte 100 (CHR ''r'') True {9}) \<and>
   rtekind (example_rte 100 (CHR ''r'') True {9}) = RTE_RELATION \<and>
   expand_inherited_rtentry example_catalog 1
     (example_expansion [example_rte 100 (CHR ''r'') True {9}]) 1 =
   Inr ((example_expansion
           [example_rte 100 (CHR ''r'') True {9},
            (example_rte 100 (CHR ''r'') False {9}) \<lparr> requiredPerms := 0 \<rparr>,
            (example_rte 101 (CHR ''r'') False {10}) \<lparr> requiredPerms := 0 \<rparr>])
        \<lparr> append_rel_list :=
            [\<lparr> parent_relid = 1, child_relid = 2, parent_reltype = 0, child_reltype = 0,
               translated_vars = [Some (T_Var (makeVar 2 1 23 (-1) 0 0)),
                                  Some (T_Var (makeVar 2 2 25 (-1) 100 0))],
               parent_reloid = 100 \<rparr>,
             \<lparr> parent_relid = 1, child_relid = 3, parent_reltype = 0, child_reltype = 0,
               translated_vars = [Some (T_Var (makeVar 3 2 23 (-1) 0 0)),
                                  Some (T_Var (makeVar 3 1 25 (-1) 100 0))],
               parent_reloid = 100 \<rparr>] \<rparr>) \<and>
   has_subclass example_catalog 100 \<and>
   inheritance_set example_catalog
     (example_expansion [example_rte 100 (CHR ''r'') True {9}]) 1 100 = [100, 101, 102] \<and>
   rd_partdesc (heap_open example_catalog 100) = None \<and>
   filter (builds_appinfo example_catalog (heap_open example_catalog 100)) [100, 101, 102] =
     [100, 101] \<and>
   \<not> no_inheritance_case (example_expansion [example_rte 100 (CHR ''r'') True {9}]) 1
       ((example_expansion
           [example_rte 100 (CHR ''r'') True {9},
            (example_rte 100 (CHR ''r'') False {9}) \<lparr> requiredPerms := 0 \<rparr>,
            (example_rte 101 (CHR ''r'') False {10}) \<lparr> requiredPerms := 0 \<rparr>])
        \<lparr> append_rel_list :=
            [\<lparr> parent_relid = 1, child_relid = 2, parent_reltype = 0, child_reltype = 0,
               translated_vars = [Some (T_Var (makeVar 2 1 23 (-1) 0 0)),
                                  Some (T_Var (makeVar 2 2 25 (-1) 100 0))],
               parent_reloid = 100 \<rparr>,
             \<lparr> parent_relid = 1, child_relid = 3, parent_reltype = 0, child_reltype = 0,
               translated_vars = [Some (T_Var (makeVar 3 2 23 (-1) 0 0)),
                                  Some (T_Var (makeVar 3 1 25 (-1) 100 0))],
               parent_reloid = 100 \<rparr>] \<rparr>)"
proof -
  let ?W = "example_expansion [example_rte 100 (CHR ''r'') True {9}]"
  let ?rte = "example_rte 100 (CHR ''r'') True {9}"
  have f: "rt_fetch 1 (rtable ?W) = Inr ?rte"
    by (simp add: rt_fetch_def example_expansion_def)
  have i: "inh ?rte" and k: "rtekind ?rte = RTE_RELATION" and o: "relid ?rte = 100"
    by (simp_all add: example_rte_def)
  have s: "has_subclass example_catalog 100"
    "inheritance_set example_catalog ?W 1 100 = [100, 101, 102]"
    "rd_partdesc (heap_open example_catalog 100) = None"
    by (simp_all add: example_catalog_simps inheritance_set_def)
  have b: "filter (builds_appinfo example_catalog (heap_open example_catalog 100))
             [100, 101, 102] = [100, 101]"
    by (simp add: builds_appinfo_def example_catalog_simps RELKIND_PARTITIONED_TABLE_def)
  have n: "\<not> no_live_partition example_catalog (heap_open example_catalog 100)"
    by (simp add: no_live_partition_def example_catalog_simps)
  note t = expand_inherited_rtentry_no_inheritance [OF f i k, of example_catalog 1,
      THEN conjunct1, rule_format, OF example_inheritance_expansion]
  from t s b n have "\<not> no_inheritance_case ?W 1
       ((example_expansion
           [example_rte 100 (CHR ''r'') True {9},
            (example_rte 100 (CHR ''r'') False {9}) \<lparr> requiredPerms := 0 \<rparr>,
            (example_rte 101 (CHR ''r'') False {10}) \<lparr> requiredPerms := 0 \<rparr>])
        \<lparr> append_rel_list :=
            [\<lparr> parent_relid = 1, child_relid = 2, parent_reltype = 0, child_reltype = 0,
               translated_vars = [Some (T_Var (makeVar 2 1 23 (-1) 0 0)),
                                  Some (T_Var (makeVar 2 2 25 (-1) 100 0))],
               parent_reloid = 100 \<rparr>,
             \<lparr> parent_relid = 1, child_relid = 3, parent_reltype = 0, child_reltype = 0,
               translated_vars = [Some (T_Var (makeVar 3 2 23 (-1) 0 0)),
                                  Some (T_Var (makeVar 3 1 25 (-1) 100 0))],
               parent_reloid = 100 \<rparr>] \<rparr>)"
    by (simp add: o fewer_than_two_appinfos_def)
  with f i k s b example_inheritance_expansion show ?thesis
    by simp
qed

subsection \<open>Translation lists of inheritance children\<close>

text \<open>
  The translation lists that \<^verbatim>\<open>make_inh_translation_list\<close> builds are those
  \<^verbatim>\<open>translate_col_privs\<close> is specified for: when neither relation has more than 32767 columns
  (the range of \<^verbatim>\<open>AttrNumber\<close>), every live entry carries a positive child attribute number.
\<close>

lemma find_child_attribute_range:
  "find_child_attribute cat newrelation att new_attno = Inr (found_attno, new_att) \<Longrightarrow>
   0 \<le> found_attno \<and> found_attno < int (length (rd_att newrelation))"
  by (auto simp: find_child_attribute_def Let_def split: if_splits option.splits)

lemma inh_translation_loop_positive:
  "inh_translation_loop cat oldrelation newrelation newvarno old_attno new_attno atts = Inr vars \<Longrightarrow>
   0 \<le> old_attno \<Longrightarrow> old_attno + int (length atts) \<le> 32767 \<Longrightarrow>
   length (rd_att newrelation) \<le> 32767 \<Longrightarrow>
   live_attnos_positive vars"
proof (induction atts arbitrary: old_attno new_attno vars)
  case Nil
  then show ?case by (simp add: live_attnos_positive_def)
next
  case (Cons att atts)
  have cast: "0 \<le> k \<Longrightarrow> k < 32767 \<Longrightarrow> 0 < AttrNumber_of_int (k + 1)" for k
    by (simp add: AttrNumber_of_int_def signed_take_bit_int_eq_self)
  have next_ok: "0 \<le> old_attno + 1" "old_attno + 1 + int (length atts) \<le> 32767"
    using Cons.prems(2,3) by simp_all
  show ?case
  proof (cases "attisdropped att")
    case True
    with Cons.prems(1) obtain rest where
      r: "inh_translation_loop cat oldrelation newrelation newvarno (old_attno + 1) new_attno atts
            = Inr rest"
      and v: "vars = None # rest"
      by (auto split: sum.splits)
    from Cons.IH [OF r next_ok Cons.prems(4)] v show ?thesis
      by (simp add: live_attnos_positive_def)
  next
    case live: False
    show ?thesis
    proof (cases "rd_id oldrelation = rd_id newrelation")
      case True
      with live Cons.prems(1) obtain rest where
        r: "inh_translation_loop cat oldrelation newrelation newvarno (old_attno + 1) new_attno
              atts = Inr rest"
        and v: "vars = Some (makeVar newvarno (AttrNumber_of_int (old_attno + 1))
                          (atttypid att) (atttypmod att) (attcollation att) 0) # rest"
        by (auto split: sum.splits)
      have "0 < AttrNumber_of_int (old_attno + 1)"
        using cast [of old_attno] Cons.prems(2,3) by simp
      with Cons.IH [OF r next_ok Cons.prems(4)] v show ?thesis
        by (simp add: live_attnos_positive_def makeVar_def)
    next
      case False
      with live Cons.prems(1) obtain found_attno new_att rest where
        f: "find_child_attribute cat newrelation att new_attno = Inr (found_attno, new_att)"
        and r: "inh_translation_loop cat oldrelation newrelation newvarno (old_attno + 1)
              (found_attno + 1) atts = Inr rest"
        and v: "vars = Some (makeVar newvarno (AttrNumber_of_int (found_attno + 1))
                          (atttypid att) (atttypmod att) (attcollation att) 0) # rest"
        by (auto split: sum.splits if_splits prod.splits)
      from find_child_attribute_range [OF f] Cons.prems(4)
      have "0 < AttrNumber_of_int (found_attno + 1)"
        using cast [of found_attno] by simp
      with Cons.IH [OF r next_ok Cons.prems(4)] v show ?thesis
        by (simp add: live_attnos_positive_def makeVar_def)
    qed
  qed
qed

lemma make_inh_translation_list_positive:
  "make_inh_translation_list cat oldrelation newrelation newvarno = Inr vars \<Longrightarrow>
   length (rd_att oldrelation) \<le> 32767 \<Longrightarrow> length (rd_att newrelation) \<le> 32767 \<Longrightarrow>
   live_attnos_positive vars"
  using inh_translation_loop_positive [of cat oldrelation newrelation newvarno 0 0
      "rd_att oldrelation" vars]
  by (simp add: make_inh_translation_list_def)

end
